theory Spec2Isabelle
  imports Complex_Main "HOL-Library.Word"
begin

section \<open>Frag Frog: render targets, uniform sources and the draw protocol\<close>

text \<open>
  A shallow embedding of the TypeScript library (\<^verbatim>\<open>context.ts\<close>, \<^verbatim>\<open>shader.ts\<close>,
  \<^verbatim>\<open>framebuffer.ts\<close>, \<^verbatim>\<open>doublebuffer.ts\<close>, \<^verbatim>\<open>wrapped-tex-image-source.ts\<close>,
  \<^verbatim>\<open>utils.ts\<close>).

  \<^item> A JavaScript \<^verbatim>\<open>throw new Error(msg)\<close> is the value \<open>Error msg\<close>.
  \<^item> The library's objects (Shader, Framebuffer, Doublebuffer) are mutable and shared by
    reference; they live in stores indexed by a reference, inside the \<open>world\<close>.
  \<^item> The WebGL device is an explicit state \<open>gl_state\<close>; every \<^verbatim>\<open>gl.*\<close> call of the source
    is a function on it. What only the device can answer (does this text compile, where
    is this uniform, what colour is this pixel) is a field of the record \<open>device\<close>.
  \<^item> A function that may throw returns an \<open>outcome\<close> together with the world it leaves
    behind: the mutations made before a \<^verbatim>\<open>throw\<close> stay.
\<close>

subsection \<open>Errors and outcomes\<close>

datatype error = Error string

datatype 'a outcome = Return 'a | Throw error

subsection \<open>Device constants\<close>

text \<open>
  The constants of the \<^verbatim>\<open>gl\<close> object that the source passes to the device.
  \<open>TEXTURE i\<close> stands for \<^verbatim>\<open>gl.TEXTUREi\<close> and \<open>COLOR_ATTACHMENT i\<close> for
  \<^verbatim>\<open>gl.COLOR_ATTACHMENTi\<close>. The source reads them from its \<^verbatim>\<open>gl\<close> argument, which the
  model therefore drops. The targets \<^verbatim>\<open>gl.TEXTURE_2D\<close> and \<^verbatim>\<open>gl.FRAMEBUFFER\<close> are the
  only ones the source uses and are left out of the signatures.
\<close>

datatype gl_enum =
    TEXTURE nat | COLOR_ATTACHMENT nat
  | LINEAR | NEAREST
  | REPEAT | CLAMP_TO_EDGE | MIRRORED_REPEAT
  | TEXTURE_MIN_FILTER | TEXTURE_MAG_FILTER | TEXTURE_WRAP_S | TEXTURE_WRAP_T
  | RGBA | RGBA32F | UNSIGNED_BYTE | FLOAT
  | VERTEX_SHADER | FRAGMENT_SHADER
  | ARRAY_BUFFER | ELEMENT_ARRAY_BUFFER

subsection \<open>utils.ts\<close>

text \<open>\<^verbatim>\<open>range(end)\<close> is \<^verbatim>\<open>[...new Array(end).keys()]\<close>: the numbers \<open>0, ..., end - 1\<close>.\<close>

definition range_upto :: "nat \<Rightarrow> int list" where
  "range_upto end = map int [0..<end]"

text \<open>The two \<^verbatim>\<open>switch\<close> statements, case by case; \<^verbatim>\<open>default\<close> throws.\<close>

definition getTextureNumber :: "int \<Rightarrow> error + gl_enum" where
  "getTextureNumber index =
    (if index = 0 then Inr (TEXTURE 0)
     else if index = 1 then Inr (TEXTURE 1)
     else if index = 2 then Inr (TEXTURE 2)
     else if index = 3 then Inr (TEXTURE 3)
     else if index = 4 then Inr (TEXTURE 4)
     else if index = 5 then Inr (TEXTURE 5)
     else if index = 6 then Inr (TEXTURE 6)
     else if index = 7 then Inr (TEXTURE 7)
     else if index = 8 then Inr (TEXTURE 8)
     else if index = 9 then Inr (TEXTURE 9)
     else if index = 10 then Inr (TEXTURE 10)
     else if index = 11 then Inr (TEXTURE 11)
     else if index = 12 then Inr (TEXTURE 12)
     else if index = 13 then Inr (TEXTURE 13)
     else if index = 14 then Inr (TEXTURE 14)
     else if index = 15 then Inr (TEXTURE 15)
     else if index = 16 then Inr (TEXTURE 16)
     else if index = 17 then Inr (TEXTURE 17)
     else if index = 18 then Inr (TEXTURE 18)
     else if index = 19 then Inr (TEXTURE 19)
     else if index = 20 then Inr (TEXTURE 20)
     else if index = 21 then Inr (TEXTURE 21)
     else if index = 22 then Inr (TEXTURE 22)
     else if index = 23 then Inr (TEXTURE 23)
     else if index = 24 then Inr (TEXTURE 24)
     else if index = 25 then Inr (TEXTURE 25)
     else if index = 26 then Inr (TEXTURE 26)
     else if index = 27 then Inr (TEXTURE 27)
     else if index = 28 then Inr (TEXTURE 28)
     else if index = 29 then Inr (TEXTURE 29)
     else if index = 30 then Inr (TEXTURE 30)
     else if index = 31 then Inr (TEXTURE 31)
     else Inl (Error ''Invalid texture index''))"

definition getColorAttachmentNumber :: "int \<Rightarrow> error + gl_enum" where
  "getColorAttachmentNumber index =
    (if index = 0 then Inr (COLOR_ATTACHMENT 0)
     else if index = 1 then Inr (COLOR_ATTACHMENT 1)
     else if index = 2 then Inr (COLOR_ATTACHMENT 2)
     else if index = 3 then Inr (COLOR_ATTACHMENT 3)
     else if index = 4 then Inr (COLOR_ATTACHMENT 4)
     else if index = 5 then Inr (COLOR_ATTACHMENT 5)
     else if index = 6 then Inr (COLOR_ATTACHMENT 6)
     else if index = 7 then Inr (COLOR_ATTACHMENT 7)
     else if index = 8 then Inr (COLOR_ATTACHMENT 8)
     else if index = 9 then Inr (COLOR_ATTACHMENT 9)
     else if index = 10 then Inr (COLOR_ATTACHMENT 10)
     else if index = 11 then Inr (COLOR_ATTACHMENT 11)
     else if index = 12 then Inr (COLOR_ATTACHMENT 12)
     else if index = 13 then Inr (COLOR_ATTACHMENT 13)
     else if index = 14 then Inr (COLOR_ATTACHMENT 14)
     else if index = 15 then Inr (COLOR_ATTACHMENT 15)
     else Inl (Error ''Invalid attachment index''))"

subsection \<open>The WebGL device\<close>

text \<open>
  Device objects (textures, framebuffer objects, shader stages, programs, buffers) are
  named by a \<open>handle\<close>; \<open>next_name\<close> is the first name not handed out yet. \<^verbatim>\<open>null\<close> and
  \<^verbatim>\<open>undefined\<close> passed where the device expects an object are \<open>None\<close>.

  The model records what the calls of the source do to the objects and bindings. It does
  not model the device's error flag: a call the device would reject leaves the state as
  the equations below say. The image held by a texture is known by its provenance only
  (\<open>content\<close>): cleared storage, the pixels of a \<^verbatim>\<open>TexImageSource\<close>, or the output of the
  \<open>n\<close>-th draw call.
\<close>

type_synonym handle = nat
type_synonym location = nat
type_synonym image = nat

text \<open>
  A JavaScript number: a finite number (\<open>Num x\<close>, with \<open>x\<close> its value), the two infinities,
  or \<^verbatim>\<open>NaN\<close>. The sign of zero is not modelled: \<^verbatim>\<open>-0\<close> and \<^verbatim>\<open>0\<close> are equal under \<^verbatim>\<open>!==\<close>, and
  both become the integer 0 where the device takes a size. The size of a Framebuffer is
  computed in double precision (\<open>js_mul\<close>, \<open>js_floor\<close> below); a value handed to a float
  uniform (\<open>js_div\<close>, the times) is kept as the real number that the double approximates.
\<close>

datatype jsnum = Num real | Infinity | NegInfinity | NaN

text \<open>
  Rounding of a real number to the nearest double, ties to the even significand. The
  doubles of magnitude at least \<open>2 powi b\<close> and less than \<open>2 powi (b + 1)\<close> are the multiples
  of \<open>2 powi (b - 52)\<close>, no double is finer than \<open>2 powi (- 1074)\<close>, and a result of magnitude
  \<open>2 ^ 1024\<close> is an infinity.
\<close>

definition round_half_even :: "real \<Rightarrow> int" where
  "round_half_even q =
    (let n = \<lfloor>q\<rfloor>; r = q - real_of_int n
     in if r < 1 / 2 then n else if 1 / 2 < r then n + 1 else if even n then n else n + 1)"

definition to_double :: "real \<Rightarrow> jsnum" where
  "to_double x =
    (if x = 0 then Num 0
     else
      (let e = max (\<lfloor>log 2 \<bar>x\<bar>\<rfloor> - 52) (- 1074);
           y = real_of_int (round_half_even (x / 2 powi e)) * 2 powi e
       in if 2 ^ 1024 \<le> y then Infinity
          else if y \<le> - (2 ^ 1024) then NegInfinity
          else Num y))"

text \<open>The product \<^verbatim>\<open>a * b\<close> of two numbers, \<^verbatim>\<open>Math.floor(a)\<close>, and \<^verbatim>\<open>a !== b\<close>.\<close>

definition js_sign :: "jsnum \<Rightarrow> int" where
  "js_sign a =
    (case a of
       Num x \<Rightarrow> (if x = 0 then 0 else if 0 < x then 1 else - 1)
     | Infinity \<Rightarrow> 1 | NegInfinity \<Rightarrow> - 1 | NaN \<Rightarrow> 0)"

definition js_mul :: "jsnum \<Rightarrow> jsnum \<Rightarrow> jsnum" where
  "js_mul a b =
    (case (a, b) of
       (Num x, Num y) \<Rightarrow> to_double (x * y)
     | _ \<Rightarrow>
        if a = NaN \<or> b = NaN \<or> js_sign a * js_sign b = 0 then NaN
        else if 0 < js_sign a * js_sign b then Infinity else NegInfinity)"

definition js_floor :: "jsnum \<Rightarrow> jsnum" where
  "js_floor a = (case a of Num x \<Rightarrow> Num (real_of_int \<lfloor>x\<rfloor>) | _ \<Rightarrow> a)"

definition js_strict_neq :: "jsnum \<Rightarrow> jsnum \<Rightarrow> bool" where
  "js_strict_neq a b = (a = NaN \<or> b = NaN \<or> a \<noteq> b)"

text \<open>
  A number passed where the device takes a \<^verbatim>\<open>GLsizei\<close> (a Web IDL \<^verbatim>\<open>long\<close>): \<^verbatim>\<open>NaN\<close> and the
  infinities become 0, any other number is truncated and wrapped into 32 bits.
\<close>

definition ToInt32 :: "jsnum \<Rightarrow> int" where
  "ToInt32 a =
    (case a of
       Num x \<Rightarrow>
        (let n = (if 0 \<le> x then \<lfloor>x\<rfloor> else \<lceil>x\<rceil>);
             k = n mod 2 ^ 32
         in if 2 ^ 31 \<le> k then k - 2 ^ 32 else k)
     | _ \<Rightarrow> 0)"

definition js_div :: "real \<Rightarrow> real \<Rightarrow> jsnum" where
  "js_div a b =
    (if b \<noteq> 0 then Num (a / b)
     else if a = 0 then NaN else if 0 < a then Infinity else NegInfinity)"

datatype uniform_value =
    Uniform1i int
  | Uniform1f jsnum
  | Uniform2fv jsnum jsnum
  | Uniform3fv jsnum jsnum jsnum
  | Uniform4fv jsnum jsnum jsnum jsnum

datatype content = Cleared | Pixels_of image | Drawn nat

record tex_image =
  internalformat :: gl_enum
  dimensions :: "(int \<times> int) option"
  data_type :: gl_enum
  content :: content

record texture_object =
  level0 :: "tex_image option"
  tex_parameter :: "gl_enum \<rightharpoonup> gl_enum"

record framebuffer_object =
  attachment :: "gl_enum \<rightharpoonup> handle"
  draw_buffers :: "gl_enum list"

record shader_object =
  shader_type :: gl_enum
  shader_source :: string
  COMPILE_STATUS :: bool

record program_object =
  attached_shaders :: "handle list"
  LINK_STATUS :: bool

record gl_state =
  next_name :: handle
  texture_objects :: "handle \<rightharpoonup> texture_object"
  framebuffer_objects :: "handle \<rightharpoonup> framebuffer_object"
  shader_objects :: "handle \<rightharpoonup> shader_object"
  program_objects :: "handle \<rightharpoonup> program_object"
  buffer_objects :: "handle \<rightharpoonup> int list"
  FRAMEBUFFER_BINDING :: "handle option"
  ACTIVE_TEXTURE :: gl_enum
  TEXTURE_BINDING_2D :: "gl_enum \<Rightarrow> handle option"
  ARRAY_BUFFER_BINDING :: "handle option"
  ELEMENT_ARRAY_BUFFER_BINDING :: "handle option"
  vertex_attrib_pointer :: "int \<rightharpoonup> handle option"
  vertex_attrib_enabled :: "int set"
  CURRENT_PROGRAM :: "handle option"
  uniform_values :: "handle \<Rightarrow> location \<rightharpoonup> uniform_value"
  VIEWPORT :: "int \<times> int \<times> int \<times> int"
  canvas_content :: content
  draw_calls :: nat

text \<open>
  What the source asks the device and cannot compute itself: whether a stage compiles and
  its diagnostic, whether a program links, where a uniform or attribute lives, which
  extensions exist, whether a WebGL2 context can be had, and the colour of a pixel of the
  framebuffer bound for reading (\<open>None\<close> when \<^verbatim>\<open>readPixels\<close> writes nothing).
\<close>

record device =
  webgl2_available :: bool
  EXT_color_buffer_float :: bool
  OES_texture_float_linear :: bool
  compiles :: "gl_enum \<Rightarrow> string \<Rightarrow> bool"
  info_log :: "gl_enum \<Rightarrow> string \<Rightarrow> string"
  links :: "(gl_enum \<times> string) list \<Rightarrow> bool"
  uniform_location :: "handle \<Rightarrow> string \<Rightarrow> location option"
  attrib_location :: "handle \<Rightarrow> string \<Rightarrow> int"
  pixel_at :: "gl_state \<Rightarrow> int \<Rightarrow> int \<Rightarrow> (8 word \<times> 8 word \<times> 8 word \<times> 8 word) option"

definition initial_gl :: gl_state where
  "initial_gl =
    \<lparr>next_name = 0, texture_objects = Map.empty, framebuffer_objects = Map.empty,
     shader_objects = Map.empty, program_objects = Map.empty, buffer_objects = Map.empty,
     FRAMEBUFFER_BINDING = None, ACTIVE_TEXTURE = TEXTURE 0,
     TEXTURE_BINDING_2D = (\<lambda>_. None),
     ARRAY_BUFFER_BINDING = None, ELEMENT_ARRAY_BUFFER_BINDING = None,
     vertex_attrib_pointer = Map.empty, vertex_attrib_enabled = {},
     CURRENT_PROGRAM = None, uniform_values = (\<lambda>_. Map.empty),
     VIEWPORT = (0, 0, 0, 0), canvas_content = Cleared, draw_calls = 0\<rparr>"

text \<open>Object creation: \<^verbatim>\<open>gl.createTexture()\<close> and its siblings return a fresh name.\<close>

definition gl_createTexture :: "gl_state \<Rightarrow> handle \<times> gl_state" where
  "gl_createTexture g =
    (next_name g,
     g\<lparr>next_name := Suc (next_name g),
       texture_objects := (texture_objects g)
         (next_name g \<mapsto> \<lparr>level0 = None, tex_parameter = Map.empty\<rparr>)\<rparr>)"

definition gl_createFramebuffer :: "gl_state \<Rightarrow> handle \<times> gl_state" where
  "gl_createFramebuffer g =
    (next_name g,
     g\<lparr>next_name := Suc (next_name g),
       framebuffer_objects := (framebuffer_objects g)
         (next_name g \<mapsto> \<lparr>attachment = Map.empty, draw_buffers = [COLOR_ATTACHMENT 0]\<rparr>)\<rparr>)"

definition gl_createShader :: "gl_enum \<Rightarrow> gl_state \<Rightarrow> handle \<times> gl_state" where
  "gl_createShader type g =
    (next_name g,
     g\<lparr>next_name := Suc (next_name g),
       shader_objects := (shader_objects g)
         (next_name g \<mapsto> \<lparr>shader_type = type, shader_source = [], COMPILE_STATUS = False\<rparr>)\<rparr>)"

definition gl_createProgram :: "gl_state \<Rightarrow> handle \<times> gl_state" where
  "gl_createProgram g =
    (next_name g,
     g\<lparr>next_name := Suc (next_name g),
       program_objects := (program_objects g)
         (next_name g \<mapsto> \<lparr>attached_shaders = [], LINK_STATUS = False\<rparr>)\<rparr>)"

definition gl_createBuffer :: "gl_state \<Rightarrow> handle \<times> gl_state" where
  "gl_createBuffer g =
    (next_name g,
     g\<lparr>next_name := Suc (next_name g),
       buffer_objects := (buffer_objects g)(next_name g \<mapsto> [])\<rparr>)"

text \<open>Bindings.\<close>

definition gl_bindFramebuffer :: "handle option \<Rightarrow> gl_state \<Rightarrow> gl_state" where
  "gl_bindFramebuffer fbo g = g\<lparr>FRAMEBUFFER_BINDING := fbo\<rparr>"

definition gl_activeTexture :: "gl_enum \<Rightarrow> gl_state \<Rightarrow> gl_state" where
  "gl_activeTexture unit g = g\<lparr>ACTIVE_TEXTURE := unit\<rparr>"

definition gl_bindTexture :: "handle option \<Rightarrow> gl_state \<Rightarrow> gl_state" where
  "gl_bindTexture texture g =
    g\<lparr>TEXTURE_BINDING_2D := (TEXTURE_BINDING_2D g)(ACTIVE_TEXTURE g := texture)\<rparr>"

definition gl_bindBuffer :: "gl_enum \<Rightarrow> handle option \<Rightarrow> gl_state \<Rightarrow> gl_state" where
  "gl_bindBuffer target buffer g =
    (if target = ARRAY_BUFFER then g\<lparr>ARRAY_BUFFER_BINDING := buffer\<rparr>
     else if target = ELEMENT_ARRAY_BUFFER then g\<lparr>ELEMENT_ARRAY_BUFFER_BINDING := buffer\<rparr>
     else g)"

definition gl_useProgram :: "handle option \<Rightarrow> gl_state \<Rightarrow> gl_state" where
  "gl_useProgram program g = g\<lparr>CURRENT_PROGRAM := program\<rparr>"

definition gl_viewport :: "int \<Rightarrow> int \<Rightarrow> int \<Rightarrow> int \<Rightarrow> gl_state \<Rightarrow> gl_state" where
  "gl_viewport x y w h g = g\<lparr>VIEWPORT := (x, y, w, h)\<rparr>"

text \<open>
  Texture state. All of these act on the texture bound to \<^verbatim>\<open>TEXTURE_2D\<close> on the active
  unit, and do nothing when none is bound there.
\<close>

definition bound_texture :: "gl_state \<Rightarrow> handle option" where
  "bound_texture g = TEXTURE_BINDING_2D g (ACTIVE_TEXTURE g)"

definition update_bound_texture ::
  "(texture_object \<Rightarrow> texture_object) \<Rightarrow> gl_state \<Rightarrow> gl_state" where
  "update_bound_texture f g =
    (case bound_texture g of
       None \<Rightarrow> g
     | Some t \<Rightarrow>
        (case texture_objects g t of
           None \<Rightarrow> g
         | Some obj \<Rightarrow> g\<lparr>texture_objects := (texture_objects g)(t \<mapsto> f obj)\<rparr>))"

text \<open>\<^verbatim>\<open>texImage2D(target, level, internalformat, width, height, border, format, type, null)\<close>\<close>

definition gl_texImage2D_null ::
  "gl_enum \<Rightarrow> int \<Rightarrow> int \<Rightarrow> gl_enum \<Rightarrow> gl_enum \<Rightarrow> gl_state \<Rightarrow> gl_state" where
  "gl_texImage2D_null internal w h format type g =
    update_bound_texture
      (\<lambda>obj. obj\<lparr>level0 := Some \<lparr>internalformat = internal, dimensions = Some (w, h),
                                  data_type = type, content = Cleared\<rparr>\<rparr>) g"

text \<open>\<^verbatim>\<open>texImage2D(target, level, internalformat, format, type, source)\<close>\<close>

definition gl_texImage2D_source ::
  "gl_enum \<Rightarrow> gl_enum \<Rightarrow> gl_enum \<Rightarrow> image \<Rightarrow> gl_state \<Rightarrow> gl_state" where
  "gl_texImage2D_source internal format type source g =
    update_bound_texture
      (\<lambda>obj. obj\<lparr>level0 := Some \<lparr>internalformat = internal, dimensions = None,
                                  data_type = type, content = Pixels_of source\<rparr>\<rparr>) g"

definition gl_texParameteri :: "gl_enum \<Rightarrow> gl_enum \<Rightarrow> gl_state \<Rightarrow> gl_state" where
  "gl_texParameteri pname param g =
    update_bound_texture (\<lambda>obj. obj\<lparr>tex_parameter := (tex_parameter obj)(pname \<mapsto> param)\<rparr>) g"

definition gl_deleteTexture :: "handle \<Rightarrow> gl_state \<Rightarrow> gl_state" where
  "gl_deleteTexture texture g =
    g\<lparr>texture_objects := (texture_objects g)(texture := None),
      TEXTURE_BINDING_2D :=
        (\<lambda>unit. if TEXTURE_BINDING_2D g unit = Some texture then None
                 else TEXTURE_BINDING_2D g unit)\<rparr>"

text \<open>Framebuffer objects: these act on the framebuffer object that is bound.\<close>

definition update_bound_framebuffer ::
  "(framebuffer_object \<Rightarrow> framebuffer_object) \<Rightarrow> gl_state \<Rightarrow> gl_state" where
  "update_bound_framebuffer f g =
    (case FRAMEBUFFER_BINDING g of
       None \<Rightarrow> g
     | Some b \<Rightarrow>
        (case framebuffer_objects g b of
           None \<Rightarrow> g
         | Some obj \<Rightarrow> g\<lparr>framebuffer_objects := (framebuffer_objects g)(b \<mapsto> f obj)\<rparr>))"

definition gl_framebufferTexture2D :: "gl_enum \<Rightarrow> handle option \<Rightarrow> gl_state \<Rightarrow> gl_state" where
  "gl_framebufferTexture2D attach texture g =
    update_bound_framebuffer (\<lambda>obj. obj\<lparr>attachment := (attachment obj)(attach := texture)\<rparr>) g"

definition gl_drawBuffers :: "gl_enum list \<Rightarrow> gl_state \<Rightarrow> gl_state" where
  "gl_drawBuffers bufs g = update_bound_framebuffer (\<lambda>obj. obj\<lparr>draw_buffers := bufs\<rparr>) g"

definition gl_deleteFramebuffer :: "handle option \<Rightarrow> gl_state \<Rightarrow> gl_state" where
  "gl_deleteFramebuffer fbo g =
    (case fbo of
       None \<Rightarrow> g
     | Some b \<Rightarrow>
        g\<lparr>framebuffer_objects := (framebuffer_objects g)(b := None),
          FRAMEBUFFER_BINDING :=
            (if FRAMEBUFFER_BINDING g = Some b then None else FRAMEBUFFER_BINDING g)\<rparr>)"

text \<open>Uniforms of the program in use; a \<^verbatim>\<open>null\<close> location is ignored by the device.\<close>

definition gl_uniform :: "location option \<Rightarrow> uniform_value \<Rightarrow> gl_state \<Rightarrow> gl_state" where
  "gl_uniform loc v g =
    (case (loc, CURRENT_PROGRAM g) of
       (Some l, Some p) \<Rightarrow>
         g\<lparr>uniform_values := (uniform_values g)(p := (uniform_values g p)(l \<mapsto> v))\<rparr>
     | _ \<Rightarrow> g)"

definition gl_uniform1i :: "location option \<Rightarrow> int \<Rightarrow> gl_state \<Rightarrow> gl_state" where
  "gl_uniform1i loc v = gl_uniform loc (Uniform1i v)"

definition gl_uniform1f :: "location option \<Rightarrow> jsnum \<Rightarrow> gl_state \<Rightarrow> gl_state" where
  "gl_uniform1f loc v = gl_uniform loc (Uniform1f v)"

definition gl_uniform2fv :: "location option \<Rightarrow> jsnum \<times> jsnum \<Rightarrow> gl_state \<Rightarrow> gl_state" where
  "gl_uniform2fv loc v = gl_uniform loc (Uniform2fv (fst v) (snd v))"

definition gl_uniform3fv ::
  "location option \<Rightarrow> jsnum \<times> jsnum \<times> jsnum \<Rightarrow> gl_state \<Rightarrow> gl_state" where
  "gl_uniform3fv loc v = gl_uniform loc (Uniform3fv (fst v) (fst (snd v)) (snd (snd v)))"

definition gl_uniform4fv ::
  "location option \<Rightarrow> jsnum \<times> jsnum \<times> jsnum \<times> jsnum \<Rightarrow> gl_state \<Rightarrow> gl_state" where
  "gl_uniform4fv loc v =
    gl_uniform loc
      (Uniform4fv (fst v) (fst (snd v)) (fst (snd (snd v))) (snd (snd (snd v))))"

text \<open>Shader stages and programs.\<close>

definition gl_shaderSource :: "handle \<Rightarrow> string \<Rightarrow> gl_state \<Rightarrow> gl_state" where
  "gl_shaderSource shader source g =
    (case shader_objects g shader of
       None \<Rightarrow> g
     | Some obj \<Rightarrow>
        g\<lparr>shader_objects := (shader_objects g)(shader \<mapsto> obj\<lparr>shader_source := source\<rparr>)\<rparr>)"

definition gl_compileShader :: "device \<Rightarrow> handle \<Rightarrow> gl_state \<Rightarrow> gl_state" where
  "gl_compileShader dev shader g =
    (case shader_objects g shader of
       None \<Rightarrow> g
     | Some obj \<Rightarrow>
        g\<lparr>shader_objects := (shader_objects g)
            (shader \<mapsto> obj\<lparr>COMPILE_STATUS := compiles dev (shader_type obj) (shader_source obj)\<rparr>)\<rparr>)"

definition gl_getShaderParameter_COMPILE_STATUS :: "gl_state \<Rightarrow> handle \<Rightarrow> bool" where
  "gl_getShaderParameter_COMPILE_STATUS g shader =
    (case shader_objects g shader of None \<Rightarrow> False | Some obj \<Rightarrow> COMPILE_STATUS obj)"

definition gl_getShaderInfoLog :: "device \<Rightarrow> gl_state \<Rightarrow> handle \<Rightarrow> string" where
  "gl_getShaderInfoLog dev g shader =
    (case shader_objects g shader of
       None \<Rightarrow> []
     | Some obj \<Rightarrow> info_log dev (shader_type obj) (shader_source obj))"

definition gl_attachShader :: "handle \<Rightarrow> handle \<Rightarrow> gl_state \<Rightarrow> gl_state" where
  "gl_attachShader program shader g =
    (case program_objects g program of
       None \<Rightarrow> g
     | Some obj \<Rightarrow>
        g\<lparr>program_objects := (program_objects g)
            (program \<mapsto> obj\<lparr>attached_shaders := attached_shaders obj @ [shader]\<rparr>)\<rparr>)"

definition stage_texts :: "gl_state \<Rightarrow> handle list \<Rightarrow> (gl_enum \<times> string) list" where
  "stage_texts g hs =
    concat (map (\<lambda>h. case shader_objects g h of
                        None \<Rightarrow> []
                      | Some obj \<Rightarrow> [(shader_type obj, shader_source obj)]) hs)"

definition gl_linkProgram :: "device \<Rightarrow> handle \<Rightarrow> gl_state \<Rightarrow> gl_state" where
  "gl_linkProgram dev program g =
    (case program_objects g program of
       None \<Rightarrow> g
     | Some obj \<Rightarrow>
        g\<lparr>program_objects := (program_objects g)
            (program \<mapsto> obj\<lparr>LINK_STATUS := links dev (stage_texts g (attached_shaders obj))\<rparr>)\<rparr>)"

definition gl_getProgramParameter_LINK_STATUS :: "gl_state \<Rightarrow> handle \<Rightarrow> bool" where
  "gl_getProgramParameter_LINK_STATUS g program =
    (case program_objects g program of None \<Rightarrow> False | Some obj \<Rightarrow> LINK_STATUS obj)"

text \<open>Vertex data.\<close>

definition gl_enableVertexAttribArray :: "int \<Rightarrow> gl_state \<Rightarrow> gl_state" where
  "gl_enableVertexAttribArray index g =
    g\<lparr>vertex_attrib_enabled := insert index (vertex_attrib_enabled g)\<rparr>"

definition gl_bufferData :: "gl_enum \<Rightarrow> int list \<Rightarrow> gl_state \<Rightarrow> gl_state" where
  "gl_bufferData target values g =
    (case (if target = ARRAY_BUFFER then ARRAY_BUFFER_BINDING g
           else if target = ELEMENT_ARRAY_BUFFER then ELEMENT_ARRAY_BUFFER_BINDING g
           else None) of
       None \<Rightarrow> g
     | Some b \<Rightarrow> g\<lparr>buffer_objects := (buffer_objects g)(b \<mapsto> values)\<rparr>)"

definition gl_vertexAttribPointer :: "int \<Rightarrow> gl_state \<Rightarrow> gl_state" where
  "gl_vertexAttribPointer index g =
    g\<lparr>vertex_attrib_pointer := (vertex_attrib_pointer g)(index \<mapsto> ARRAY_BUFFER_BINDING g)\<rparr>"

text \<open>
  \<^verbatim>\<open>drawElements\<close> renders into the images attached to the draw buffers of the bound
  framebuffer object, or onto the canvas when none is bound.
\<close>

definition mark_drawn :: "nat \<Rightarrow> texture_object \<Rightarrow> texture_object" where
  "mark_drawn n obj =
    obj\<lparr>level0 := map_option (\<lambda>img. img\<lparr>content := Drawn n\<rparr>) (level0 obj)\<rparr>"

definition draw_targets :: "gl_state \<Rightarrow> handle list" where
  "draw_targets g =
    (case FRAMEBUFFER_BINDING g of
       None \<Rightarrow> []
     | Some b \<Rightarrow>
        (case framebuffer_objects g b of
           None \<Rightarrow> []
         | Some obj \<Rightarrow>
            concat (map (\<lambda>a. case attachment obj a of None \<Rightarrow> [] | Some t \<Rightarrow> [t])
                        (draw_buffers obj))))"

definition gl_drawElements :: "gl_state \<Rightarrow> gl_state" where
  "gl_drawElements g =
    (let n = Suc (draw_calls g) in
     if FRAMEBUFFER_BINDING g = None
     then g\<lparr>canvas_content := Drawn n, draw_calls := n\<rparr>
     else g\<lparr>texture_objects :=
              (\<lambda>t. if t \<in> set (draw_targets g)
                    then map_option (mark_drawn n) (texture_objects g t)
                    else texture_objects g t),
            draw_calls := n\<rparr>)"

text \<open>
  \<^verbatim>\<open>readPixels(x, y, 1, 1, RGBA, UNSIGNED_BYTE, dest)\<close> on a four-byte \<^verbatim>\<open>dest\<close>: the device
  overwrites \<^verbatim>\<open>dest\<close> with the pixel, or leaves it alone.
\<close>

definition gl_readPixels ::
  "device \<Rightarrow> gl_state \<Rightarrow> int \<Rightarrow> int \<Rightarrow> 8 word list \<Rightarrow> 8 word list" where
  "gl_readPixels dev g x y dest =
    (case pixel_at dev g x y of
       None \<Rightarrow> dest
     | Some (r, gr, b, a) \<Rightarrow> [r, gr, b, a])"

subsection \<open>The library's objects\<close>

text \<open>
  A \<open>ref\<close> is the identity of a Shader, Framebuffer or Doublebuffer object. Every field
  keeps its name in the source. (The \<^verbatim>\<open>textures\<close> map of a Shader is \<open>shader_textures\<close>, the
  \<^verbatim>\<open>filter\<close> and \<^verbatim>\<open>wrap\<close> of \<^verbatim>\<open>ITextureParameters\<close> are \<open>filter_param\<close> and \<open>wrap_param\<close>.)
\<close>

type_synonym ref = nat

datatype filter_name = Linear | Nearest

datatype wrap_name = Repeat | ClampToEdge | MirroredRepeat

record ITextureParameters =
  filter_param :: "filter_name option"
  wrap_param :: "wrap_name option"

text \<open>
  What \<^verbatim>\<open>sampler2D(value, params)\<close> can be given: as \<^verbatim>\<open>value\<close> a \<^verbatim>\<open>TexImageSource\<close>, a
  Framebuffer, a FramebufferTexture or a Doublebuffer, and as \<^verbatim>\<open>params\<close> nothing, a
  record, or a callback that is handed the device.
\<close>

datatype sampler_value =
    TexImageSource image
  | A_Framebuffer ref
  | A_FramebufferTexture ref int
  | A_Doublebuffer ref

datatype sampler_params =
    No_params
  | Params_record ITextureParameters
  | Params_function "gl_state \<Rightarrow> gl_state"

text \<open>
  The implementations of the interface \<^verbatim>\<open>UniformSource\<close>: the wrappers made by
  \<^verbatim>\<open>Context.u\<close>, a Framebuffer, the object returned by \<^verbatim>\<open>Framebuffer.getTexture(index)\<close>, and
  a Doublebuffer.
\<close>

datatype uniform_source =
    U_resolution
  | U_pixel
  | U_halfpixel
  | U_time
  | U_delta
  | U_float jsnum
  | U_int int
  | U_bool bool
  | U_vec2 jsnum jsnum
  | U_vec3 jsnum jsnum jsnum
  | U_vec4 jsnum jsnum jsnum jsnum
  | U_uniform "gl_state \<Rightarrow> location option \<Rightarrow> gl_state"
  | U_sampler2D sampler_value sampler_params
  | Framebuffer_source ref
  | FramebufferTexture ref int
  | Doublebuffer_source ref

datatype render_target = Out | Framebuffer_target ref | Doublebuffer_target ref

record framebuffer =
  fbo :: "handle option"
  textures :: "handle list"
  width :: jsnum
  height :: jsnum
  numTextures :: nat
  scale :: jsnum
  usesFloatingPointTextures :: bool

record doublebuffer =
  seedBuffer :: "uniform_source option"
  buffers :: "ref \<times> ref"
  count :: nat

record shader =
  program :: handle
  uniformLocations :: "string \<Rightarrow> location option"
  shader_textures :: "image \<rightharpoonup> handle"
  u_flip :: "location option"
  u_resParam :: "location option"
  textureCounter :: int

text \<open>The three texts the library writes with \<^verbatim>\<open>console.error\<close>.\<close>

datatype console_line =
    Lacking_EXT_color_buffer_float
  | Lacking_OES_texture_float_linear
  | Error_compiling_shader string

text \<open>
  The Context with its canvas, the device, and the objects made from it. \<open>clock\<close> is what
  \<^verbatim>\<open>Date.now() / 1000\<close> returns; \<open>firstTime\<close> and \<open>lastTime\<close> are the two variables closed over
  by \<^verbatim>\<open>u.time\<close> and \<^verbatim>\<open>u.delta\<close>.
\<close>

record world =
  gl :: gl_state
  dev :: device
  console :: "console_line list"
  canvas_width :: int
  canvas_height :: int
  floatingPointTexturesSupported :: bool
  floatingPointTexturesLinearSamplingSupported :: bool
  blitShader :: ref
  clock :: real
  firstTime :: real
  lastTime :: real
  next_ref :: ref
  framebuffers :: "ref \<Rightarrow> framebuffer"
  doublebuffers :: "ref \<Rightarrow> doublebuffer"
  shaders :: "ref \<Rightarrow> shader"

definition on_gl :: "(gl_state \<Rightarrow> gl_state) \<Rightarrow> world \<Rightarrow> world" where
  "on_gl f w = w\<lparr>gl := f (gl w)\<rparr>"

definition console_error :: "console_line \<Rightarrow> world \<Rightarrow> world" where
  "console_error line w = w\<lparr>console := console w @ [line]\<rparr>"

definition update_framebuffer :: "ref \<Rightarrow> (framebuffer \<Rightarrow> framebuffer) \<Rightarrow> world \<Rightarrow> world" where
  "update_framebuffer f upd w = w\<lparr>framebuffers := (framebuffers w)(f := upd (framebuffers w f))\<rparr>"

definition update_doublebuffer ::
  "ref \<Rightarrow> (doublebuffer \<Rightarrow> doublebuffer) \<Rightarrow> world \<Rightarrow> world" where
  "update_doublebuffer d upd w =
    w\<lparr>doublebuffers := (doublebuffers w)(d := upd (doublebuffers w d))\<rparr>"

definition update_shader :: "ref \<Rightarrow> (shader \<Rightarrow> shader) \<Rightarrow> world \<Rightarrow> world" where
  "update_shader s upd w = w\<lparr>shaders := (shaders w)(s := upd (shaders w s))\<rparr>"

text \<open>Running an effectful function over a list, as \<^verbatim>\<open>Array.map\<close> does; a throw stops it.\<close>

fun map_effect ::
  "('a \<Rightarrow> world \<Rightarrow> 'b outcome \<times> world) \<Rightarrow> 'a list \<Rightarrow> world \<Rightarrow> 'b list outcome \<times> world" where
  "map_effect f [] w = (Return [], w)"
| "map_effect f (x # xs) w =
    (case f x w of
       (Throw e, w1) \<Rightarrow> (Throw e, w1)
     | (Return y, w1) \<Rightarrow>
        (case map_effect f xs w1 of
           (Throw e, w2) \<Rightarrow> (Throw e, w2)
         | (Return ys, w2) \<Rightarrow> (Return (y # ys), w2)))"

fun map_throwing :: "('a \<Rightarrow> error + 'b) \<Rightarrow> 'a list \<Rightarrow> error + 'b list" where
  "map_throwing f [] = Inr []"
| "map_throwing f (x # xs) =
    (case f x of
       Inl e \<Rightarrow> Inl e
     | Inr y \<Rightarrow> (case map_throwing f xs of Inl e \<Rightarrow> Inl e | Inr ys \<Rightarrow> Inr (y # ys)))"

text \<open>\<^verbatim>\<open>xs[index]\<close> on a JavaScript array: \<^verbatim>\<open>undefined\<close> outside the array.\<close>

definition js_index :: "'a list \<Rightarrow> int \<Rightarrow> 'a option" where
  "js_index xs index =
    (if 0 \<le> index \<and> index < int (length xs) then Some (xs ! nat index) else None)"

subsection \<open>context.ts\<close>

definition createTexture :: "world \<Rightarrow> handle \<times> world" where
  "createTexture w = (let (texture, g) = gl_createTexture (gl w) in (texture, w\<lparr>gl := g\<rparr>))"

text \<open>
  \<^verbatim>\<open>resize(width, height)\<close> assigns the canvas size. The sizes are naturals: what the DOM
  setter does with a negative or fractional number is outside the model.
\<close>

definition resize :: "nat \<Rightarrow> nat \<Rightarrow> world \<Rightarrow> world" where
  "resize w h wld = wld\<lparr>canvas_width := int w, canvas_height := int h\<rparr>"

text \<open>\<^verbatim>\<open>getColorAt(x, y)\<close>: the four bytes of \<^verbatim>\<open>dest\<close>, a fresh \<^verbatim>\<open>Uint8Array(4)\<close>.\<close>

definition getColorAt :: "int \<Rightarrow> int \<Rightarrow> world \<Rightarrow> nat \<times> nat \<times> nat \<times> nat" where
  "getColorAt x y w =
    (let dest = gl_readPixels (dev w) (gl w) x (canvas_height w - y - 1) [0, 0, 0, 0]
     in (unat (dest ! 0), unat (dest ! 1), unat (dest ! 2), unat (dest ! 3)))"

text \<open>
  \<^verbatim>\<open>setActiveTextureParams(params?, usesFloatingPointTextures = false)\<close>; \<^verbatim>\<open>params?.filter\<close>
  is \<open>Option.bind params filter_param\<close>.
\<close>

definition setActiveTextureParams :: "ITextureParameters option \<Rightarrow> bool \<Rightarrow> world \<Rightarrow> world" where
  "setActiveTextureParams params usesFloat w =
    (let filter =
           (case Option.bind params filter_param of
              Some f \<Rightarrow> f
            | None \<Rightarrow>
               (if usesFloat \<and> \<not> floatingPointTexturesLinearSamplingSupported w
                then Nearest else Linear));
         w1 = (if usesFloat \<and> \<not> floatingPointTexturesLinearSamplingSupported w
                  \<and> Option.bind params filter_param = Some Linear
               then console_error Lacking_OES_texture_float_linear w else w);
         w2 = on_gl (gl_texParameteri TEXTURE_MIN_FILTER
                       (if filter = Linear then LINEAR else NEAREST)) w1;
         w3 = on_gl (gl_texParameteri TEXTURE_MAG_FILTER
                       (if filter = Linear then LINEAR else NEAREST)) w2;
         textureWrap =
           (case Option.bind params wrap_param of Some x \<Rightarrow> x | None \<Rightarrow> MirroredRepeat);
         glConst =
           (if textureWrap = Repeat then REPEAT
            else if textureWrap = ClampToEdge then CLAMP_TO_EDGE
            else MIRRORED_REPEAT);
         w4 = on_gl (gl_texParameteri TEXTURE_WRAP_S glConst) w3
     in on_gl (gl_texParameteri TEXTURE_WRAP_T glConst) w4)"

subsection \<open>shader.ts: the texture counter and the texture cache\<close>

definition getTextureCounter :: "ref \<Rightarrow> world \<Rightarrow> int" where
  "getTextureCounter s w = textureCounter (shaders w s)"

definition incTextureCounter :: "ref \<Rightarrow> world \<Rightarrow> world" where
  "incTextureCounter s w =
    update_shader s (\<lambda>sh. sh\<lparr>textureCounter := textureCounter sh + 1\<rparr>) w"

definition getOrCreateTexture :: "ref \<Rightarrow> image \<Rightarrow> world \<Rightarrow> handle \<times> world" where
  "getOrCreateTexture s key w =
    (case shader_textures (shaders w s) key of
       Some texture \<Rightarrow> (texture, w)
     | None \<Rightarrow>
        (let (texture, w1) = createTexture w
         in (texture,
             update_shader s
               (\<lambda>sh. sh\<lparr>shader_textures := (shader_textures sh)(key \<mapsto> texture)\<rparr>) w1)))"

subsection \<open>wrapped-tex-image-source.ts\<close>

text \<open>The \<^verbatim>\<open>activate\<close> of the object that \<^verbatim>\<open>wrapTexImageSource(gl, value)\<close> returns.\<close>

definition wrapTexImageSource_activate ::
  "image \<Rightarrow> location option \<Rightarrow> ref \<Rightarrow> world \<Rightarrow> unit outcome \<times> world" where
  "wrapTexImageSource_activate v loc s w =
    (let (texture, w1) = getOrCreateTexture s v w;
         w2 = on_gl (gl_uniform1i loc (getTextureCounter s w1)) w1
     in case getTextureNumber (getTextureCounter s w2) of
          Inl e \<Rightarrow> (Throw e, w2)
        | Inr unit \<Rightarrow>
           (let w3 = on_gl (gl_activeTexture unit) w2;
                w4 = on_gl (gl_bindTexture (Some texture)) w3;
                w5 = on_gl (gl_texImage2D_source RGBA32F RGBA FLOAT v) w4
            in (Return (), incTextureCounter s w5)))"

subsection \<open>framebuffer.ts\<close>

text \<open>
  \<^verbatim>\<open>Math.floor(this.context.canvas.width * this.scale)\<close>, and the same for the height. The
  canvas size is an integer, which as a number is itself.
\<close>

definition scaled :: "int \<Rightarrow> jsnum \<Rightarrow> jsnum" where
  "scaled canvas_size sc = js_floor (js_mul (Num (real_of_int canvas_size)) sc)"

definition Framebuffer_destroy :: "ref \<Rightarrow> world \<Rightarrow> world" where
  "Framebuffer_destroy f w =
    (let w1 = fold (\<lambda>texture. on_gl (gl_deleteTexture texture)) (textures (framebuffers w f)) w
     in on_gl (gl_deleteFramebuffer (fbo (framebuffers w1 f))) w1)"

text \<open>The body of the arrow function mapped over \<^verbatim>\<open>range(this.numTextures)\<close> in \<^verbatim>\<open>init\<close>.\<close>

definition Framebuffer_init_texture :: "ref \<Rightarrow> int \<Rightarrow> world \<Rightarrow> handle outcome \<times> world" where
  "Framebuffer_init_texture f i w =
    (let (fboTexture, w1) = createTexture w;
         w2 = on_gl (gl_bindTexture (Some fboTexture)) w1;
         fb = framebuffers w2 f;
         w3 = (if usesFloatingPointTextures fb \<and> floatingPointTexturesSupported w2
               then on_gl (gl_texImage2D_null RGBA32F (ToInt32 (width fb)) (ToInt32 (height fb))
                            RGBA FLOAT) w2
               else
                (let w2' = (if usesFloatingPointTextures fb
                            then console_error Lacking_EXT_color_buffer_float w2 else w2)
                 in on_gl (gl_texImage2D_null RGBA (ToInt32 (width fb)) (ToInt32 (height fb))
                             RGBA UNSIGNED_BYTE) w2'))
     in case getColorAttachmentNumber i of
          Inl e \<Rightarrow> (Throw e, w3)
        | Inr attach \<Rightarrow>
           (Return fboTexture, on_gl (gl_framebufferTexture2D attach (Some fboTexture)) w3))"

definition Framebuffer_init :: "ref \<Rightarrow> world \<Rightarrow> unit outcome \<times> world" where
  "Framebuffer_init f w =
    (let w1 = (if fbo (framebuffers w f) \<noteq> None then Framebuffer_destroy f w else w);
         (new_fbo, g) = gl_createFramebuffer (gl w1);
         w2 = update_framebuffer f (\<lambda>fb. fb\<lparr>fbo := Some new_fbo\<rparr>) (w1\<lparr>gl := g\<rparr>);
         w3 = on_gl (gl_bindFramebuffer (fbo (framebuffers w2 f))) w2;
         w4 = update_framebuffer f
                (\<lambda>fb. fb\<lparr>width := scaled (canvas_width w3) (scale fb)\<rparr>) w3;
         w5 = update_framebuffer f
                (\<lambda>fb. fb\<lparr>height := scaled (canvas_height w4) (scale fb)\<rparr>) w4
     in case map_effect (Framebuffer_init_texture f)
               (range_upto (numTextures (framebuffers w5 f))) w5 of
          (Throw e, w6) \<Rightarrow> (Throw e, w6)
        | (Return ts, w6) \<Rightarrow>
           (let w7 = update_framebuffer f (\<lambda>fb. fb\<lparr>textures := ts\<rparr>) w6
            in case map_throwing getColorAttachmentNumber
                      (range_upto (numTextures (framebuffers w7 f))) of
                 Inl e \<Rightarrow> (Throw e, w7)
               | Inr attachments \<Rightarrow> (Return (), on_gl (gl_drawBuffers attachments) w7)))"

text \<open>
  \<^verbatim>\<open>new Framebuffer(context, numTextures, scale, useFloatingPointTextures)\<close>, reached
  through \<^verbatim>\<open>Context.createFramebuffer\<close>: the new object gets the next reference. When
  \<^verbatim>\<open>init\<close> throws, so does the constructor.
\<close>

definition createFramebuffer :: "nat \<Rightarrow> jsnum \<Rightarrow> bool \<Rightarrow> world \<Rightarrow> ref outcome \<times> world" where
  "createFramebuffer n sc useFloat w =
    (let f = next_ref w;
         w1 = w\<lparr>next_ref := Suc f,
                framebuffers := (framebuffers w)
                  (f := \<lparr>fbo = None, textures = [], width = Num 0, height = Num 0, numTextures = n,
                         scale = sc, usesFloatingPointTextures = useFloat\<rparr>)\<rparr>
     in case Framebuffer_init f w1 of
          (Throw e, w2) \<Rightarrow> (Throw e, w2)
        | (Return _, w2) \<Rightarrow> (Return f, w2))"

text \<open>\<^verbatim>\<open>bind()\<close>; its result \<^verbatim>\<open>false\<close> is dropped by every caller.\<close>

definition Framebuffer_bind :: "ref \<Rightarrow> world \<Rightarrow> unit outcome \<times> world" where
  "Framebuffer_bind f w =
    (let fb = framebuffers w f in
     if js_strict_neq (width fb) (scaled (canvas_width w) (scale fb))
        \<or> js_strict_neq (height fb) (scaled (canvas_height w) (scale fb))
     then Framebuffer_init f w
     else (Return (), on_gl (gl_bindFramebuffer (fbo fb)) w))"

text \<open>
  \<^verbatim>\<open>getTexture(index)\<close> returns an object whose only member is \<^verbatim>\<open>activate\<close>: the value
  \<open>FramebufferTexture f index\<close>. This is that \<^verbatim>\<open>activate\<close>.
\<close>

definition getTexture :: "ref \<Rightarrow> int \<Rightarrow> uniform_source" where
  "getTexture f index = FramebufferTexture f index"

definition FramebufferTexture_activate ::
  "ref \<Rightarrow> int \<Rightarrow> location option \<Rightarrow> ref \<Rightarrow> world \<Rightarrow> unit outcome \<times> world" where
  "FramebufferTexture_activate f index loc s w =
    (let w1 = on_gl (gl_uniform1i loc (getTextureCounter s w)) w
     in case getTextureNumber (getTextureCounter s w1) of
          Inl e \<Rightarrow> (Throw e, w1)
        | Inr unit \<Rightarrow>
           (let w2 = on_gl (gl_activeTexture unit) w1;
                w3 = on_gl (gl_bindTexture (js_index (textures (framebuffers w2 f)) index)) w2;
                w4 = setActiveTextureParams None (usesFloatingPointTextures (framebuffers w3 f)) w3
            in (Return (), incTextureCounter s w4)))"

subsection \<open>doublebuffer.ts\<close>

text \<open>\<^verbatim>\<open>this.buffers[i]\<close> on the pair of Framebuffers, for \<open>i\<close> the remainder of a division by 2.\<close>

definition buffer_at :: "ref \<times> ref \<Rightarrow> nat \<Rightarrow> ref" where
  "buffer_at bs i = (if i = 0 then fst bs else snd bs)"

definition getReadBuffer :: "doublebuffer \<Rightarrow> error + uniform_source" where
  "getReadBuffer db =
    (if count db = 0 then
       (case seedBuffer db of
          Some seeded \<Rightarrow> Inr seeded
        | None \<Rightarrow>
           Inl (Error ''Cannot do an initial read from an unseeded double buffer. Please call `seed` first.''))
     else Inr (getTexture (buffer_at (buffers db) (count db mod 2)) 0))"

definition getWriteBuffer :: "doublebuffer \<Rightarrow> ref" where
  "getWriteBuffer db = buffer_at (buffers db) ((count db + 1) mod 2)"

definition seed :: "ref \<Rightarrow> sampler_value \<Rightarrow> world \<Rightarrow> world" where
  "seed d v w =
    (let w1 = update_doublebuffer d (\<lambda>db. db\<lparr>seedBuffer := Some (U_sampler2D v No_params)\<rparr>) w
     in update_doublebuffer d (\<lambda>db. db\<lparr>count := 0\<rparr>) w1)"

definition advance :: "ref \<Rightarrow> world \<Rightarrow> world" where
  "advance d w = update_doublebuffer d (\<lambda>db. db\<lparr>count := count db + 1\<rparr>) w"

definition Doublebuffer_bind :: "ref \<Rightarrow> world \<Rightarrow> unit outcome \<times> world" where
  "Doublebuffer_bind d w = Framebuffer_bind (getWriteBuffer (doublebuffers w d)) w"

text \<open>
  \<^verbatim>\<open>new Doublebuffer(context, useFloatingPointTextures)\<close>, reached through
  \<^verbatim>\<open>Context.createDoublebuffer\<close>.
\<close>

definition createDoublebuffer :: "bool \<Rightarrow> world \<Rightarrow> ref outcome \<times> world" where
  "createDoublebuffer useFloat w =
    (let d = next_ref w;
         w0 = w\<lparr>next_ref := Suc d\<rparr>
     in case createFramebuffer 1 (Num 1) useFloat w0 of
          (Throw e, w1) \<Rightarrow> (Throw e, w1)
        | (Return b0, w1) \<Rightarrow>
           (case createFramebuffer 1 (Num 1) useFloat w1 of
              (Throw e, w2) \<Rightarrow> (Throw e, w2)
            | (Return b1, w2) \<Rightarrow>
               (Return d,
                w2\<lparr>doublebuffers := (doublebuffers w2)
                     (d := \<lparr>seedBuffer = None, buffers = (b0, b1), count = 0\<rparr>)\<rparr>)))"

subsection \<open>context.ts: the texture parameters of \<^verbatim>\<open>sampler2D\<close>\<close>

text \<open>
  The second half of the \<^verbatim>\<open>activate\<close> of \<^verbatim>\<open>u.sampler2D(image, params)\<close>, after the image
  has been activated: \<^verbatim>\<open>usesFloatingPointTextures\<close> is computed from the image and the
  parameters are set, by the library or by the caller's function.
\<close>

definition sampler2D_params :: "sampler_value \<Rightarrow> sampler_params \<Rightarrow> world \<Rightarrow> world" where
  "sampler2D_params img params w =
    (let usesFloat =
           (case img of
              A_Framebuffer f \<Rightarrow> usesFloatingPointTextures (framebuffers w f)
            | A_Doublebuffer d \<Rightarrow>
                usesFloatingPointTextures (framebuffers w (getWriteBuffer (doublebuffers w d)))
            | _ \<Rightarrow> False)
     in case params of
          Params_function p \<Rightarrow> on_gl p (setActiveTextureParams None usesFloat w)
        | Params_record r \<Rightarrow> setActiveTextureParams (Some r) usesFloat w
        | No_params \<Rightarrow> setActiveTextureParams None usesFloat w)"

subsection \<open>Activating a uniform source\<close>

text \<open>
  \<^verbatim>\<open>value.activate(location, shader)\<close>, for every implementation. A Doublebuffer hands the
  call to its read buffer, which at generation 0 is the seed, and the seed may be (a
  wrapper of) a Doublebuffer again, even of the same one: the chain of calls need not
  end. The first argument bounds the depth of the chain; \<open>None\<close> means the bound was
  reached.
\<close>

fun activate ::
  "nat \<Rightarrow> uniform_source \<Rightarrow> location option \<Rightarrow> ref \<Rightarrow> world \<Rightarrow> (unit outcome \<times> world) option" where
  "activate 0 v loc s w = None"
| "activate (Suc n) U_resolution loc s w =
    Some (Return (),
      on_gl (gl_uniform2fv loc (Num (real_of_int (canvas_width w)),
                               Num (real_of_int (canvas_height w)))) w)"
| "activate (Suc n) U_pixel loc s w =
    Some (Return (),
      on_gl (gl_uniform2fv loc (js_div 1 (real_of_int (canvas_width w)),
                               js_div 1 (real_of_int (canvas_height w)))) w)"
| "activate (Suc n) U_halfpixel loc s w =
    Some (Return (),
      on_gl (gl_uniform2fv loc (js_div (1 / 2) (real_of_int (canvas_width w)),
                               js_div (1 / 2) (real_of_int (canvas_height w)))) w)"
| "activate (Suc n) U_time loc s w =
    Some (Return (), on_gl (gl_uniform1f loc (Num (clock w - firstTime w))) w)"
| "activate (Suc n) U_delta loc s w =
    (let now = clock w;
         w1 = (if lastTime w = 0 then on_gl (gl_uniform1f loc (Num (1 / 60))) w
               else on_gl (gl_uniform1f loc (Num (now - lastTime w))) w)
     in Some (Return (), w1\<lparr>lastTime := now\<rparr>))"
| "activate (Suc n) (U_float v) loc s w = Some (Return (), on_gl (gl_uniform1f loc v) w)"
| "activate (Suc n) (U_int v) loc s w = Some (Return (), on_gl (gl_uniform1i loc v) w)"
| "activate (Suc n) (U_bool v) loc s w =
    Some (Return (), on_gl (gl_uniform1i loc (if v then 1 else 0)) w)"
| "activate (Suc n) (U_vec2 x y) loc s w = Some (Return (), on_gl (gl_uniform2fv loc (x, y)) w)"
| "activate (Suc n) (U_vec3 x y z) loc s w =
    Some (Return (), on_gl (gl_uniform3fv loc (x, y, z)) w)"
| "activate (Suc n) (U_vec4 r g b a) loc s w =
    Some (Return (), on_gl (gl_uniform4fv loc (r, g, b, a)) w)"
| "activate (Suc n) (U_uniform uniformSetter) loc s w =
    Some (Return (), on_gl (\<lambda>g. uniformSetter g loc) w)"
| "activate (Suc n) (Framebuffer_source f) loc s w = activate n (getTexture f 0) loc s w"
| "activate (Suc n) (FramebufferTexture f index) loc s w =
    Some (FramebufferTexture_activate f index loc s w)"
| "activate (Suc n) (Doublebuffer_source d) loc s w =
    (case getReadBuffer (doublebuffers w d) of
       Inl e \<Rightarrow> Some (Throw e, w)
     | Inr readBuffer \<Rightarrow> activate n readBuffer loc s w)"
| "activate (Suc n) (U_sampler2D img params) loc s w =
    (case (case img of
             TexImageSource i \<Rightarrow> Some (wrapTexImageSource_activate i loc s w)
           | A_Framebuffer f \<Rightarrow> activate n (Framebuffer_source f) loc s w
           | A_FramebufferTexture f index \<Rightarrow> activate n (FramebufferTexture f index) loc s w
           | A_Doublebuffer d \<Rightarrow> activate n (Doublebuffer_source d) loc s w) of
       None \<Rightarrow> None
     | Some (Throw e, w1) \<Rightarrow> Some (Throw e, w1)
     | Some (Return _, w1) \<Rightarrow> Some (Return (), sampler2D_params img params w1))"

subsection \<open>shader.ts: draw\<close>

text \<open>
  \<^verbatim>\<open>getUniformLocation(key)\<close>, with the cache \<^verbatim>\<open>uniformLocations\<close> as a map from keys to
  locations. In the source the cache is a plain object, so a key that names a member of
  \<^verbatim>\<open>Object.prototype\<close> (\<^verbatim>\<open>toString\<close>, \<^verbatim>\<open>constructor\<close>, ...) finds that member instead of a
  location, and the device then rejects the draw call with a \<^verbatim>\<open>TypeError\<close>; such keys are
  outside the model.
\<close>

definition getUniformLocation :: "ref \<Rightarrow> string \<Rightarrow> world \<Rightarrow> location option \<times> world" where
  "getUniformLocation s key w =
    (case uniformLocations (shaders w s) key of
       Some l \<Rightarrow> (Some l, w)
     | None \<Rightarrow>
        (let l = uniform_location (dev w) (program (shaders w s)) key
         in (l, update_shader s
                  (\<lambda>sh. sh\<lparr>uniformLocations := (uniformLocations sh)(key := l)\<rparr>) w)))"

text \<open>The members of \<^verbatim>\<open>RenderTarget\<close>, for \<^verbatim>\<open>Context.out\<close>, a Framebuffer and a Doublebuffer.\<close>

definition target_bind :: "render_target \<Rightarrow> world \<Rightarrow> unit outcome \<times> world" where
  "target_bind target w =
    (case target of
       Out \<Rightarrow> (Return (), on_gl (gl_bindFramebuffer None) w)
     | Framebuffer_target f \<Rightarrow> Framebuffer_bind f w
     | Doublebuffer_target d \<Rightarrow> Doublebuffer_bind d w)"

definition target_width :: "render_target \<Rightarrow> world \<Rightarrow> jsnum" where
  "target_width target w =
    (case target of
       Out \<Rightarrow> Num (real_of_int (canvas_width w))
     | Framebuffer_target f \<Rightarrow> width (framebuffers w f)
     | Doublebuffer_target d \<Rightarrow> width (framebuffers w (getWriteBuffer (doublebuffers w d))))"

definition target_height :: "render_target \<Rightarrow> world \<Rightarrow> jsnum" where
  "target_height target w =
    (case target of
       Out \<Rightarrow> Num (real_of_int (canvas_height w))
     | Framebuffer_target f \<Rightarrow> height (framebuffers w f)
     | Doublebuffer_target d \<Rightarrow> height (framebuffers w (getWriteBuffer (doublebuffers w d))))"

definition target_flipped :: "render_target \<Rightarrow> bool" where
  "target_flipped target = (case target of Out \<Rightarrow> True | _ \<Rightarrow> False)"

text \<open>
  \<^verbatim>\<open>draw(target, uniforms)\<close> in three parts. \<open>draw_begin\<close> is the text up to the loop:
  \<^verbatim>\<open>useProgram\<close>, the reset of the texture counter, \<^verbatim>\<open>target.bind()\<close>, \<^verbatim>\<open>viewport\<close>.
\<close>

definition draw_begin :: "ref \<Rightarrow> render_target \<Rightarrow> world \<Rightarrow> unit outcome \<times> world" where
  "draw_begin s target w =
    (let w1 = on_gl (gl_useProgram (Some (program (shaders w s)))) w;
         w2 = update_shader s (\<lambda>sh. sh\<lparr>textureCounter := 0\<rparr>) w1
     in case target_bind target w2 of
          (Throw e, w3) \<Rightarrow> (Throw e, w3)
        | (Return _, w3) \<Rightarrow>
           (Return (),
            on_gl (gl_viewport 0 0 (ToInt32 (target_width target w3))
                     (ToInt32 (target_height target w3))) w3))"

text \<open>
  The loop \<^verbatim>\<open>for (const key in uniforms)\<close>; \<open>uniforms\<close> lists the entries of the object in
  the order the loop visits them.
\<close>

fun activate_uniforms ::
  "nat \<Rightarrow> ref \<Rightarrow> (string \<times> uniform_source) list \<Rightarrow> world \<Rightarrow> (unit outcome \<times> world) option" where
  "activate_uniforms n s [] w = Some (Return (), w)"
| "activate_uniforms n s ((key, v) # uniforms) w =
    (let (loc, w1) = getUniformLocation s key w
     in case activate n v loc s w1 of
          None \<Rightarrow> None
        | Some (Throw e, w2) \<Rightarrow> Some (Throw e, w2)
        | Some (Return _, w2) \<Rightarrow> activate_uniforms n s uniforms w2)"

text \<open>The text after the loop: \<^verbatim>\<open>advance\<close> for a Doublebuffer, the flip flag, the resolution, the quad.\<close>

definition draw_end :: "ref \<Rightarrow> render_target \<Rightarrow> world \<Rightarrow> world" where
  "draw_end s target w =
    (let w1 = (case target of Doublebuffer_target d \<Rightarrow> advance d w | _ \<Rightarrow> w);
         w2 = on_gl (gl_uniform1f (u_flip (shaders w1 s))
                       (Num (if target_flipped target then 1 else 0))) w1;
         w3 = (if u_resParam (shaders w2 s) \<noteq> None
               then on_gl (gl_uniform2fv (u_resParam (shaders w2 s))
                             (target_width target w2, target_height target w2)) w2
               else w2)
     in on_gl gl_drawElements w3)"

definition draw ::
  "nat \<Rightarrow> ref \<Rightarrow> render_target \<Rightarrow> (string \<times> uniform_source) list \<Rightarrow> world
    \<Rightarrow> (unit outcome \<times> world) option" where
  "draw n s target uniforms w =
    (case draw_begin s target w of
       (Throw e, w1) \<Rightarrow> Some (Throw e, w1)
     | (Return _, w1) \<Rightarrow>
        (case activate_uniforms n s uniforms w1 of
           None \<Rightarrow> None
         | Some (Throw e, w2) \<Rightarrow> Some (Throw e, w2)
         | Some (Return _, w2) \<Rightarrow> Some (Return (), draw_end s target w2)))"

text \<open>The two \<^verbatim>\<open>flush\<close> methods draw with the Context's blit shader onto the canvas.\<close>

definition Framebuffer_flush :: "nat \<Rightarrow> ref \<Rightarrow> int \<Rightarrow> world \<Rightarrow> (unit outcome \<times> world) option" where
  "Framebuffer_flush n f index w =
    draw n (blitShader w) Out [(''u_texture'', getTexture f index)] w"

definition Doublebuffer_flush :: "nat \<Rightarrow> ref \<Rightarrow> world \<Rightarrow> (unit outcome \<times> world) option" where
  "Doublebuffer_flush n d w =
    (case getReadBuffer (doublebuffers w d) of
       Inl e \<Rightarrow> Some (Throw e, w)
     | Inr readBuffer \<Rightarrow> draw n (blitShader w) Out [(''u_texture'', readBuffer)] w)"

text \<open>\<^verbatim>\<open>Doublebuffer.activate\<close> is the \<open>Doublebuffer_source\<close> case of \<open>activate\<close>.\<close>

definition Doublebuffer_activate ::
  "nat \<Rightarrow> ref \<Rightarrow> location option \<Rightarrow> ref \<Rightarrow> world \<Rightarrow> (unit outcome \<times> world) option" where
  "Doublebuffer_activate n d loc s w = activate n (Doublebuffer_source d) loc s w"

subsection \<open>shader.ts: construction\<close>

text \<open>
  The values of \<^verbatim>\<open>options.varyings\<close>: the two symbols \<^verbatim>\<open>Context.v.UV()\<close> and
  \<^verbatim>\<open>Context.v.XY()\<close>, or any other symbol. \<open>varyings\<close> lists the entries in the order
  \<^verbatim>\<open>for ... in\<close> visits them; no \<^verbatim>\<open>varyings\<close> is the empty list.
\<close>

datatype varying = UV | XY | Other_symbol

definition resolve_varyings :: "(string \<times> varying) list \<Rightarrow> string \<times> string option" where
  "resolve_varyings varyings =
    fold (\<lambda>(key, v) (uvParam, xyParam).
            if v = UV then (key, xyParam)
            else if v = XY then (uvParam, Some key)
            else (uvParam, xyParam))
         varyings (''v_tpos'', None)"

text \<open>A template literal, line by line.\<close>

definition template :: "string list \<Rightarrow> string" where
  "template ls = (case ls of [] \<Rightarrow> [] | l # rest \<Rightarrow> l @ concat (map (\<lambda>x. CHR 0x0A # x) rest))"

definition vtxShaderSource2 :: "string \<Rightarrow> string option \<Rightarrow> string" where
  "vtxShaderSource2 uvParam xyParam =
    template
     ['''',
      ''    attribute vec2 a_vpos;'',
      ''    attribute vec2 a_tpos;'',
      ''    uniform bool u_fragfrog_flip;'',
      ''    varying vec2 '' @ uvParam @ '';'',
      ''    '' @ (if xyParam \<noteq> None then ''uniform vec2 u_fragfrog_res;'' else ''''),
      ''    '' @ (case xyParam of Some xy \<Rightarrow> ''varying vec2 '' @ xy @ '';'' | None \<Rightarrow> ''''),
      '''',
      ''    void main(void) {'',
      ''      gl_Position = vec4(a_vpos, 0.0, 1.0);'',
      ''      if (u_fragfrog_flip) {'',
      ''        '' @ uvParam @ '' = vec2(a_tpos.x, 1.0 - a_tpos.y);'',
      ''        '' @ (case xyParam of
                       Some xy \<Rightarrow> xy @ '' = vec2(a_tpos.x, 1.0 - a_tpos.y) * u_fragfrog_res;''
                     | None \<Rightarrow> '''') @ '';'',
      ''      } else {'',
      ''        '' @ uvParam @ '' = a_tpos;'',
      ''        '' @ (case xyParam of
                       Some xy \<Rightarrow> xy @ '' = a_tpos * u_fragfrog_res;''
                     | None \<Rightarrow> '''') @ '';'',
      ''      }'',
      ''    }'']"

definition vtxShaderSource3 :: "string \<Rightarrow> string option \<Rightarrow> string" where
  "vtxShaderSource3 uvParam xyParam =
    template
     [''#version 300 es'',
      ''    in vec2 a_vpos;'',
      ''    in vec2 a_tpos;'',
      ''    uniform bool u_fragfrog_flip;'',
      ''    out vec2 '' @ uvParam @ '';'',
      ''    '' @ (if xyParam \<noteq> None then ''uniform vec2 u_fragfrog_res;'' else ''''),
      ''    '' @ (case xyParam of Some xy \<Rightarrow> ''out vec2 '' @ xy @ '';'' | None \<Rightarrow> ''''),
      '''',
      ''    void main(void) {'',
      ''      gl_Position = vec4(a_vpos, 0.0, 1.0);'',
      ''      if (u_fragfrog_flip) {'',
      ''        '' @ uvParam @ '' = vec2(a_tpos.x, 1.0 - a_tpos.y);'',
      ''        '' @ (case xyParam of
                       Some xy \<Rightarrow> xy @ '' = vec2(a_tpos.x, 1.0 - a_tpos.y) * u_fragfrog_res;''
                     | None \<Rightarrow> '''') @ '';'',
      ''      } else {'',
      ''        '' @ uvParam @ '' = a_tpos;'',
      ''        '' @ (case xyParam of
                       Some xy \<Rightarrow> xy @ '' = a_tpos * u_fragfrog_res;''
                     | None \<Rightarrow> '''') @ '';'',
      ''      }'',
      ''    }'']"

text \<open>\<^verbatim>\<open>createShader(type, source)\<close>: one stage; it throws when the device reports no success.\<close>

definition Shader_createShader :: "gl_enum \<Rightarrow> string \<Rightarrow> world \<Rightarrow> handle outcome \<times> world" where
  "Shader_createShader type source w =
    (let (shader, g) = gl_createShader type (gl w);
         w1 = w\<lparr>gl := g\<rparr>;
         w2 = on_gl (gl_shaderSource shader source) w1;
         w3 = on_gl (gl_compileShader (dev w2) shader) w2
     in if \<not> gl_getShaderParameter_COMPILE_STATUS (gl w3) shader
        then (Throw (Error ''Error compiling shader''),
              console_error (Error_compiling_shader (gl_getShaderInfoLog (dev w3) (gl w3) shader)) w3)
        else (Return shader, w3))"

definition createQuad :: "int \<Rightarrow> int \<Rightarrow> world \<Rightarrow> world" where
  "createQuad a_vpos a_tpos w =
    (let (vpos_buf, g1) = gl_createBuffer (gl w);
         (tpos_buf, g2) = gl_createBuffer g1;
         (idx_buf, g3) = gl_createBuffer g2;
         g4 = gl_bindBuffer ARRAY_BUFFER (Some vpos_buf) g3;
         g5 = gl_bufferData ARRAY_BUFFER [- 1, - 1, 1, - 1, 1, 1, - 1, 1] g4;
         g6 = gl_vertexAttribPointer a_vpos g5;
         g7 = gl_bindBuffer ARRAY_BUFFER (Some tpos_buf) g6;
         g8 = gl_bufferData ARRAY_BUFFER [0, 0, 1, 0, 1, 1, 0, 1] g7;
         g9 = gl_vertexAttribPointer a_tpos g8;
         g10 = gl_bindBuffer ELEMENT_ARRAY_BUFFER (Some idx_buf) g9;
         g11 = gl_bufferData ELEMENT_ARRAY_BUFFER [0, 1, 3, 2] g10
     in w\<lparr>gl := gl_vertexAttribPointer a_tpos g11\<rparr>)"

text \<open>\<^verbatim>\<open>createProgram(vtxShader, fragShader)\<close>: it has no \<^verbatim>\<open>throw\<close> and asks for no status.\<close>

definition Shader_createProgram :: "handle \<Rightarrow> handle \<Rightarrow> world \<Rightarrow> handle \<times> world" where
  "Shader_createProgram vtxShader fragShader w =
    (let (prog, g) = gl_createProgram (gl w);
         w1 = w\<lparr>gl := g\<rparr>;
         w2 = on_gl (gl_attachShader prog vtxShader) w1;
         w3 = on_gl (gl_attachShader prog fragShader) w2;
         w4 = on_gl (gl_linkProgram (dev w3) prog) w3;
         w5 = on_gl (gl_useProgram (Some prog)) w4;
         a_vpos = attrib_location (dev w5) prog ''a_vpos'';
         a_tpos = attrib_location (dev w5) prog ''a_tpos'';
         w6 = on_gl (gl_enableVertexAttribArray a_vpos) w5;
         w7 = on_gl (gl_enableVertexAttribArray a_tpos) w6
     in (prog, createQuad a_vpos a_tpos w7))"

text \<open>
  \<^verbatim>\<open>new Shader(src, context, options)\<close>, reached through \<^verbatim>\<open>Context.createShader\<close>. The
  object is entered into the store when the constructor returns; a constructor that
  throws leaves no object behind. \<^verbatim>\<open>if (xyParam)\<close> is false for the empty string too.
\<close>

definition createShader ::
  "string \<Rightarrow> (string \<times> varying) list \<Rightarrow> world \<Rightarrow> ref outcome \<times> world" where
  "createShader src varyings w =
    (let (uvParam, xyParam) = resolve_varyings varyings;
         isWebGL3 = (take 15 src = ''#version 300 es'')
     in case Shader_createShader VERTEX_SHADER
               (if isWebGL3 then vtxShaderSource3 uvParam xyParam
                else vtxShaderSource2 uvParam xyParam) w of
          (Throw e, w1) \<Rightarrow> (Throw e, w1)
        | (Return vtxShader, w1) \<Rightarrow>
           (case Shader_createShader FRAGMENT_SHADER src w1 of
              (Throw e, w2) \<Rightarrow> (Throw e, w2)
            | (Return fragShader, w2) \<Rightarrow>
               (let (prog, w3) = Shader_createProgram vtxShader fragShader w2;
                    flip = uniform_location (dev w3) prog ''u_fragfrog_flip'';
                    res = (if xyParam \<noteq> None \<and> xyParam \<noteq> Some []
                           then uniform_location (dev w3) prog ''u_fragfrog_res'' else None);
                    s = next_ref w3
                in (Return s,
                    w3\<lparr>next_ref := Suc s,
                       shaders := (shaders w3)
                         (s := \<lparr>program = prog, uniformLocations = (\<lambda>_. None),
                                shader_textures = Map.empty, u_flip = flip,
                                u_resParam = res, textureCounter = 0\<rparr>)\<rparr>))))"

subsection \<open>context.ts: construction\<close>

definition blitSrc :: string where
  "blitSrc =
    template
     ['''',
      ''precision mediump float;'',
      '''',
      ''varying vec2 v_tpos;'',
      ''uniform sampler2D u_texture;'',
      '''',
      ''void main(void) {'',
      ''  gl_FragColor = texture2D(u_texture, v_tpos);'',
      ''}'',
      '''']"

text \<open>
  \<^verbatim>\<open>new Context(canvas)\<close>, which is \<^verbatim>\<open>fragFrog(canvas)\<close>, for a canvas of the given size on
  the given device at the given time. \<open>initial_world\<close> is the state in which the
  constructor finds things before it compiles the blit shader: the stores hold an
  arbitrary but fixed object at every reference, and \<open>next_ref\<close> is the first reference
  not in use.
\<close>

definition empty_framebuffer :: framebuffer where
  "empty_framebuffer =
    \<lparr>fbo = None, textures = [], width = Num 0, height = Num 0, numTextures = 0,
     scale = Num 1,
     usesFloatingPointTextures = False\<rparr>"

definition empty_doublebuffer :: doublebuffer where
  "empty_doublebuffer = \<lparr>seedBuffer = None, buffers = (0, 0), count = 0\<rparr>"

definition empty_shader :: shader where
  "empty_shader =
    \<lparr>program = 0, uniformLocations = (\<lambda>_. None), shader_textures = Map.empty,
     u_flip = None, u_resParam = None, textureCounter = 0\<rparr>"

definition initial_world :: "device \<Rightarrow> nat \<Rightarrow> nat \<Rightarrow> real \<Rightarrow> world" where
  "initial_world d cw ch t =
    \<lparr>gl = initial_gl, dev = d, console = [],
     canvas_width = int cw, canvas_height = int ch,
     floatingPointTexturesSupported = EXT_color_buffer_float d,
     floatingPointTexturesLinearSamplingSupported = OES_texture_float_linear d,
     blitShader = 0, clock = t, firstTime = t, lastTime = 0, next_ref = 0,
     framebuffers = (\<lambda>_. empty_framebuffer),
     doublebuffers = (\<lambda>_. empty_doublebuffer),
     shaders = (\<lambda>_. empty_shader)\<rparr>"

definition fragFrog :: "device \<Rightarrow> nat \<Rightarrow> nat \<Rightarrow> real \<Rightarrow> error + world" where
  "fragFrog d cw ch t =
    (if \<not> webgl2_available d
     then Inl (Error ''Could not get a webgl2 context from the supplied canvas. Ensure, that `getContext` was not called on it before.'')
     else
      (case createShader blitSrc [(''v_tpos'', UV)] (initial_world d cw ch t) of
         (Throw e, w1) \<Rightarrow> Inl e
       | (Return s, w1) \<Rightarrow> Inr (w1\<lparr>blitShader := s\<rparr>)))"

subsection \<open>Notions of the specification\<close>

text \<open>
  The filter and wrap mode the specification asks for, in its own words: the caller's
  explicit value if given; otherwise \<^verbatim>\<open>linear\<close>, downgraded to \<^verbatim>\<open>nearest\<close> when the image
  uses uncapped range and the device cannot sample such images linearly; otherwise
  \<^verbatim>\<open>mirroredRepeat\<close>.
\<close>

definition spec_filter :: "filter_name option \<Rightarrow> bool \<Rightarrow> bool \<Rightarrow> filter_name" where
  "spec_filter explicit uncapped linear_supported =
    (case explicit of
       Some f \<Rightarrow> f
     | None \<Rightarrow> if uncapped \<and> \<not> linear_supported then Nearest else Linear)"

definition spec_wrap :: "wrap_name option \<Rightarrow> wrap_name" where
  "spec_wrap explicit = (case explicit of Some x \<Rightarrow> x | None \<Rightarrow> MirroredRepeat)"

definition filter_constant :: "filter_name \<Rightarrow> gl_enum" where
  "filter_constant f = (case f of Linear \<Rightarrow> LINEAR | Nearest \<Rightarrow> NEAREST)"

definition wrap_constant :: "wrap_name \<Rightarrow> gl_enum" where
  "wrap_constant x =
    (case x of
       Repeat \<Rightarrow> REPEAT
     | ClampToEdge \<Rightarrow> CLAMP_TO_EDGE
     | MirroredRepeat \<Rightarrow> MIRRORED_REPEAT)"

text \<open>
  The image-like uniform sources: those whose activation binds an image to a texture
  slot. The others set a number or run a callback.
\<close>

fun image_like :: "uniform_source \<Rightarrow> bool" where
  "image_like (U_sampler2D img params) = True"
| "image_like (Framebuffer_source f) = True"
| "image_like (FramebufferTexture f index) = True"
| "image_like (Doublebuffer_source d) = True"
| "image_like v = False"

text \<open>
  \<^verbatim>\<open>seed\<close> is the only place that assigns \<^verbatim>\<open>seedBuffer\<close>, and what it assigns is
  \<^verbatim>\<open>this.context.u.sampler2D(value)\<close>: in every world the library can reach, the seed of
  every Doublebuffer is such a wrapper.
\<close>

fun seed_wrapper :: "uniform_source \<Rightarrow> bool" where
  "seed_wrapper (U_sampler2D v No_params) = True"
| "seed_wrapper v = False"

definition seeds_wrapped :: "world \<Rightarrow> bool" where
  "seeds_wrapped w =
    (\<forall>d. case seedBuffer (doublebuffers w d) of None \<Rightarrow> True | Some sd \<Rightarrow> seed_wrapper sd)"

text \<open>
  A source whose texture parameters are set by the library, not by a function of the
  caller (which is handed the device and may do with it what it likes).
\<close>

fun library_params :: "uniform_source \<Rightarrow> bool" where
  "library_params (U_sampler2D img (Params_function p)) = False"
| "library_params v = True"

text \<open>
  Consecutive draw calls onto one Doublebuffer, each with its own shader and uniforms; a
  throw ends the sequence, as it would end the caller.
\<close>

fun consecutive_draws ::
  "nat \<Rightarrow> ref \<Rightarrow> (ref \<times> (string \<times> uniform_source) list) list \<Rightarrow> world
    \<Rightarrow> (unit outcome \<times> world) option" where
  "consecutive_draws n d [] w = Some (Return (), w)"
| "consecutive_draws n d ((s, uniforms) # calls) w =
    (case draw n s (Doublebuffer_target d) uniforms w of
       None \<Rightarrow> None
     | Some (Throw e, w1) \<Rightarrow> Some (Throw e, w1)
     | Some (Return _, w1) \<Rightarrow> consecutive_draws n d calls w1)"

text \<open>The two error messages by the names the specification gives them.\<close>

definition UnseededBufferReadError :: error where
  "UnseededBufferReadError =
    Error ''Cannot do an initial read from an unseeded double buffer. Please call `seed` first.''"

definition ShaderCompilationError :: error where
  "ShaderCompilationError = Error ''Error compiling shader''"

subsection \<open>A device and some worlds to run the model on\<close>

text \<open>
  A device that compiles and links everything, supports uncapped textures but not their
  linear sampling, knows three uniforms and the two attributes, and shows a gradient.
\<close>

definition example_device :: device where
  "example_device =
    \<lparr>webgl2_available = True, EXT_color_buffer_float = True, OES_texture_float_linear = False,
     compiles = (\<lambda>_ _. True), info_log = (\<lambda>_ _. []), links = (\<lambda>_. True),
     uniform_location =
       (\<lambda>_ name. if name = ''u_texture'' then Some 0
                  else if name = ''u_fragfrog_flip'' then Some 1
                  else if name = ''u_other'' then Some 2 else None),
     attrib_location = (\<lambda>_ name. if name = ''a_vpos'' then 0 else if name = ''a_tpos'' then 1 else - 1),
     pixel_at =
       (\<lambda>_ x y. if 0 \<le> x \<and> x < 10 \<and> 0 \<le> y \<and> y < 10
                 then Some (word_of_int (20 * x), word_of_int (20 * y), 0, 255) else None)\<rparr>"

text \<open>The same device with a linker that rejects every program.\<close>

definition unlinkable_device :: device where
  "unlinkable_device = example_device\<lparr>links := (\<lambda>_. False)\<rparr>"

text \<open>A world in which a fresh texture is bound on the active unit.\<close>

definition world_with_texture :: world where
  "world_with_texture =
    on_gl (gl_bindTexture (Some 0)) (snd (createTexture (initial_world example_device 10 10 0)))"

text \<open>
  The world after \<^verbatim>\<open>fragFrog(canvas)\<close> on the example device (the blit shader is shader 0),
  then with one Framebuffer of one texture (Framebuffer 1), or with one Doublebuffer
  (Doublebuffer 1, over the Framebuffers 2 and 3).
\<close>

definition example_world :: world where
  "example_world =
    (case fragFrog example_device 10 10 0 of
       Inr w \<Rightarrow> w
     | Inl e \<Rightarrow> initial_world example_device 10 10 0)"

definition framebuffer_world :: world where
  "framebuffer_world = snd (createFramebuffer 1 (Num 1) False example_world)"

definition doublebuffer_world :: world where
  "doublebuffer_world = snd (createDoublebuffer False example_world)"

text \<open>
  The same with a Framebuffer of half the canvas size, and with one whose scale is
  \<^verbatim>\<open>NaN\<close> (again Framebuffer 1); and the double nearest to one third.
\<close>

definition half_framebuffer_world :: world where
  "half_framebuffer_world = snd (createFramebuffer 1 (Num (1 / 2)) False example_world)"

definition nan_framebuffer_world :: world where
  "nan_framebuffer_world = snd (createFramebuffer 1 NaN False example_world)"

definition one_third :: real where
  "one_third = 6004799503160661 / 18014398509481984"

section \<open>Properties\<close>

subsection \<open>What each update leaves alone\<close>

lemma on_gl_fields [simp]:
  "gl (on_gl f w) = f (gl w)"
  "dev (on_gl f w) = dev w"
  "console (on_gl f w) = console w"
  "canvas_width (on_gl f w) = canvas_width w"
  "canvas_height (on_gl f w) = canvas_height w"
  "floatingPointTexturesSupported (on_gl f w) = floatingPointTexturesSupported w"
  "floatingPointTexturesLinearSamplingSupported (on_gl f w) = floatingPointTexturesLinearSamplingSupported w"
  "blitShader (on_gl f w) = blitShader w"
  "clock (on_gl f w) = clock w"
  "firstTime (on_gl f w) = firstTime w"
  "lastTime (on_gl f w) = lastTime w"
  "next_ref (on_gl f w) = next_ref w"
  "framebuffers (on_gl f w) = framebuffers w"
  "doublebuffers (on_gl f w) = doublebuffers w"
  "shaders (on_gl f w) = shaders w"
  by (simp_all add: on_gl_def)

lemma console_error_fields [simp]:
  "gl (console_error l w) = gl w"
  "dev (console_error l w) = dev w"
  "console (console_error l w) = console w @ [l]"
  "canvas_width (console_error l w) = canvas_width w"
  "canvas_height (console_error l w) = canvas_height w"
  "floatingPointTexturesSupported (console_error l w) = floatingPointTexturesSupported w"
  "floatingPointTexturesLinearSamplingSupported (console_error l w) = floatingPointTexturesLinearSamplingSupported w"
  "blitShader (console_error l w) = blitShader w"
  "clock (console_error l w) = clock w"
  "firstTime (console_error l w) = firstTime w"
  "lastTime (console_error l w) = lastTime w"
  "next_ref (console_error l w) = next_ref w"
  "framebuffers (console_error l w) = framebuffers w"
  "doublebuffers (console_error l w) = doublebuffers w"
  "shaders (console_error l w) = shaders w"
  by (simp_all add: console_error_def)

lemma update_shader_fields [simp]:
  "gl (update_shader s u w) = gl w"
  "dev (update_shader s u w) = dev w"
  "console (update_shader s u w) = console w"
  "canvas_width (update_shader s u w) = canvas_width w"
  "canvas_height (update_shader s u w) = canvas_height w"
  "floatingPointTexturesSupported (update_shader s u w) = floatingPointTexturesSupported w"
  "floatingPointTexturesLinearSamplingSupported (update_shader s u w) = floatingPointTexturesLinearSamplingSupported w"
  "blitShader (update_shader s u w) = blitShader w"
  "clock (update_shader s u w) = clock w"
  "firstTime (update_shader s u w) = firstTime w"
  "lastTime (update_shader s u w) = lastTime w"
  "next_ref (update_shader s u w) = next_ref w"
  "framebuffers (update_shader s u w) = framebuffers w"
  "doublebuffers (update_shader s u w) = doublebuffers w"
  "shaders (update_shader s u w) = (shaders w)(s := u (shaders w s))"
  by (simp_all add: update_shader_def)

lemma update_framebuffer_fields [simp]:
  "gl (update_framebuffer s u w) = gl w"
  "dev (update_framebuffer s u w) = dev w"
  "console (update_framebuffer s u w) = console w"
  "canvas_width (update_framebuffer s u w) = canvas_width w"
  "canvas_height (update_framebuffer s u w) = canvas_height w"
  "floatingPointTexturesSupported (update_framebuffer s u w) = floatingPointTexturesSupported w"
  "floatingPointTexturesLinearSamplingSupported (update_framebuffer s u w) = floatingPointTexturesLinearSamplingSupported w"
  "blitShader (update_framebuffer s u w) = blitShader w"
  "clock (update_framebuffer s u w) = clock w"
  "firstTime (update_framebuffer s u w) = firstTime w"
  "lastTime (update_framebuffer s u w) = lastTime w"
  "next_ref (update_framebuffer s u w) = next_ref w"
  "framebuffers (update_framebuffer s u w) = (framebuffers w)(s := u (framebuffers w s))"
  "doublebuffers (update_framebuffer s u w) = doublebuffers w"
  "shaders (update_framebuffer s u w) = shaders w"
  by (simp_all add: update_framebuffer_def)

lemma update_doublebuffer_fields [simp]:
  "gl (update_doublebuffer s u w) = gl w"
  "dev (update_doublebuffer s u w) = dev w"
  "console (update_doublebuffer s u w) = console w"
  "canvas_width (update_doublebuffer s u w) = canvas_width w"
  "canvas_height (update_doublebuffer s u w) = canvas_height w"
  "floatingPointTexturesSupported (update_doublebuffer s u w) = floatingPointTexturesSupported w"
  "floatingPointTexturesLinearSamplingSupported (update_doublebuffer s u w) = floatingPointTexturesLinearSamplingSupported w"
  "blitShader (update_doublebuffer s u w) = blitShader w"
  "clock (update_doublebuffer s u w) = clock w"
  "firstTime (update_doublebuffer s u w) = firstTime w"
  "lastTime (update_doublebuffer s u w) = lastTime w"
  "next_ref (update_doublebuffer s u w) = next_ref w"
  "framebuffers (update_doublebuffer s u w) = framebuffers w"
  "doublebuffers (update_doublebuffer s u w) = (doublebuffers w)(s := u (doublebuffers w s))"
  "shaders (update_doublebuffer s u w) = shaders w"
  by (simp_all add: update_doublebuffer_def)

lemma setActiveTextureParams_frame [simp]:
  "dev (setActiveTextureParams p u w) = dev w"
  "canvas_width (setActiveTextureParams p u w) = canvas_width w"
  "canvas_height (setActiveTextureParams p u w) = canvas_height w"
  "floatingPointTexturesSupported (setActiveTextureParams p u w) = floatingPointTexturesSupported w"
  "floatingPointTexturesLinearSamplingSupported (setActiveTextureParams p u w) = floatingPointTexturesLinearSamplingSupported w"
  "blitShader (setActiveTextureParams p u w) = blitShader w"
  "clock (setActiveTextureParams p u w) = clock w"
  "firstTime (setActiveTextureParams p u w) = firstTime w"
  "lastTime (setActiveTextureParams p u w) = lastTime w"
  "next_ref (setActiveTextureParams p u w) = next_ref w"
  "framebuffers (setActiveTextureParams p u w) = framebuffers w"
  "doublebuffers (setActiveTextureParams p u w) = doublebuffers w"
  "shaders (setActiveTextureParams p u w) = shaders w"
  by (simp_all add: setActiveTextureParams_def Let_def)


subsection \<open>Slot numbers\<close>

lemma slot_index_cases:
  fixes index :: int
  assumes "0 \<le> index" and "index \<le> 31"
  shows "index = 31 \<or> index = 30 \<or> index = 29 \<or> index = 28 \<or> index = 27 \<or> index = 26 \<or>
         index = 25 \<or> index = 24 \<or> index = 23 \<or> index = 22 \<or> index = 21 \<or> index = 20 \<or>
         index = 19 \<or> index = 18 \<or> index = 17 \<or> index = 16 \<or> index = 15 \<or> index = 14 \<or>
         index = 13 \<or> index = 12 \<or> index = 11 \<or> index = 10 \<or> index = 9 \<or> index = 8 \<or>
         index = 7 \<or> index = 6 \<or> index = 5 \<or> index = 4 \<or> index = 3 \<or> index = 2 \<or>
         index = 1 \<or> index = 0"
  using assms by arith

lemma getTextureNumber_inside:
  assumes "0 \<le> index" "index \<le> 31"
  shows "getTextureNumber index = Inr (TEXTURE (nat index))"
  using slot_index_cases [OF assms] unfolding getTextureNumber_def
  by (elim disjE) simp_all

lemma getTextureNumber_outside:
  "index < 0 \<or> 31 < index \<Longrightarrow> getTextureNumber index = Inl (Error ''Invalid texture index'')"
  unfolding getTextureNumber_def by auto

lemma getColorAttachmentNumber_inside:
  assumes "0 \<le> index" "index \<le> 15"
  shows "getColorAttachmentNumber index = Inr (COLOR_ATTACHMENT (nat index))"
proof -
  from assms have "index \<le> 31" by simp
  from slot_index_cases [OF assms(1) this] assms(2) show ?thesis
    unfolding getColorAttachmentNumber_def by (elim disjE) simp_all
qed

lemma getColorAttachmentNumber_outside:
  "index < 0 \<or> 15 < index \<Longrightarrow>
    getColorAttachmentNumber index = Inl (Error ''Invalid attachment index'')"
  unfolding getColorAttachmentNumber_def by auto

text \<open>
  Claim C8. For every integer index, \<open>getTextureNumber\<close> throws (the error ``Invalid
  texture index'') if and only if the index lies outside 0..31, and
  \<open>getColorAttachmentNumber\<close> throws (``Invalid attachment index'') if and only if it lies
  outside 0..15; inside the range each returns the device constant of that number,
  \<^verbatim>\<open>gl.TEXTUREi\<close> or \<^verbatim>\<open>gl.COLOR_ATTACHMENTi\<close>.
\<close>

theorem slot_numbers_checked:
  "getTextureNumber index =
     (if 0 \<le> index \<and> index \<le> 31 then Inr (TEXTURE (nat index))
      else Inl (Error ''Invalid texture index''))
   \<and> ((\<exists>e. getTextureNumber index = Inl e) = (index < 0 \<or> 31 < index))
   \<and> getColorAttachmentNumber index =
     (if 0 \<le> index \<and> index \<le> 15 then Inr (COLOR_ATTACHMENT (nat index))
      else Inl (Error ''Invalid attachment index''))
   \<and> ((\<exists>e. getColorAttachmentNumber index = Inl e) = (index < 0 \<or> 15 < index))"
proof -
  have t: "getTextureNumber index =
     (if 0 \<le> index \<and> index \<le> 31 then Inr (TEXTURE (nat index))
      else Inl (Error ''Invalid texture index''))"
    using getTextureNumber_inside [of index] getTextureNumber_outside [of index] by auto
  have c: "getColorAttachmentNumber index =
     (if 0 \<le> index \<and> index \<le> 15 then Inr (COLOR_ATTACHMENT (nat index))
      else Inl (Error ''Invalid attachment index''))"
    using getColorAttachmentNumber_inside [of index] getColorAttachmentNumber_outside [of index]
    by auto
  have t': "(\<exists>e. getTextureNumber index = Inl e) = (index < 0 \<or> 31 < index)"
    unfolding t by auto
  have c': "(\<exists>e. getColorAttachmentNumber index = Inl e) = (index < 0 \<or> 15 < index)"
    unfolding c by auto
  from t t' c c' show ?thesis by blast
qed

theorem slot_numbers_checked_witness:
  "getTextureNumber 31 = Inr (TEXTURE 31)
   \<and> getTextureNumber 32 = Inl (Error ''Invalid texture index'')
   \<and> getColorAttachmentNumber 15 = Inr (COLOR_ATTACHMENT 15)
   \<and> getColorAttachmentNumber (- 1) = Inl (Error ''Invalid attachment index'')"
  using slot_numbers_checked [of 31] slot_numbers_checked [of 32]
    slot_numbers_checked [of 15] slot_numbers_checked [of "- 1"]
  by simp

subsection \<open>Texture parameters\<close>

lemma gl_texParameteri_bound:
  assumes "bound_texture g = Some t" "texture_objects g t = Some obj"
  shows "bound_texture (gl_texParameteri pname v g) = Some t"
    and "texture_objects (gl_texParameteri pname v g) t
          = Some (obj\<lparr>tex_parameter := (tex_parameter obj)(pname \<mapsto> v)\<rparr>)"
  using assms by (simp_all add: gl_texParameteri_def update_bound_texture_def bound_texture_def)

lemma setActiveTextureParams_gl:
  "gl (setActiveTextureParams params usesFloat w) =
    gl_texParameteri TEXTURE_WRAP_T (wrap_constant (spec_wrap (Option.bind params wrap_param)))
     (gl_texParameteri TEXTURE_WRAP_S (wrap_constant (spec_wrap (Option.bind params wrap_param)))
       (gl_texParameteri TEXTURE_MAG_FILTER
          (filter_constant (spec_filter (Option.bind params filter_param) usesFloat
             (floatingPointTexturesLinearSamplingSupported w)))
         (gl_texParameteri TEXTURE_MIN_FILTER
            (filter_constant (spec_filter (Option.bind params filter_param) usesFloat
               (floatingPointTexturesLinearSamplingSupported w)))
           (gl w))))"
  by (cases "Option.bind params wrap_param"; cases "Option.bind params filter_param")
     (auto simp: setActiveTextureParams_def Let_def spec_filter_def spec_wrap_def
        wrap_constant_def filter_constant_def split: wrap_name.splits filter_name.splits)

text \<open>
  Claim C7. \<open>setActiveTextureParams\<close> resolves the filter to the caller's explicit filter
  if given, otherwise to \<^verbatim>\<open>linear\<close>, except that the default is \<^verbatim>\<open>nearest\<close> exactly when the
  image is said to use uncapped range (the argument \<^verbatim>\<open>usesFloatingPointTextures\<close>) and the
  device lacks linear sampling of such textures; it resolves the wrap mode to the caller's
  explicit wrap if given, otherwise to \<^verbatim>\<open>mirroredRepeat\<close>. The texture bound on the active
  unit gets the filter as both its min and its mag filter and the wrap mode as both its
  horizontal and its vertical wrap; nothing else of it changes.
\<close>

theorem setActiveTextureParams_resolution:
  assumes "bound_texture (gl w) = Some t" and "texture_objects (gl w) t = Some obj"
  shows "texture_objects (gl (setActiveTextureParams params usesFloat w)) t =
          Some (obj\<lparr>tex_parameter := (tex_parameter obj)
            (TEXTURE_MIN_FILTER \<mapsto>
               filter_constant (spec_filter (Option.bind params filter_param) usesFloat
                 (floatingPointTexturesLinearSamplingSupported w)),
             TEXTURE_MAG_FILTER \<mapsto>
               filter_constant (spec_filter (Option.bind params filter_param) usesFloat
                 (floatingPointTexturesLinearSamplingSupported w)),
             TEXTURE_WRAP_S \<mapsto> wrap_constant (spec_wrap (Option.bind params wrap_param)),
             TEXTURE_WRAP_T \<mapsto> wrap_constant (spec_wrap (Option.bind params wrap_param)))\<rparr>)
        \<and> ((spec_filter None usesFloat (floatingPointTexturesLinearSamplingSupported w) = Nearest)
            = (usesFloat \<and> \<not> floatingPointTexturesLinearSamplingSupported w))"
proof -
  note s1 = gl_texParameteri_bound [OF assms]
  note s2 = gl_texParameteri_bound [OF s1]
  note s3 = gl_texParameteri_bound [OF s2]
  note s4 = gl_texParameteri_bound [OF s3]
  have "texture_objects (gl (setActiveTextureParams params usesFloat w)) t =
          Some (obj\<lparr>tex_parameter := (tex_parameter obj)
            (TEXTURE_MIN_FILTER \<mapsto>
               filter_constant (spec_filter (Option.bind params filter_param) usesFloat
                 (floatingPointTexturesLinearSamplingSupported w)),
             TEXTURE_MAG_FILTER \<mapsto>
               filter_constant (spec_filter (Option.bind params filter_param) usesFloat
                 (floatingPointTexturesLinearSamplingSupported w)),
             TEXTURE_WRAP_S \<mapsto> wrap_constant (spec_wrap (Option.bind params wrap_param)),
             TEXTURE_WRAP_T \<mapsto> wrap_constant (spec_wrap (Option.bind params wrap_param)))\<rparr>)"
    unfolding setActiveTextureParams_gl by (simp add: s4(2))
  moreover have "(spec_filter None usesFloat (floatingPointTexturesLinearSamplingSupported w) = Nearest)
            = (usesFloat \<and> \<not> floatingPointTexturesLinearSamplingSupported w)"
    by (simp add: spec_filter_def)
  ultimately show ?thesis by blast
qed

lemma world_with_texture_bound:
  "bound_texture (gl world_with_texture) = Some 0"
  "texture_objects (gl world_with_texture) 0 = Some \<lparr>level0 = None, tex_parameter = Map.empty\<rparr>"
  "floatingPointTexturesLinearSamplingSupported world_with_texture = False"
  by (simp_all add: world_with_texture_def createTexture_def gl_createTexture_def
        gl_bindTexture_def bound_texture_def initial_world_def initial_gl_def example_device_def
        split_def)

theorem setActiveTextureParams_resolution_witness:
  "bound_texture (gl world_with_texture) = Some 0
   \<and> texture_objects (gl world_with_texture) 0 = Some \<lparr>level0 = None, tex_parameter = Map.empty\<rparr>
   \<and> texture_objects (gl (setActiveTextureParams None True world_with_texture)) 0 =
       Some \<lparr>level0 = None,
             tex_parameter = [TEXTURE_MIN_FILTER \<mapsto> NEAREST, TEXTURE_MAG_FILTER \<mapsto> NEAREST,
                              TEXTURE_WRAP_S \<mapsto> MIRRORED_REPEAT, TEXTURE_WRAP_T \<mapsto> MIRRORED_REPEAT]\<rparr>
   \<and> texture_objects (gl (setActiveTextureParams
         (Some \<lparr>filter_param = Some Linear, wrap_param = Some ClampToEdge\<rparr>) True world_with_texture)) 0 =
       Some \<lparr>level0 = None,
             tex_parameter = [TEXTURE_MIN_FILTER \<mapsto> LINEAR, TEXTURE_MAG_FILTER \<mapsto> LINEAR,
                              TEXTURE_WRAP_S \<mapsto> CLAMP_TO_EDGE, TEXTURE_WRAP_T \<mapsto> CLAMP_TO_EDGE]\<rparr>"
  using setActiveTextureParams_resolution [OF world_with_texture_bound(1,2), of None True]
    setActiveTextureParams_resolution [OF world_with_texture_bound(1,2),
      of "Some \<lparr>filter_param = Some Linear, wrap_param = Some ClampToEdge\<rparr>" True]
    world_with_texture_bound
  by (simp add: spec_filter_def spec_wrap_def filter_constant_def wrap_constant_def)

subsection \<open>Reading a pixel\<close>

text \<open>
  Claim C9. For a canvas-space coordinate \<open>(x, y)\<close> inside the canvas (origin top left, Y
  down), \<open>getColorAt x y\<close> reads the one pixel at the device-space coordinate
  \<open>(x, canvas_height - y - 1)\<close> (origin bottom left), which lies inside the surface
  too, and returns its four channels, each between 0 and 255. The pixel is read from the
  framebuffer the device has bound for reading; when the device delivers nothing the four
  channels are 0.
\<close>

theorem getColorAt_reads_mirrored_row:
  assumes "0 \<le> x" "x < canvas_width w" "0 \<le> y" "y < canvas_height w"
  shows "getColorAt x y w =
          (case pixel_at (dev w) (gl w) x (canvas_height w - y - 1) of
             None \<Rightarrow> (0, 0, 0, 0)
           | Some (r, g, b, a) \<Rightarrow> (unat r, unat g, unat b, unat a))
       \<and> 0 \<le> canvas_height w - y - 1 \<and> canvas_height w - y - 1 < canvas_height w
       \<and> (case getColorAt x y w of (r, g, b, a) \<Rightarrow> r \<le> 255 \<and> g \<le> 255 \<and> b \<le> 255 \<and> a \<le> 255)"
proof -
  have b: "unat (v :: 8 word) \<le> 255" for v
    using unsigned_less [of v, where ?'a = nat] by simp
  have "getColorAt x y w =
          (case pixel_at (dev w) (gl w) x (canvas_height w - y - 1) of
             None \<Rightarrow> (0, 0, 0, 0)
           | Some (r, g, b, a) \<Rightarrow> (unat r, unat g, unat b, unat a))"
    by (simp add: getColorAt_def gl_readPixels_def split: option.splits)
  moreover have "0 \<le> canvas_height w - y - 1 \<and> canvas_height w - y - 1 < canvas_height w"
    using assms by simp
  moreover have "case getColorAt x y w of (r, g, b, a) \<Rightarrow> r \<le> 255 \<and> g \<le> 255 \<and> b \<le> 255 \<and> a \<le> 255"
    by (simp add: getColorAt_def Let_def b)
  ultimately show ?thesis by blast
qed

theorem getColorAt_reads_mirrored_row_witness:
  "(0::int) \<le> 3 \<and> 3 < canvas_width (initial_world example_device 10 10 0)
   \<and> (0::int) \<le> 9 \<and> 9 < canvas_height (initial_world example_device 10 10 0)
   \<and> getColorAt 3 9 (initial_world example_device 10 10 0) = (60, 0, 0, 255)"
proof -
  have h: "(0::int) \<le> 3" "3 < canvas_width (initial_world example_device 10 10 0)"
    "(0::int) \<le> 9" "9 < canvas_height (initial_world example_device 10 10 0)"
    by (simp_all add: initial_world_def)
  from getColorAt_reads_mirrored_row [OF h] h show ?thesis
    by (simp add: initial_world_def example_device_def)
qed

subsection \<open>JavaScript numbers\<close>

lemma round_half_even_int [simp]: "round_half_even (real_of_int k) = k"
  by (simp add: round_half_even_def)

lemma two_powr_int: "(2::real) powr real_of_int k = 2 powi k"
  by (simp add: powr_real_of_int')

lemma floor_log2_eq:
  assumes "2 powi b \<le> x" "x < 2 powi (b + 1)"
  shows "\<lfloor>log 2 x\<rfloor> = b"
proof -
  have "(0::real) < 2 powi b" by simp
  with assms(1) have p: "0 < x" by linarith
  have "real_of_int b \<le> log 2 x"
    using assms(1) p by (simp add: le_log_iff two_powr_int)
  moreover have "log 2 x < real_of_int (b + 1)"
    using assms(2) p two_powr_int [of "b + 1"] log_less_iff [of 2 x "real_of_int (b + 1)"]
    by simp
  ultimately show ?thesis by (simp add: floor_eq_iff)
qed

lemma to_double_exact:
  assumes "x = real_of_int m * 2 powi e" "\<bar>m\<bar> < 2 ^ 53" "- 1074 \<le> e" "e \<le> 971"
  shows "to_double x = Num x"
proof (cases "x = 0")
  case True
  then show ?thesis by (simp add: to_double_def)
next
  case False
  define b where "b = \<lfloor>log 2 \<bar>x\<bar>\<rfloor>"
  define E where "E = max (b - 52) (- 1074)"
  have m0: "m \<noteq> 0" using False assms(1) by auto
  have ax: "\<bar>x\<bar> = real_of_int \<bar>m\<bar> * 2 powi e"
    by (simp add: assms(1) abs_mult)
  have "real_of_int \<bar>m\<bar> < 2 ^ 53" using assms(2) by (metis of_int_less_iff of_int_numeral of_int_power)
  then have "\<bar>x\<bar> < 2 ^ 53 * 2 powi e"
    unfolding ax by (simp add: mult_strict_right_mono)
  also have "\<dots> = 2 powi (53 + e)" by (simp add: power_int_add)
  finally have up: "\<bar>x\<bar> < 2 powi (53 + e)" .
  have xp: "0 < \<bar>x\<bar>" using False by simp
  have "log 2 \<bar>x\<bar> < real_of_int (53 + e)"
    using up xp two_powr_int [of "53 + e"] log_less_iff [of 2 "\<bar>x\<bar>" "real_of_int (53 + e)"]
    by simp
  then have "b < 53 + e" unfolding b_def by linarith
  then have Ee: "E \<le> e" using assms(3) by (simp add: E_def)
  define k where "k = m * 2 ^ nat (e - E)"
  have "x / 2 powi E = real_of_int m * 2 powi (e - E)"
    by (simp add: assms(1) power_int_diff)
  also have "\<dots> = real_of_int k"
    using Ee by (simp add: k_def power_int_def)
  finally have q: "x / 2 powi E = real_of_int k" .
  have y: "real_of_int (round_half_even (x / 2 powi E)) * 2 powi E = x"
    unfolding q round_half_even_int using q by (simp add: field_simps)
  have "2 powi (53 + e) \<le> (2::real) powi 1024"
    using assms(4) by (intro power_int_increasing) auto
  with up have lt: "\<bar>x\<bar> < 2 ^ 1024" by simp
  show ?thesis
    using False lt y unfolding to_double_def Let_def b_def [symmetric] E_def [symmetric]
    by (auto simp: abs_if split: if_splits)
qed

lemma to_double_of_int:
  assumes "\<bar>n\<bar> < 2 ^ 53"
  shows "to_double (real_of_int n) = Num (real_of_int n)"
  using to_double_exact [of "real_of_int n" n 0] assms by simp

lemma ToInt32_of_int:
  assumes "- (2 ^ 31) \<le> n" "n < 2 ^ 31"
  shows "ToInt32 (Num (real_of_int n)) = n"
proof -
  have t: "(if 0 \<le> real_of_int n then \<lfloor>real_of_int n\<rfloor> else \<lceil>real_of_int n\<rceil>) = n" by simp
  show ?thesis
  proof (cases "0 \<le> n")
    case True
    with assms have "n mod 2 ^ 32 = n" by (simp add: mod_pos_pos_trivial)
    with assms True show ?thesis unfolding ToInt32_def jsnum.case Let_def t by simp
  next
    case False
    have "n mod 2 ^ 32 = (n + 2 ^ 32) mod 2 ^ 32" by simp
    also have "\<dots> = n + 2 ^ 32" using assms False by (intro mod_pos_pos_trivial) auto
    finally have "n mod 2 ^ 32 = n + 2 ^ 32" .
    with assms False show ?thesis unfolding ToInt32_def jsnum.case Let_def t by simp
  qed
qed

lemma scaled_one:
  assumes "\<bar>n\<bar> < 2 ^ 53"
  shows "scaled n (Num 1) = Num (real_of_int n)"
  using to_double_of_int [OF assms] by (simp add: scaled_def js_mul_def js_floor_def)

lemma scaled_exact:
  assumes "real_of_int n * s = real_of_int m * 2 powi e" "\<bar>m\<bar> < 2 ^ 53" "- 1074 \<le> e" "e \<le> 971"
  shows "scaled n (Num s) = Num (real_of_int \<lfloor>real_of_int n * s\<rfloor>)"
  using to_double_exact [OF assms] by (simp add: scaled_def js_mul_def js_floor_def)

lemma scaled_NaN [simp]: "scaled n NaN = NaN"
  by (simp add: scaled_def js_mul_def js_floor_def)

lemma scaled_one_third:
  "js_mul (Num 300) (Num one_third) = Num 100"
  "scaled 300 (Num one_third) = Num 100"
  "\<lfloor>300 * one_third\<rfloor> = 99"
proof -
  have x: "300 * one_third = (450359962737049575 :: real) / 4503599627370496"
    by (simp add: one_third_def)
  have b: "\<lfloor>log 2 \<bar>300 * one_third\<bar>\<rfloor> = 6"
    unfolding x by (rule floor_log2_eq) (simp_all add: power_int_def)
  have p: "(2::real) powi (- 46) = 1 / 70368744177664"
    by (simp add: power_int_minus)
  have q: "300 * one_third / 2 powi (- 46) = (450359962737049575 :: real) / 64"
    unfolding x p by simp
  have r: "round_half_even (450359962737049575 / 64) = 7036874417766400"
    by (simp add: round_half_even_def Let_def)
  have y: "real_of_int 7036874417766400 * 2 powi (- 46) = 100"
    unfolding p by simp
  have nz: "300 * one_third \<noteq> 0" unfolding x by simp
  have e: "max (6 - 52) (- 1074 :: int) = - 46" by simp
  have t: "to_double (300 * one_third) = Num 100"
    unfolding to_double_def Let_def b e q r y using nz by simp
  then show "js_mul (Num 300) (Num one_third) = Num 100"
    by (simp add: js_mul_def)
  from t show "scaled 300 (Num one_third) = Num 100"
    by (simp add: scaled_def js_mul_def js_floor_def)
  show "\<lfloor>300 * one_third\<rfloor> = 99" by (simp add: one_third_def)
qed

lemma round_half_even_error: "\<bar>real_of_int (round_half_even q) - q\<bar> \<le> 1 / 2"
proof -
  have "real_of_int \<lfloor>q\<rfloor> \<le> q" "q < real_of_int \<lfloor>q\<rfloor> + 1" by linarith+
  then show ?thesis by (auto simp: round_half_even_def Let_def)
qed

lemma two_powi_floor_log2_le:
  assumes "0 < x"
  shows "2 powi \<lfloor>log 2 x\<rfloor> \<le> x"
proof -
  have "real_of_int \<lfloor>log 2 x\<rfloor> \<le> log 2 x" by simp
  then have "2 powr real_of_int \<lfloor>log 2 x\<rfloor> \<le> x"
    using assms le_log_iff [of 2 x "real_of_int \<lfloor>log 2 x\<rfloor>"] by simp
  then show ?thesis by (simp add: two_powr_int)
qed

lemma to_double_error:
  assumes "to_double x = Num y"
  shows "\<bar>y - x\<bar> \<le> \<bar>x\<bar> / 2 ^ 53 \<or> \<bar>y - x\<bar> \<le> 2 powi (- 1075)"
proof (cases "x = 0")
  case True
  with assms show ?thesis by (simp add: to_double_def)
next
  case False
  define b where "b = \<lfloor>log 2 \<bar>x\<bar>\<rfloor>"
  define E where "E = max (b - 52) (- 1074)"
  define k where "k = round_half_even (x / 2 powi E)"
  have y: "y = real_of_int k * 2 powi E"
    using assms False unfolding to_double_def Let_def b_def [symmetric] E_def [symmetric]
      k_def [symmetric]
    by (auto split: if_splits)
  have pos: "(0::real) < 2 powi E" by simp
  have "y - x = (real_of_int k - x / 2 powi E) * 2 powi E"
    unfolding y using pos by (simp add: field_simps)
  then have "\<bar>y - x\<bar> = \<bar>real_of_int k - x / 2 powi E\<bar> * 2 powi E"
    using pos by (simp add: abs_mult)
  also have "\<dots> \<le> 1 / 2 * 2 powi E"
    using round_half_even_error [of "x / 2 powi E"] pos
    unfolding k_def by (intro mult_right_mono) auto
  also have "\<dots> = 2 powi (E - 1)" by (simp add: power_int_diff)
  finally have d: "\<bar>y - x\<bar> \<le> 2 powi (E - 1)" .
  show ?thesis
  proof (cases "b - 52 \<le> - 1074")
    case True
    then have "E = - 1074" by (simp add: E_def)
    with d show ?thesis by simp
  next
    case False
    then have "E = b - 52" by (simp add: E_def)
    then have "(2::real) powi (E - 1) = 2 powi b / 2 ^ 53"
      by (simp add: power_int_diff)
    also have "\<dots> \<le> \<bar>x\<bar> / 2 ^ 53"
      using two_powi_floor_log2_le [of "\<bar>x\<bar>"] \<open>x \<noteq> 0\<close>
      unfolding b_def by (intro divide_right_mono) auto
    finally show ?thesis using d by linarith
  qed
qed

subsection \<open>What binding a Framebuffer leaves alone\<close>

lemma createTexture_frame:
  assumes "createTexture w = (t, w')"
  shows "doublebuffers w' = doublebuffers w" "shaders w' = shaders w"
    "framebuffers w' = framebuffers w" "dev w' = dev w"
    "canvas_width w' = canvas_width w" "canvas_height w' = canvas_height w"
    "floatingPointTexturesSupported w' = floatingPointTexturesSupported w"
    "floatingPointTexturesLinearSamplingSupported w' = floatingPointTexturesLinearSamplingSupported w"
    "blitShader w' = blitShader w"
  using assms by (auto simp: createTexture_def split_def Let_def)

lemma Framebuffer_init_texture_frame:
  assumes "Framebuffer_init_texture f i w = (r, w')"
  shows "doublebuffers w' = doublebuffers w \<and> shaders w' = shaders w
       \<and> framebuffers w' = framebuffers w \<and> dev w' = dev w
       \<and> canvas_width w' = canvas_width w \<and> canvas_height w' = canvas_height w
       \<and> blitShader w' = blitShader w"
proof -
  obtain t w1 where c: "createTexture w = (t, w1)" by (cases "createTexture w")
  note fr = createTexture_frame [OF c]
  show ?thesis
    using assms c fr
    by (auto simp: Framebuffer_init_texture_def Let_def split: sum.splits if_splits)
qed

lemma map_effect_init_texture_frame:
  "map_effect (Framebuffer_init_texture f) is w = (r, w') \<Longrightarrow>
    doublebuffers w' = doublebuffers w \<and> shaders w' = shaders w
     \<and> framebuffers w' = framebuffers w \<and> dev w' = dev w
     \<and> canvas_width w' = canvas_width w \<and> canvas_height w' = canvas_height w
     \<and> blitShader w' = blitShader w"
proof (induction "is" arbitrary: w r w')
  case Nil
  then show ?case by simp
next
  case (Cons i "is")
  obtain r1 w1 where s1: "Framebuffer_init_texture f i w = (r1, w1)"
    by (cases "Framebuffer_init_texture f i w")
  note f1 = Framebuffer_init_texture_frame [OF s1]
  show ?case
  proof (cases r1)
    case (Throw e)
    with Cons.prems s1 f1 show ?thesis by simp
  next
    case (Return t)
    obtain r2 w2 where s2: "map_effect (Framebuffer_init_texture f) is w1 = (r2, w2)"
      by (cases "map_effect (Framebuffer_init_texture f) is w1")
    note f2 = Cons.IH [OF s2]
    from Cons.prems s1 s2 Return have "w' = w2" by (cases r2) auto
    with f1 f2 show ?thesis by simp
  qed
qed

lemma fold_deleteTexture_frame:
  "doublebuffers (fold (\<lambda>texture. on_gl (gl_deleteTexture texture)) ts w) = doublebuffers w
   \<and> shaders (fold (\<lambda>texture. on_gl (gl_deleteTexture texture)) ts w) = shaders w
   \<and> framebuffers (fold (\<lambda>texture. on_gl (gl_deleteTexture texture)) ts w) = framebuffers w
   \<and> dev (fold (\<lambda>texture. on_gl (gl_deleteTexture texture)) ts w) = dev w
   \<and> canvas_width (fold (\<lambda>texture. on_gl (gl_deleteTexture texture)) ts w) = canvas_width w
   \<and> canvas_height (fold (\<lambda>texture. on_gl (gl_deleteTexture texture)) ts w) = canvas_height w
   \<and> blitShader (fold (\<lambda>texture. on_gl (gl_deleteTexture texture)) ts w) = blitShader w"
  by (induction ts arbitrary: w) (simp_all add: on_gl_def)

lemma Framebuffer_destroy_frame:
  "doublebuffers (Framebuffer_destroy f w) = doublebuffers w"
  "shaders (Framebuffer_destroy f w) = shaders w"
  "framebuffers (Framebuffer_destroy f w) = framebuffers w"
  "dev (Framebuffer_destroy f w) = dev w"
  "canvas_width (Framebuffer_destroy f w) = canvas_width w"
  "canvas_height (Framebuffer_destroy f w) = canvas_height w"
  "blitShader (Framebuffer_destroy f w) = blitShader w"
  by (simp_all add: Framebuffer_destroy_def Let_def fold_deleteTexture_frame)

lemma map_effect_init_texture_snd [simp]:
  "doublebuffers (snd (map_effect (Framebuffer_init_texture f) is w)) = doublebuffers w"
  "shaders (snd (map_effect (Framebuffer_init_texture f) is w)) = shaders w"
  "framebuffers (snd (map_effect (Framebuffer_init_texture f) is w)) = framebuffers w"
  "dev (snd (map_effect (Framebuffer_init_texture f) is w)) = dev w"
  "canvas_width (snd (map_effect (Framebuffer_init_texture f) is w)) = canvas_width w"
  "canvas_height (snd (map_effect (Framebuffer_init_texture f) is w)) = canvas_height w"
  "blitShader (snd (map_effect (Framebuffer_init_texture f) is w)) = blitShader w"
  using map_effect_init_texture_frame [of f "is" w
      "fst (map_effect (Framebuffer_init_texture f) is w)"
      "snd (map_effect (Framebuffer_init_texture f) is w)"]
  by simp_all

lemma Framebuffer_init_frame:
  assumes "Framebuffer_init f w = (r, w')"
  shows "doublebuffers w' = doublebuffers w \<and> shaders w' = shaders w \<and> dev w' = dev w
       \<and> canvas_width w' = canvas_width w \<and> canvas_height w' = canvas_height w
       \<and> blitShader w' = blitShader w
       \<and> (\<forall>f'. f' \<noteq> f \<longrightarrow> framebuffers w' f' = framebuffers w f')"
  using assms unfolding Framebuffer_init_def Let_def split_def
  by (auto split: prod.splits outcome.splits sum.splits if_splits
        simp: Framebuffer_destroy_frame)

lemma Framebuffer_bind_frame:
  assumes "Framebuffer_bind f w = (r, w')"
  shows "doublebuffers w' = doublebuffers w \<and> shaders w' = shaders w \<and> dev w' = dev w
       \<and> canvas_width w' = canvas_width w \<and> canvas_height w' = canvas_height w
       \<and> blitShader w' = blitShader w
       \<and> (\<forall>f'. f' \<noteq> f \<longrightarrow> framebuffers w' f' = framebuffers w f')"
proof (cases "js_strict_neq (width (framebuffers w f))
          (scaled (canvas_width w) (scale (framebuffers w f)))
        \<or> js_strict_neq (height (framebuffers w f))
          (scaled (canvas_height w) (scale (framebuffers w f)))")
  case True
  with assms have "Framebuffer_init f w = (r, w')" by (simp add: Framebuffer_bind_def Let_def)
  from Framebuffer_init_frame [OF this] show ?thesis .
next
  case False
  with assms show ?thesis by (auto simp: Framebuffer_bind_def Let_def)
qed

subsection \<open>What activating a uniform source leaves alone, and what it counts\<close>

lemma seed_wrapper_image_like: "seed_wrapper v \<Longrightarrow> image_like v \<and> library_params v"
  by (induction v rule: seed_wrapper.induct) simp_all

lemma read_buffer_image_like:
  assumes "getReadBuffer (doublebuffers w d) = Inr rb" and "seeds_wrapped w"
  shows "image_like rb"
proof (cases "count (doublebuffers w d) = 0")
  case True
  with assms(1) have "seedBuffer (doublebuffers w d) = Some rb"
    by (auto simp: getReadBuffer_def split: option.splits)
  with assms(2) have "seed_wrapper rb"
    by (auto simp: seeds_wrapped_def split: option.splits dest: spec [of _ d])
  then show ?thesis by (simp add: seed_wrapper_image_like)
next
  case False
  with assms(1) show ?thesis by (auto simp: getReadBuffer_def getTexture_def)
qed

lemma read_buffer_library_params:
  assumes "getReadBuffer (doublebuffers w d) = Inr rb" and "seeds_wrapped w"
  shows "library_params rb"
proof (cases "count (doublebuffers w d) = 0")
  case True
  with assms(1) have "seedBuffer (doublebuffers w d) = Some rb"
    by (auto simp: getReadBuffer_def split: option.splits)
  with assms(2) have "seed_wrapper rb"
    by (auto simp: seeds_wrapped_def split: option.splits dest: spec [of _ d])
  then show ?thesis by (simp add: seed_wrapper_image_like)
next
  case False
  with assms(1) show ?thesis by (auto simp: getReadBuffer_def getTexture_def)
qed

lemma seeds_wrapped_cong:
  "doublebuffers w' = doublebuffers w \<Longrightarrow> seeds_wrapped w' = seeds_wrapped w"
  by (simp add: seeds_wrapped_def)

lemma getOrCreateTexture_frame:
  assumes "getOrCreateTexture s key w = (t, w')"
  shows "doublebuffers w' = doublebuffers w \<and> framebuffers w' = framebuffers w \<and> dev w' = dev w
      \<and> canvas_width w' = canvas_width w \<and> canvas_height w' = canvas_height w
      \<and> blitShader w' = blitShader w
      \<and> floatingPointTexturesLinearSamplingSupported w' = floatingPointTexturesLinearSamplingSupported w
      \<and> textureCounter (shaders w' s) = textureCounter (shaders w s)
      \<and> program (shaders w' s) = program (shaders w s)
      \<and> (\<forall>s'. s' \<noteq> s \<longrightarrow> shaders w' s' = shaders w s')"
  using assms
  by (auto simp: getOrCreateTexture_def createTexture_def Let_def split_def split: option.splits)

lemma wrapTexImageSource_activate_frame:
  assumes "wrapTexImageSource_activate v loc s w = (r, w')"
  shows "doublebuffers w' = doublebuffers w \<and> framebuffers w' = framebuffers w \<and> dev w' = dev w
      \<and> canvas_width w' = canvas_width w \<and> canvas_height w' = canvas_height w
      \<and> blitShader w' = blitShader w
      \<and> floatingPointTexturesLinearSamplingSupported w' = floatingPointTexturesLinearSamplingSupported w
      \<and> program (shaders w' s) = program (shaders w s)
      \<and> (\<forall>s'. s' \<noteq> s \<longrightarrow> shaders w' s' = shaders w s')
      \<and> textureCounter (shaders w' s) =
          textureCounter (shaders w s) + (if r = Return () then 1 else 0)"
proof -
  obtain t w1 where g: "getOrCreateTexture s v w = (t, w1)" by (cases "getOrCreateTexture s v w")
  note fr = getOrCreateTexture_frame [OF g]
  show ?thesis
    using assms g fr
    by (auto simp: wrapTexImageSource_activate_def Let_def getTextureCounter_def
          incTextureCounter_def split: sum.splits)
qed

lemma FramebufferTexture_activate_frame:
  assumes "FramebufferTexture_activate f index loc s w = (r, w')"
  shows "doublebuffers w' = doublebuffers w \<and> framebuffers w' = framebuffers w \<and> dev w' = dev w
      \<and> canvas_width w' = canvas_width w \<and> canvas_height w' = canvas_height w
      \<and> blitShader w' = blitShader w
      \<and> floatingPointTexturesLinearSamplingSupported w' = floatingPointTexturesLinearSamplingSupported w
      \<and> program (shaders w' s) = program (shaders w s)
      \<and> (\<forall>s'. s' \<noteq> s \<longrightarrow> shaders w' s' = shaders w s')
      \<and> textureCounter (shaders w' s) =
          textureCounter (shaders w s) + (if r = Return () then 1 else 0)"
  using assms
  by (auto simp: FramebufferTexture_activate_def Let_def getTextureCounter_def
        incTextureCounter_def split: sum.splits)

lemma sampler2D_params_frame [simp]:
  "doublebuffers (sampler2D_params img params w) = doublebuffers w"
  "framebuffers (sampler2D_params img params w) = framebuffers w"
  "shaders (sampler2D_params img params w) = shaders w"
  "dev (sampler2D_params img params w) = dev w"
  "canvas_width (sampler2D_params img params w) = canvas_width w"
  "canvas_height (sampler2D_params img params w) = canvas_height w"
  "blitShader (sampler2D_params img params w) = blitShader w"
  "floatingPointTexturesLinearSamplingSupported (sampler2D_params img params w)
     = floatingPointTexturesLinearSamplingSupported w"
  by (simp_all add: sampler2D_params_def Let_def split: sampler_params.splits)

lemma activate_frame:
  "activate n v loc s w = Some (r, w') \<Longrightarrow>
    doublebuffers w' = doublebuffers w \<and> framebuffers w' = framebuffers w \<and> dev w' = dev w
      \<and> canvas_width w' = canvas_width w \<and> canvas_height w' = canvas_height w
      \<and> blitShader w' = blitShader w
      \<and> floatingPointTexturesLinearSamplingSupported w' = floatingPointTexturesLinearSamplingSupported w
      \<and> program (shaders w' s) = program (shaders w s)
      \<and> (\<forall>s'. s' \<noteq> s \<longrightarrow> shaders w' s' = shaders w s')"
proof (induction n arbitrary: v w r w')
  case 0
  then show ?case by simp
next
  case (Suc n)
  show ?case
  proof (cases v)
    case (Framebuffer_source f)
    with Suc.prems have "activate n (FramebufferTexture f 0) loc s w = Some (r, w')"
      by (simp add: getTexture_def)
    from Suc.IH [OF this] show ?thesis .
  next
    case (FramebufferTexture f index)
    with Suc.prems have "FramebufferTexture_activate f index loc s w = (r, w')" by simp
    from FramebufferTexture_activate_frame [OF this] show ?thesis by simp
  next
    case (Doublebuffer_source d)
    show ?thesis
    proof (cases "getReadBuffer (doublebuffers w d)")
      case (Inl e)
      with Suc.prems Doublebuffer_source show ?thesis by auto
    next
      case (Inr rb)
      with Suc.prems Doublebuffer_source have "activate n rb loc s w = Some (r, w')" by simp
      from Suc.IH [OF this] show ?thesis .
    qed
  next
    case (U_sampler2D img params)
    define inner where "inner =
      (case img of
         TexImageSource i \<Rightarrow> Some (wrapTexImageSource_activate i loc s w)
       | A_Framebuffer f \<Rightarrow> activate n (Framebuffer_source f) loc s w
       | A_FramebufferTexture f index \<Rightarrow> activate n (FramebufferTexture f index) loc s w
       | A_Doublebuffer d \<Rightarrow> activate n (Doublebuffer_source d) loc s w)"
    from Suc.prems U_sampler2D obtain r1 w1 where i: "inner = Some (r1, w1)"
      by (cases inner) (auto simp: inner_def)
    have fr: "doublebuffers w1 = doublebuffers w \<and> framebuffers w1 = framebuffers w \<and> dev w1 = dev w
      \<and> canvas_width w1 = canvas_width w \<and> canvas_height w1 = canvas_height w
      \<and> blitShader w1 = blitShader w
      \<and> floatingPointTexturesLinearSamplingSupported w1 = floatingPointTexturesLinearSamplingSupported w
      \<and> program (shaders w1 s) = program (shaders w s)
      \<and> (\<forall>s'. s' \<noteq> s \<longrightarrow> shaders w1 s' = shaders w s')"
    proof (cases img)
      case (TexImageSource im)
      with i have "wrapTexImageSource_activate im loc s w = (r1, w1)" by (simp add: inner_def)
      from wrapTexImageSource_activate_frame [OF this] show ?thesis by simp
    next
      case (A_Framebuffer f)
      with i have "activate n (Framebuffer_source f) loc s w = Some (r1, w1)"
        by (simp add: inner_def)
      from Suc.IH [OF this] show ?thesis .
    next
      case (A_FramebufferTexture f index)
      with i have "activate n (FramebufferTexture f index) loc s w = Some (r1, w1)"
        by (simp add: inner_def)
      from Suc.IH [OF this] show ?thesis .
    next
      case (A_Doublebuffer d)
      with i have "activate n (Doublebuffer_source d) loc s w = Some (r1, w1)"
        by (simp add: inner_def)
      from Suc.IH [OF this] show ?thesis .
    qed
    from Suc.prems U_sampler2D i
    have "w' = w1 \<or> w' = sampler2D_params img params w1"
      by (cases r1) (auto simp: inner_def [symmetric])
    with fr show ?thesis by auto
  qed (use Suc.prems in \<open>auto simp: Let_def split: if_splits\<close>)
qed

lemma activate_counter:
  "seeds_wrapped w \<Longrightarrow> activate n v loc s w = Some (r, w') \<Longrightarrow>
      textureCounter (shaders w' s) =
          textureCounter (shaders w s) + (if r = Return () \<and> image_like v then 1 else 0)"
proof (induction n arbitrary: v w r w')
  case 0
  then show ?case by simp
next
  case (Suc n)
  show ?case
  proof (cases v)
    case (Framebuffer_source f)
    with Suc.prems have "activate n (FramebufferTexture f 0) loc s w = Some (r, w')"
      by (simp add: getTexture_def)
    from Suc.IH [OF Suc.prems(1) this] Framebuffer_source show ?thesis by simp
  next
    case (FramebufferTexture f index)
    with Suc.prems have "FramebufferTexture_activate f index loc s w = (r, w')" by simp
    from FramebufferTexture_activate_frame [OF this] FramebufferTexture show ?thesis by simp
  next
    case (Doublebuffer_source d)
    show ?thesis
    proof (cases "getReadBuffer (doublebuffers w d)")
      case (Inl e)
      with Suc.prems Doublebuffer_source show ?thesis by auto
    next
      case (Inr rb)
      with Suc.prems Doublebuffer_source have a: "activate n rb loc s w = Some (r, w')" by simp
      from Inr Suc.prems(1) have "image_like rb"
        by (rule read_buffer_image_like)
      with Suc.IH [OF Suc.prems(1) a] Doublebuffer_source show ?thesis by simp
    qed
  next
    case (U_sampler2D img params)
    define inner where "inner =
      (case img of
         TexImageSource i \<Rightarrow> Some (wrapTexImageSource_activate i loc s w)
       | A_Framebuffer f \<Rightarrow> activate n (Framebuffer_source f) loc s w
       | A_FramebufferTexture f index \<Rightarrow> activate n (FramebufferTexture f index) loc s w
       | A_Doublebuffer d \<Rightarrow> activate n (Doublebuffer_source d) loc s w)"
    from Suc.prems U_sampler2D obtain r1 w1 where i: "inner = Some (r1, w1)"
      by (cases inner) (auto simp: inner_def)
    have c: "textureCounter (shaders w1 s) =
          textureCounter (shaders w s) + (if r1 = Return () then 1 else 0)"
    proof (cases img)
      case (TexImageSource im)
      with i have "wrapTexImageSource_activate im loc s w = (r1, w1)" by (simp add: inner_def)
      from wrapTexImageSource_activate_frame [OF this] show ?thesis by simp
    next
      case (A_Framebuffer f)
      with i have "activate n (Framebuffer_source f) loc s w = Some (r1, w1)"
        by (simp add: inner_def)
      from Suc.IH [OF Suc.prems(1) this] show ?thesis by simp
    next
      case (A_FramebufferTexture f index)
      with i have "activate n (FramebufferTexture f index) loc s w = Some (r1, w1)"
        by (simp add: inner_def)
      from Suc.IH [OF Suc.prems(1) this] show ?thesis by simp
    next
      case (A_Doublebuffer d)
      with i have "activate n (Doublebuffer_source d) loc s w = Some (r1, w1)"
        by (simp add: inner_def)
      from Suc.IH [OF Suc.prems(1) this] show ?thesis by simp
    qed
    from Suc.prems U_sampler2D i
    have "(r = r1 \<and> w' = w1 \<and> r1 \<noteq> Return ()) \<or> (r = Return () \<and> r1 = Return () \<and> w' = sampler2D_params img params w1)"
      by (cases r1) (auto simp: inner_def [symmetric])
    with c U_sampler2D show ?thesis by auto
  qed (use Suc.prems in \<open>auto simp: Let_def split: if_splits\<close>)
qed

subsection \<open>The slot an image-like source claims\<close>

lemma gl_texParameteri_other [simp]:
  "ACTIVE_TEXTURE (gl_texParameteri pname v g) = ACTIVE_TEXTURE g"
  "TEXTURE_BINDING_2D (gl_texParameteri pname v g) = TEXTURE_BINDING_2D g"
  "CURRENT_PROGRAM (gl_texParameteri pname v g) = CURRENT_PROGRAM g"
  "uniform_values (gl_texParameteri pname v g) = uniform_values g"
  "FRAMEBUFFER_BINDING (gl_texParameteri pname v g) = FRAMEBUFFER_BINDING g"
  "framebuffer_objects (gl_texParameteri pname v g) = framebuffer_objects g"
  "next_name (gl_texParameteri pname v g) = next_name g"
  by (simp_all add: gl_texParameteri_def update_bound_texture_def split: option.splits)

lemma setActiveTextureParams_other [simp]:
  "ACTIVE_TEXTURE (gl (setActiveTextureParams p u w)) = ACTIVE_TEXTURE (gl w)"
  "TEXTURE_BINDING_2D (gl (setActiveTextureParams p u w)) = TEXTURE_BINDING_2D (gl w)"
  "CURRENT_PROGRAM (gl (setActiveTextureParams p u w)) = CURRENT_PROGRAM (gl w)"
  "uniform_values (gl (setActiveTextureParams p u w)) = uniform_values (gl w)"
  "FRAMEBUFFER_BINDING (gl (setActiveTextureParams p u w)) = FRAMEBUFFER_BINDING (gl w)"
  "framebuffer_objects (gl (setActiveTextureParams p u w)) = framebuffer_objects (gl w)"
  "next_name (gl (setActiveTextureParams p u w)) = next_name (gl w)"
  by (simp_all add: setActiveTextureParams_gl)

lemma FramebufferTexture_activate_result:
  "FramebufferTexture_activate f index loc s w =
    (if 0 \<le> textureCounter (shaders w s) \<and> textureCounter (shaders w s) \<le> 31
     then (Return (),
           incTextureCounter s
            (setActiveTextureParams None (usesFloatingPointTextures (framebuffers w f))
              (on_gl (gl_bindTexture (js_index (textures (framebuffers w f)) index))
                (on_gl (gl_activeTexture (TEXTURE (nat (textureCounter (shaders w s)))))
                  (on_gl (gl_uniform1i loc (textureCounter (shaders w s))) w)))))
     else (Throw (Error ''Invalid texture index''),
           on_gl (gl_uniform1i loc (textureCounter (shaders w s))) w))"
proof (cases "0 \<le> textureCounter (shaders w s) \<and> textureCounter (shaders w s) \<le> 31")
  case True
  then have "getTextureNumber (textureCounter (shaders w s))
      = Inr (TEXTURE (nat (textureCounter (shaders w s))))"
    by (simp add: getTextureNumber_inside)
  with True show ?thesis
    by (simp add: FramebufferTexture_activate_def Let_def getTextureCounter_def)
next
  case False
  then have "getTextureNumber (textureCounter (shaders w s)) = Inl (Error ''Invalid texture index'')"
    by (intro getTextureNumber_outside) auto
  with False show ?thesis
    by (simp add: FramebufferTexture_activate_def Let_def getTextureCounter_def)
qed

lemma uniform1i_value:
  "CURRENT_PROGRAM g = Some p \<Longrightarrow> uniform_values (gl_uniform1i (Some l) c g) p l = Some (Uniform1i c)"
  by (simp add: gl_uniform1i_def gl_uniform_def)

lemma FramebufferTexture_activate_slot:
  assumes "FramebufferTexture_activate f index loc s w = (Return (), w')"
  shows "0 \<le> textureCounter (shaders w s) \<and> textureCounter (shaders w s) \<le> 31
       \<and> ACTIVE_TEXTURE (gl w') = TEXTURE (nat (textureCounter (shaders w s)))
       \<and> bound_texture (gl w') = js_index (textures (framebuffers w f)) index
       \<and> (\<forall>l p. loc = Some l \<longrightarrow> CURRENT_PROGRAM (gl w) = Some p \<longrightarrow>
             uniform_values (gl w') p l = Some (Uniform1i (textureCounter (shaders w s))))"
  using assms unfolding FramebufferTexture_activate_result
  by (auto simp: incTextureCounter_def gl_bindTexture_def gl_activeTexture_def bound_texture_def
        uniform1i_value split: if_splits)

lemma wrapTexImageSource_activate_slot:
  assumes "wrapTexImageSource_activate v loc s w = (Return (), w')"
  shows "0 \<le> textureCounter (shaders w s) \<and> textureCounter (shaders w s) \<le> 31
       \<and> ACTIVE_TEXTURE (gl w') = TEXTURE (nat (textureCounter (shaders w s)))
       \<and> (\<forall>l p. loc = Some l \<longrightarrow> CURRENT_PROGRAM (gl w) = Some p \<longrightarrow>
             uniform_values (gl w') p l = Some (Uniform1i (textureCounter (shaders w s))))"
proof -
  let ?c = "textureCounter (shaders w s)"
  obtain t w1 where g: "getOrCreateTexture s v w = (t, w1)" by (cases "getOrCreateTexture s v w")
  have c1: "textureCounter (shaders w1 s) = ?c" "CURRENT_PROGRAM (gl w1) = CURRENT_PROGRAM (gl w)"
    using g by (auto simp: getOrCreateTexture_def createTexture_def gl_createTexture_def Let_def
          split_def split: option.splits)
  have r: "0 \<le> ?c \<and> ?c \<le> 31"
  proof (rule ccontr)
    assume "\<not> ?thesis"
    then have "getTextureNumber ?c = Inl (Error ''Invalid texture index'')"
      by (intro getTextureNumber_outside) auto
    with assms g c1 show False
      by (simp add: wrapTexImageSource_activate_def Let_def getTextureCounter_def)
  qed
  then have n: "getTextureNumber ?c = Inr (TEXTURE (nat ?c))"
    by (simp add: getTextureNumber_inside)
  from assms g c1 n have w': "w' = incTextureCounter s
       (on_gl (gl_texImage2D_source RGBA32F RGBA FLOAT v)
         (on_gl (gl_bindTexture (Some t))
           (on_gl (gl_activeTexture (TEXTURE (nat ?c)))
              (on_gl (gl_uniform1i loc ?c) w1))))"
    by (simp add: wrapTexImageSource_activate_def Let_def getTextureCounter_def)
  show ?thesis
    using r c1(2) unfolding w'
    by (auto simp: incTextureCounter_def gl_texImage2D_source_def update_bound_texture_def
          gl_bindTexture_def gl_activeTexture_def bound_texture_def uniform1i_value
          split: option.splits)
qed

lemma sampler2D_params_slot:
  assumes "library_params (U_sampler2D img params)"
  shows "ACTIVE_TEXTURE (gl (sampler2D_params img params w)) = ACTIVE_TEXTURE (gl w)"
    and "uniform_values (gl (sampler2D_params img params w)) = uniform_values (gl w)"
    and "TEXTURE_BINDING_2D (gl (sampler2D_params img params w)) = TEXTURE_BINDING_2D (gl w)"
  using assms by (cases params; simp add: sampler2D_params_def Let_def)+

lemma activate_slot:
  "seeds_wrapped w \<Longrightarrow> image_like v \<Longrightarrow> library_params v \<Longrightarrow>
   activate n v loc s w = Some (Return (), w') \<Longrightarrow>
     0 \<le> textureCounter (shaders w s) \<and> textureCounter (shaders w s) \<le> 31
       \<and> ACTIVE_TEXTURE (gl w') = TEXTURE (nat (textureCounter (shaders w s)))
       \<and> (\<forall>l p. loc = Some l \<longrightarrow> CURRENT_PROGRAM (gl w) = Some p \<longrightarrow>
             uniform_values (gl w') p l = Some (Uniform1i (textureCounter (shaders w s))))"
proof (induction n arbitrary: v w w')
  case 0
  then show ?case by simp
next
  case (Suc n)
  show ?case
  proof (cases v)
    case (Framebuffer_source f)
    with Suc.prems have "activate n (FramebufferTexture f 0) loc s w = Some (Return (), w')"
      by (simp add: getTexture_def)
    from Suc.IH [OF Suc.prems(1) _ _ this] show ?thesis by simp
  next
    case (FramebufferTexture f index)
    with Suc.prems have "FramebufferTexture_activate f index loc s w = (Return (), w')" by simp
    from FramebufferTexture_activate_slot [OF this] show ?thesis by simp
  next
    case (Doublebuffer_source d)
    show ?thesis
    proof (cases "getReadBuffer (doublebuffers w d)")
      case (Inl e)
      with Suc.prems Doublebuffer_source show ?thesis by auto
    next
      case (Inr rb)
      with Suc.prems Doublebuffer_source have a: "activate n rb loc s w = Some (Return (), w')"
        by simp
      from Suc.IH [OF Suc.prems(1) read_buffer_image_like [OF Inr Suc.prems(1)]
          read_buffer_library_params [OF Inr Suc.prems(1)] a]
      show ?thesis .
    qed
  next
    case (U_sampler2D img params)
    define inner where "inner =
      (case img of
         TexImageSource i \<Rightarrow> Some (wrapTexImageSource_activate i loc s w)
       | A_Framebuffer f \<Rightarrow> activate n (Framebuffer_source f) loc s w
       | A_FramebufferTexture f index \<Rightarrow> activate n (FramebufferTexture f index) loc s w
       | A_Doublebuffer d \<Rightarrow> activate n (Doublebuffer_source d) loc s w)"
    from Suc.prems U_sampler2D obtain w1 where i: "inner = Some (Return (), w1)"
      and w': "w' = sampler2D_params img params w1"
      by (cases inner) (auto simp: inner_def split: outcome.splits)
    have c: "0 \<le> textureCounter (shaders w s) \<and> textureCounter (shaders w s) \<le> 31
       \<and> ACTIVE_TEXTURE (gl w1) = TEXTURE (nat (textureCounter (shaders w s)))
       \<and> (\<forall>l p. loc = Some l \<longrightarrow> CURRENT_PROGRAM (gl w) = Some p \<longrightarrow>
             uniform_values (gl w1) p l = Some (Uniform1i (textureCounter (shaders w s))))"
    proof (cases img)
      case (TexImageSource im)
      with i have "wrapTexImageSource_activate im loc s w = (Return (), w1)"
        by (simp add: inner_def)
      from wrapTexImageSource_activate_slot [OF this] show ?thesis .
    next
      case (A_Framebuffer f)
      with i have "activate n (Framebuffer_source f) loc s w = Some (Return (), w1)"
        by (simp add: inner_def)
      from Suc.IH [OF Suc.prems(1) _ _ this] show ?thesis by simp
    next
      case (A_FramebufferTexture f index)
      with i have "activate n (FramebufferTexture f index) loc s w = Some (Return (), w1)"
        by (simp add: inner_def)
      from Suc.IH [OF Suc.prems(1) _ _ this] show ?thesis by simp
    next
      case (A_Doublebuffer d)
      with i have "activate n (Doublebuffer_source d) loc s w = Some (Return (), w1)"
        by (simp add: inner_def)
      from Suc.IH [OF Suc.prems(1) _ _ this] show ?thesis by simp
    qed
    from Suc.prems(3) U_sampler2D have lp: "library_params (U_sampler2D img params)" by simp
    from c show ?thesis unfolding w' by (simp add: sampler2D_params_slot [OF lp])
  qed (use Suc.prems in simp_all)
qed

subsection \<open>The parts of a draw call\<close>

lemma getUniformLocation_frame:
  assumes "getUniformLocation s key w = (l, w')"
  shows "gl w' = gl w \<and> doublebuffers w' = doublebuffers w \<and> framebuffers w' = framebuffers w
      \<and> dev w' = dev w \<and> canvas_width w' = canvas_width w \<and> canvas_height w' = canvas_height w
      \<and> blitShader w' = blitShader w
      \<and> textureCounter (shaders w' s) = textureCounter (shaders w s)
      \<and> program (shaders w' s) = program (shaders w s)
      \<and> (\<forall>s'. s' \<noteq> s \<longrightarrow> shaders w' s' = shaders w s')"
  using assms by (auto simp: getUniformLocation_def Let_def split: option.splits)

lemma activate_uniforms_frame:
  "activate_uniforms n s us w = Some (r, w') \<Longrightarrow>
    doublebuffers w' = doublebuffers w \<and> framebuffers w' = framebuffers w \<and> dev w' = dev w
      \<and> canvas_width w' = canvas_width w \<and> canvas_height w' = canvas_height w
      \<and> blitShader w' = blitShader w
      \<and> program (shaders w' s) = program (shaders w s)
      \<and> (\<forall>s'. s' \<noteq> s \<longrightarrow> shaders w' s' = shaders w s')"
proof (induction us arbitrary: w r w')
  case Nil
  then show ?case by simp
next
  case (Cons u us)
  obtain key v where u: "u = (key, v)" by (cases u)
  obtain loc w1 where g: "getUniformLocation s key w = (loc, w1)"
    by (cases "getUniformLocation s key w")
  note f1 = getUniformLocation_frame [OF g]
  from Cons.prems u g obtain r2 w2 where a: "activate n v loc s w1 = Some (r2, w2)"
    by (cases "activate n v loc s w1") auto
  note f2 = activate_frame [OF a]
  show ?case
  proof (cases r2)
    case (Throw e)
    with Cons.prems u g a have "w' = w2" by simp
    with f1 f2 show ?thesis by simp
  next
    case (Return x)
    with Cons.prems u g a have "activate_uniforms n s us w2 = Some (r, w')" by simp
    from Cons.IH [OF this] f1 f2 show ?thesis by simp
  qed
qed

lemma activate_uniforms_counter:
  "seeds_wrapped w \<Longrightarrow> activate_uniforms n s us w = Some (Return (), w') \<Longrightarrow>
    textureCounter (shaders w' s) =
      textureCounter (shaders w s) + int (length (filter image_like (map snd us)))"
proof (induction us arbitrary: w w')
  case Nil
  then show ?case by simp
next
  case (Cons u us)
  obtain key v where u: "u = (key, v)" by (cases u)
  obtain loc w1 where g: "getUniformLocation s key w = (loc, w1)"
    by (cases "getUniformLocation s key w")
  note f1 = getUniformLocation_frame [OF g]
  from f1 Cons.prems(1) have s1: "seeds_wrapped w1" by (simp add: seeds_wrapped_def)
  from Cons.prems u g obtain w2 where a: "activate n v loc s w1 = Some (Return (), w2)"
    and rest: "activate_uniforms n s us w2 = Some (Return (), w')"
    by (cases "activate n v loc s w1") (auto split: outcome.splits)
  from activate_frame [OF a] s1 have s2: "seeds_wrapped w2" by (simp add: seeds_wrapped_def)
  from activate_counter [OF s1 a] f1 Cons.IH [OF s2 rest] u show ?case by simp
qed

lemma activate_uniforms_append:
  "activate_uniforms n s (us @ vs) w =
    (case activate_uniforms n s us w of
       None \<Rightarrow> None
     | Some (Throw e, w1) \<Rightarrow> Some (Throw e, w1)
     | Some (Return _, w1) \<Rightarrow> activate_uniforms n s vs w1)"
  by (induction us arbitrary: w)
     (auto simp: split_def Let_def split: option.splits outcome.splits prod.splits)

lemma target_bind_frame:
  assumes "target_bind target w = (r, w')"
  shows "doublebuffers w' = doublebuffers w \<and> shaders w' = shaders w \<and> dev w' = dev w
       \<and> canvas_width w' = canvas_width w \<and> canvas_height w' = canvas_height w
       \<and> blitShader w' = blitShader w"
proof (cases target)
  case Out
  with assms show ?thesis by (auto simp: target_bind_def)
next
  case (Framebuffer_target f)
  with assms have "Framebuffer_bind f w = (r, w')" by (simp add: target_bind_def)
  from Framebuffer_bind_frame [OF this] show ?thesis by simp
next
  case (Doublebuffer_target d)
  with assms have "Framebuffer_bind (getWriteBuffer (doublebuffers w d)) w = (r, w')"
    by (simp add: target_bind_def Doublebuffer_bind_def)
  from Framebuffer_bind_frame [OF this] show ?thesis by simp
qed

lemma draw_begin_frame:
  assumes "draw_begin s target w = (r, w0)"
  shows "doublebuffers w0 = doublebuffers w \<and> dev w0 = dev w
       \<and> canvas_width w0 = canvas_width w \<and> canvas_height w0 = canvas_height w
       \<and> blitShader w0 = blitShader w
       \<and> textureCounter (shaders w0 s) = 0
       \<and> program (shaders w0 s) = program (shaders w s)
       \<and> (\<forall>s'. s' \<noteq> s \<longrightarrow> shaders w0 s' = shaders w s')"
proof -
  define w2 where "w2 = update_shader s (\<lambda>sh. sh\<lparr>textureCounter := 0\<rparr>)
      (on_gl (gl_useProgram (Some (program (shaders w s)))) w)"
  obtain r3 w3 where b: "target_bind target w2 = (r3, w3)" by (cases "target_bind target w2")
  note fr = target_bind_frame [OF b]
  from assms b have "w0 = w3 \<or> w0 = on_gl (gl_viewport 0 0 (ToInt32 (target_width target w3))
        (ToInt32 (target_height target w3))) w3"
    by (cases r3) (auto simp: draw_begin_def Let_def w2_def)
  with fr show ?thesis by (auto simp: w2_def)
qed

lemma draw_end_frame:
  "dev (draw_end s target w) = dev w"
  "shaders (draw_end s target w) = shaders w"
  "framebuffers (draw_end s target w) = framebuffers w"
  "canvas_width (draw_end s target w) = canvas_width w"
  "canvas_height (draw_end s target w) = canvas_height w"
  "blitShader (draw_end s target w) = blitShader w"
  "doublebuffers (draw_end s target w) =
     (case target of
        Doublebuffer_target d \<Rightarrow>
          (doublebuffers w)(d := (doublebuffers w d)\<lparr>count := count (doublebuffers w d) + 1\<rparr>)
      | _ \<Rightarrow> doublebuffers w)"
  by (simp_all add: draw_end_def Let_def advance_def split: render_target.splits)

lemma draw_cases:
  assumes "draw n s target us w = Some (r, w')"
  obtains (bind_throws) e where "draw_begin s target w = (Throw e, w')" "r = Throw e"
  | (uniform_throws) w0 e where "draw_begin s target w = (Return (), w0)"
       "activate_uniforms n s us w0 = Some (Throw e, w')" "r = Throw e"
  | (returns) w0 w2 where "draw_begin s target w = (Return (), w0)"
       "activate_uniforms n s us w0 = Some (Return (), w2)" "w' = draw_end s target w2"
       "r = Return ()"
  using assms unfolding draw_def
  by (auto split: prod.splits outcome.splits option.splits)

lemma draw_throw_doublebuffers:
  assumes "draw n s target us w = Some (Throw e, w')"
  shows "doublebuffers w' = doublebuffers w"
  using assms
proof (cases rule: draw_cases)
  case (bind_throws e)
  from draw_begin_frame [OF bind_throws(1)] show ?thesis by simp
next
  case (uniform_throws w0 e)
  from draw_begin_frame [OF uniform_throws(1)] activate_uniforms_frame [OF uniform_throws(2)]
  show ?thesis by simp
next
  case (returns w0 w2)
  then show ?thesis by simp
qed

lemma draw_return_doublebuffers:
  assumes "draw n s (Doublebuffer_target d) us w = Some (Return (), w')"
  shows "doublebuffers w' =
     (doublebuffers w)(d := (doublebuffers w d)\<lparr>count := count (doublebuffers w d) + 1\<rparr>)"
  using assms
proof (cases rule: draw_cases)
  case (returns w0 w2)
  from draw_begin_frame [OF returns(1)] activate_uniforms_frame [OF returns(2)] returns(3)
  show ?thesis by (simp add: draw_end_frame)
qed simp_all

subsection \<open>What initialising a Framebuffer establishes\<close>

lemma Framebuffer_init_texture_result:
  assumes "0 \<le> i" "i \<le> 15"
  shows "\<exists>w'. Framebuffer_init_texture f i w = (Return (next_name (gl w)), w')
     \<and> next_name (gl w') = Suc (next_name (gl w))
     \<and> (\<forall>t. t \<noteq> next_name (gl w) \<longrightarrow> texture_objects (gl w') t = texture_objects (gl w) t)
     \<and> (\<exists>obj img. texture_objects (gl w') (next_name (gl w)) = Some obj \<and> level0 obj = Some img
           \<and> dimensions img = Some (ToInt32 (width (framebuffers w f)), ToInt32 (height (framebuffers w f)))
           \<and> content img = Cleared
           \<and> internalformat img =
               (if usesFloatingPointTextures (framebuffers w f) \<and> floatingPointTexturesSupported w
                then RGBA32F else RGBA))
     \<and> FRAMEBUFFER_BINDING (gl w') = FRAMEBUFFER_BINDING (gl w)"
proof -
  from assms have a: "getColorAttachmentNumber i = Inr (COLOR_ATTACHMENT (nat i))"
    by (rule getColorAttachmentNumber_inside)
  show ?thesis
    by (simp add: Framebuffer_init_texture_def createTexture_def gl_createTexture_def a
          gl_bindTexture_def gl_texImage2D_null_def update_bound_texture_def bound_texture_def
          gl_framebufferTexture2D_def update_bound_framebuffer_def on_gl_def console_error_def
          Let_def split: option.splits)
qed

lemma init_textures_result:
  "\<forall>i\<in>set is. 0 \<le> i \<and> i \<le> 15 \<Longrightarrow>
    \<exists>w'. map_effect (Framebuffer_init_texture f) is w
            = (Return [next_name (gl w) ..< next_name (gl w) + length is], w')
     \<and> next_name (gl w') = next_name (gl w) + length is
     \<and> (\<forall>t. t < next_name (gl w) \<longrightarrow> texture_objects (gl w') t = texture_objects (gl w) t)
     \<and> (\<forall>t. next_name (gl w) \<le> t \<and> t < next_name (gl w) + length is \<longrightarrow>
          (\<exists>obj img. texture_objects (gl w') t = Some obj \<and> level0 obj = Some img
             \<and> dimensions img = Some (ToInt32 (width (framebuffers w f)), ToInt32 (height (framebuffers w f)))
             \<and> content img = Cleared
             \<and> internalformat img =
                 (if usesFloatingPointTextures (framebuffers w f) \<and> floatingPointTexturesSupported w
                  then RGBA32F else RGBA)))
     \<and> FRAMEBUFFER_BINDING (gl w') = FRAMEBUFFER_BINDING (gl w)"
proof (induction "is" arbitrary: w)
  case Nil
  then show ?case by auto
next
  case (Cons i "is")
  from Cons.prems have i: "0 \<le> i" "i \<le> 15" and rest: "\<forall>i\<in>set is. 0 \<le> i \<and> i \<le> 15"
    by simp_all
  from Framebuffer_init_texture_result [OF i, of f w] obtain w1 where
    s: "Framebuffer_init_texture f i w = (Return (next_name (gl w)), w1)"
    and n1: "next_name (gl w1) = Suc (next_name (gl w))"
    and o1: "\<forall>t. t \<noteq> next_name (gl w) \<longrightarrow> texture_objects (gl w1) t = texture_objects (gl w) t"
    and new1: "\<exists>obj img. texture_objects (gl w1) (next_name (gl w)) = Some obj \<and> level0 obj = Some img
           \<and> dimensions img = Some (ToInt32 (width (framebuffers w f)), ToInt32 (height (framebuffers w f)))
           \<and> content img = Cleared
           \<and> internalformat img =
               (if usesFloatingPointTextures (framebuffers w f) \<and> floatingPointTexturesSupported w
                then RGBA32F else RGBA)"
    and b1: "FRAMEBUFFER_BINDING (gl w1) = FRAMEBUFFER_BINDING (gl w)"
    by blast
  note fr = Framebuffer_init_texture_frame [OF s]
  have sup: "floatingPointTexturesSupported w1 = floatingPointTexturesSupported w"
    using s by (auto simp: Framebuffer_init_texture_def createTexture_def Let_def split_def
          split: sum.splits if_splits)
  from Cons.IH [OF rest, of w1] obtain w2 where
    m: "map_effect (Framebuffer_init_texture f) is w1
            = (Return [next_name (gl w1) ..< next_name (gl w1) + length is], w2)"
    and n2: "next_name (gl w2) = next_name (gl w1) + length is"
    and o2: "\<forall>t. t < next_name (gl w1) \<longrightarrow> texture_objects (gl w2) t = texture_objects (gl w1) t"
    and new2: "\<forall>t. next_name (gl w1) \<le> t \<and> t < next_name (gl w1) + length is \<longrightarrow>
          (\<exists>obj img. texture_objects (gl w2) t = Some obj \<and> level0 obj = Some img
             \<and> dimensions img = Some (ToInt32 (width (framebuffers w1 f)), ToInt32 (height (framebuffers w1 f)))
             \<and> content img = Cleared
             \<and> internalformat img =
                 (if usesFloatingPointTextures (framebuffers w1 f) \<and> floatingPointTexturesSupported w1
                  then RGBA32F else RGBA))"
    and b2: "FRAMEBUFFER_BINDING (gl w2) = FRAMEBUFFER_BINDING (gl w1)"
    by blast
  have l: "[next_name (gl w) ..< next_name (gl w) + length (i # is)]
      = next_name (gl w) # [next_name (gl w1) ..< next_name (gl w1) + length is]"
    using upt_conv_Cons [of "next_name (gl w)" "next_name (gl w) + length (i # is)"]
    by (simp add: n1)
  have "map_effect (Framebuffer_init_texture f) (i # is) w
            = (Return [next_name (gl w) ..< next_name (gl w) + length (i # is)], w2)"
    unfolding l by (simp add: s m)
  moreover have "next_name (gl w2) = next_name (gl w) + length (i # is)"
    by (simp add: n2 n1)
  moreover have "\<forall>t. t < next_name (gl w) \<longrightarrow> texture_objects (gl w2) t = texture_objects (gl w) t"
    using o1 o2 n1 by auto
  moreover have "\<forall>t. next_name (gl w) \<le> t \<and> t < next_name (gl w) + length (i # is) \<longrightarrow>
          (\<exists>obj img. texture_objects (gl w2) t = Some obj \<and> level0 obj = Some img
             \<and> dimensions img = Some (ToInt32 (width (framebuffers w f)), ToInt32 (height (framebuffers w f)))
             \<and> content img = Cleared
             \<and> internalformat img =
                 (if usesFloatingPointTextures (framebuffers w f) \<and> floatingPointTexturesSupported w
                  then RGBA32F else RGBA))"
  proof (intro allI impI)
    fix t assume t: "next_name (gl w) \<le> t \<and> t < next_name (gl w) + length (i # is)"
    show "\<exists>obj img. texture_objects (gl w2) t = Some obj \<and> level0 obj = Some img
             \<and> dimensions img = Some (ToInt32 (width (framebuffers w f)), ToInt32 (height (framebuffers w f)))
             \<and> content img = Cleared
             \<and> internalformat img =
                 (if usesFloatingPointTextures (framebuffers w f) \<and> floatingPointTexturesSupported w
                  then RGBA32F else RGBA)"
    proof (cases "t = next_name (gl w)")
      case True
      with o2 n1 have "texture_objects (gl w2) t = texture_objects (gl w1) t" by simp
      with new1 True show ?thesis by simp
    next
      case False
      with t n1 have "next_name (gl w1) \<le> t \<and> t < next_name (gl w1) + length is" by simp
      with new2 fr sup show ?thesis by simp
    qed
  qed
  moreover have "FRAMEBUFFER_BINDING (gl w2) = FRAMEBUFFER_BINDING (gl w)"
    using b1 b2 by simp
  ultimately show ?case by blast
qed

lemma fold_deleteTexture_gl:
  "texture_objects (gl (fold (\<lambda>texture. on_gl (gl_deleteTexture texture)) ts w)) t
     = (if t \<in> set ts then None else texture_objects (gl w) t)"
  "next_name (gl (fold (\<lambda>texture. on_gl (gl_deleteTexture texture)) ts w)) = next_name (gl w)"
  by (induction ts arbitrary: w) (simp_all add: gl_deleteTexture_def)

lemma map_throwing_Inr:
  "\<forall>x\<in>set xs. f x = Inr (g x) \<Longrightarrow> map_throwing f xs = Inr (map g xs)"
  by (induction xs) simp_all

lemma attachments_upto:
  "n \<le> 16 \<Longrightarrow> map_throwing getColorAttachmentNumber (range_upto n)
     = Inr (map (\<lambda>i. COLOR_ATTACHMENT (nat i)) (range_upto n))"
proof (rule map_throwing_Inr, rule ballI)
  fix x assume n: "n \<le> 16" and "x \<in> set (range_upto n)"
  then have "0 \<le> x" "x \<le> 15" by (auto simp: range_upto_def)
  then show "getColorAttachmentNumber x = Inr (COLOR_ATTACHMENT (nat x))"
    by (rule getColorAttachmentNumber_inside)
qed


lemma Framebuffer_init_result:
  assumes "numTextures (framebuffers w f) \<le> 16"
  shows "\<exists>w'. Framebuffer_init f w = (Return (), w')
     \<and> fbo (framebuffers w' f) = Some (next_name (gl w))
     \<and> FRAMEBUFFER_BINDING (gl w') = Some (next_name (gl w))
     \<and> width (framebuffers w' f) = scaled (canvas_width w) (scale (framebuffers w f))
     \<and> height (framebuffers w' f) = scaled (canvas_height w) (scale (framebuffers w f))
     \<and> numTextures (framebuffers w' f) = numTextures (framebuffers w f)
     \<and> scale (framebuffers w' f) = scale (framebuffers w f)
     \<and> usesFloatingPointTextures (framebuffers w' f) = usesFloatingPointTextures (framebuffers w f)
     \<and> textures (framebuffers w' f) =
          [Suc (next_name (gl w)) ..< Suc (next_name (gl w)) + numTextures (framebuffers w f)]
     \<and> next_name (gl w') = Suc (next_name (gl w)) + numTextures (framebuffers w f)
     \<and> (\<forall>t\<in>set (textures (framebuffers w' f)).
          \<exists>obj img. texture_objects (gl w') t = Some obj \<and> level0 obj = Some img
             \<and> dimensions img = Some (ToInt32 (scaled (canvas_width w) (scale (framebuffers w f))),
                                      ToInt32 (scaled (canvas_height w) (scale (framebuffers w f))))
             \<and> content img = Cleared
             \<and> internalformat img =
                 (if usesFloatingPointTextures (framebuffers w f) \<and> floatingPointTexturesSupported w
                  then RGBA32F else RGBA))
     \<and> (\<forall>t. t < next_name (gl w) \<longrightarrow>
          texture_objects (gl w') t =
            (if fbo (framebuffers w f) \<noteq> None \<and> t \<in> set (textures (framebuffers w f))
             then None else texture_objects (gl w) t))"
proof -
  define w1 where "w1 = (if fbo (framebuffers w f) \<noteq> None then Framebuffer_destroy f w else w)"
  define w2 where "w2 =
     update_framebuffer f (\<lambda>fb. fb\<lparr>fbo := Some (fst (gl_createFramebuffer (gl w1)))\<rparr>)
       (w1\<lparr>gl := snd (gl_createFramebuffer (gl w1))\<rparr>)"
  define w3 where "w3 = on_gl (gl_bindFramebuffer (fbo (framebuffers w2 f))) w2"
  define w4 where "w4 =
     update_framebuffer f (\<lambda>fb. fb\<lparr>width := scaled (canvas_width w3) (scale fb)\<rparr>) w3"
  define w5 where "w5 =
     update_framebuffer f (\<lambda>fb. fb\<lparr>height := scaled (canvas_height w4) (scale fb)\<rparr>) w4"
  let ?n = "numTextures (framebuffers w f)"
  let ?h = "next_name (gl w)"
  have unf: "Framebuffer_init f w =
     (case map_effect (Framebuffer_init_texture f)
               (range_upto (numTextures (framebuffers w5 f))) w5 of
          (Throw e, w6) \<Rightarrow> (Throw e, w6)
        | (Return ts, w6) \<Rightarrow>
           (let w7 = update_framebuffer f (\<lambda>fb. fb\<lparr>textures := ts\<rparr>) w6
            in case map_throwing getColorAttachmentNumber
                      (range_upto (numTextures (framebuffers w7 f))) of
                 Inl e \<Rightarrow> (Throw e, w7)
               | Inr attachments \<Rightarrow> (Return (), on_gl (gl_drawBuffers attachments) w7)))"
    unfolding Framebuffer_init_def Let_def split_def w5_def w4_def w3_def w2_def w1_def
    by (rule refl)
  have sup: "floatingPointTexturesSupported
      (fold (\<lambda>texture. on_gl (gl_deleteTexture texture)) ts w) = floatingPointTexturesSupported w" for ts
    by (induction ts arbitrary: w) simp_all
  have g1: "next_name (gl w1) = ?h"
    "\<And>t. texture_objects (gl w1) t =
        (if fbo (framebuffers w f) \<noteq> None \<and> t \<in> set (textures (framebuffers w f))
         then None else texture_objects (gl w) t)"
    "framebuffers w1 = framebuffers w" "canvas_width w1 = canvas_width w"
    "canvas_height w1 = canvas_height w"
    "floatingPointTexturesSupported w1 = floatingPointTexturesSupported w"
    by (simp_all add: w1_def Framebuffer_destroy_def Let_def fold_deleteTexture_gl
          fold_deleteTexture_frame gl_deleteFramebuffer_def sup split: option.splits)
  have g5: "next_name (gl w5) = Suc ?h"
    "texture_objects (gl w5) = texture_objects (gl w1)"
    "FRAMEBUFFER_BINDING (gl w5) = Some ?h"
    "framebuffers w5 f = (framebuffers w f)
        \<lparr>fbo := Some ?h, width := scaled (canvas_width w) (scale (framebuffers w f)),
          height := scaled (canvas_height w) (scale (framebuffers w f))\<rparr>"
    "floatingPointTexturesSupported w5 = floatingPointTexturesSupported w1"
    using g1
    by (simp_all add: w5_def w4_def w3_def w2_def gl_createFramebuffer_def gl_bindFramebuffer_def)
  have n5: "numTextures (framebuffers w5 f) = ?n" by (simp add: g5)
  have rng: "\<forall>i\<in>set (range_upto ?n). 0 \<le> i \<and> i \<le> 15"
    using assms by (auto simp: range_upto_def)
  from init_textures_result [OF rng, of f w5] obtain w6 where
    m: "map_effect (Framebuffer_init_texture f) (range_upto ?n) w5
            = (Return [Suc ?h ..< Suc ?h + ?n], w6)"
    and n6: "next_name (gl w6) = Suc ?h + ?n"
    and o6: "\<forall>t. t < Suc ?h \<longrightarrow> texture_objects (gl w6) t = texture_objects (gl w5) t"
    and new6: "\<forall>t. Suc ?h \<le> t \<and> t < Suc ?h + ?n \<longrightarrow>
          (\<exists>obj img. texture_objects (gl w6) t = Some obj \<and> level0 obj = Some img
             \<and> dimensions img = Some (ToInt32 (width (framebuffers w5 f)), ToInt32 (height (framebuffers w5 f)))
             \<and> content img = Cleared
             \<and> internalformat img =
                 (if usesFloatingPointTextures (framebuffers w5 f) \<and> floatingPointTexturesSupported w5
                  then RGBA32F else RGBA))"
    and b6: "FRAMEBUFFER_BINDING (gl w6) = FRAMEBUFFER_BINDING (gl w5)"
    by (auto simp: g5 range_upto_def)
  note fr6 = map_effect_init_texture_frame [OF m]
  define w7 where "w7 = update_framebuffer f (\<lambda>fb. fb\<lparr>textures := [Suc ?h ..< Suc ?h + ?n]\<rparr>) w6"
  have n7: "numTextures (framebuffers w7 f) = ?n" using fr6 by (simp add: w7_def g5)
  define w' where "w' = on_gl (gl_drawBuffers (map (\<lambda>i. COLOR_ATTACHMENT (nat i)) (range_upto ?n))) w7"
  have res: "Framebuffer_init f w = (Return (), w')"
    unfolding unf n5 m prod.case outcome.case Let_def w7_def [symmetric] n7
      attachments_upto [OF assms] sum.case w'_def [symmetric]
    by (rule refl)
  have tex': "texture_objects (gl w') = texture_objects (gl w6)"
    "next_name (gl w') = next_name (gl w6)"
    "FRAMEBUFFER_BINDING (gl w') = FRAMEBUFFER_BINDING (gl w6)"
    by (simp_all add: w'_def w7_def gl_drawBuffers_def update_bound_framebuffer_def
          split: option.splits)
  have fb': "framebuffers w' f = (framebuffers w f)
        \<lparr>fbo := Some ?h, width := scaled (canvas_width w) (scale (framebuffers w f)),
          height := scaled (canvas_height w) (scale (framebuffers w f)),
          textures := [Suc ?h ..< Suc ?h + ?n]\<rparr>"
    using fr6 by (simp add: w'_def w7_def g5)
  have tx: "textures (framebuffers w' f) = [Suc ?h ..< Suc ?h + ?n]" by (simp add: fb')
  have new: "\<forall>t\<in>set (textures (framebuffers w' f)).
          \<exists>obj img. texture_objects (gl w') t = Some obj \<and> level0 obj = Some img
             \<and> dimensions img = Some (ToInt32 (scaled (canvas_width w) (scale (framebuffers w f))),
                                      ToInt32 (scaled (canvas_height w) (scale (framebuffers w f))))
             \<and> content img = Cleared
             \<and> internalformat img =
                 (if usesFloatingPointTextures (framebuffers w f) \<and> floatingPointTexturesSupported w
                  then RGBA32F else RGBA)"
  proof (intro ballI)
    fix t assume "t \<in> set (textures (framebuffers w' f))"
    then have "t \<in> set [Suc ?h ..< Suc ?h + ?n]" by (simp only: tx)
    then have "Suc ?h \<le> t \<and> t < Suc ?h + ?n" by (simp only: set_upt atLeastLessThan_iff)
    from new6 [rule_format, OF this] show "\<exists>obj img. texture_objects (gl w') t = Some obj \<and> level0 obj = Some img
             \<and> dimensions img = Some (ToInt32 (scaled (canvas_width w) (scale (framebuffers w f))),
                                      ToInt32 (scaled (canvas_height w) (scale (framebuffers w f))))
             \<and> content img = Cleared
             \<and> internalformat img =
                 (if usesFloatingPointTextures (framebuffers w f) \<and> floatingPointTexturesSupported w
                  then RGBA32F else RGBA)"
      by (simp add: tex' g5 g1)
  qed
  have old: "\<forall>t. t < ?h \<longrightarrow>
          texture_objects (gl w') t =
            (if fbo (framebuffers w f) \<noteq> None \<and> t \<in> set (textures (framebuffers w f))
             then None else texture_objects (gl w) t)"
    using o6 by (simp add: tex' g5 g1)
  from res fb' tex' n6 b6 g5(3) new old show ?thesis by simp
qed

subsection \<open>The example worlds\<close>

lemma blitSrc_version: "take 15 blitSrc \<noteq> ''#version 300 es''"
  by (simp add: blitSrc_def template_def)

lemma example_world_eq:
  "example_world =
    \<lparr>gl = \<lparr>next_name = 6,
           texture_objects = Map.empty, framebuffer_objects = Map.empty,
           shader_objects =
             [0 \<mapsto> \<lparr>shader_type = VERTEX_SHADER,
                      shader_source = vtxShaderSource2 ''v_tpos'' None,
                      COMPILE_STATUS = True\<rparr>,
              1 \<mapsto> \<lparr>shader_type = FRAGMENT_SHADER, shader_source = blitSrc,
                      COMPILE_STATUS = True\<rparr>],
           program_objects = [2 \<mapsto> \<lparr>attached_shaders = [0, 1], LINK_STATUS = True\<rparr>],
           buffer_objects =
             [3 \<mapsto> [- 1, - 1, 1, - 1, 1, 1, - 1, 1],
              4 \<mapsto> [0, 0, 1, 0, 1, 1, 0, 1],
              5 \<mapsto> [0, 1, 3, 2]],
           FRAMEBUFFER_BINDING = None, ACTIVE_TEXTURE = TEXTURE 0,
           TEXTURE_BINDING_2D = (\<lambda>_. None),
           ARRAY_BUFFER_BINDING = Some 4,
           ELEMENT_ARRAY_BUFFER_BINDING = Some 5,
           vertex_attrib_pointer = [0 \<mapsto> Some 3, 1 \<mapsto> Some 4],
           vertex_attrib_enabled = {1, 0},
           CURRENT_PROGRAM = Some 2,
           uniform_values = (\<lambda>_. Map.empty), VIEWPORT = (0, 0, 0, 0),
           canvas_content = Cleared, draw_calls = 0\<rparr>,
     dev = example_device,
     console = [], canvas_width = 10, canvas_height = 10,
     floatingPointTexturesSupported = True,
     floatingPointTexturesLinearSamplingSupported = False,
     blitShader = 0, clock = 0, firstTime = 0, lastTime = 0,
     next_ref = 1,
     framebuffers = (\<lambda>_. empty_framebuffer),
     doublebuffers = (\<lambda>_. empty_doublebuffer),
     shaders =
       (\<lambda>_. empty_shader)
       (0 := \<lparr>program = 2, uniformLocations = (\<lambda>_. None),
               shader_textures = Map.empty, u_flip = Some 1,
               u_resParam = None, textureCounter = 0\<rparr>)\<rparr>"
proof -
  have d: "webgl2_available example_device" "EXT_color_buffer_float example_device"
    "\<not> OES_texture_float_linear example_device"
    "compiles example_device = (\<lambda>_ _. True)" "links example_device = (\<lambda>_. True)"
    "uniform_location example_device p ''u_fragfrog_flip'' = Some 1"
    "attrib_location example_device p ''a_vpos'' = 0"
    "attrib_location example_device p ''a_tpos'' = 1" for p
    by (simp_all add: example_device_def)
  show ?thesis
    apply (simp add: example_world_def fragFrog_def initial_world_def createShader_def
          resolve_varyings_def Shader_createShader_def Shader_createProgram_def createQuad_def
          gl_createShader_def gl_shaderSource_def gl_compileShader_def
          gl_getShaderParameter_COMPILE_STATUS_def gl_createProgram_def gl_attachShader_def
          gl_linkProgram_def gl_useProgram_def gl_enableVertexAttribArray_def gl_createBuffer_def
          gl_bindBuffer_def gl_bufferData_def gl_vertexAttribPointer_def initial_gl_def on_gl_def
          Let_def split_def d blitSrc_version)
    apply (simp add: eval_nat_numeral)
    done
qed

subsection \<open>What the constructors establish\<close>

lemma map_effect_init_texture_next_ref [simp]:
  "next_ref (snd (map_effect (Framebuffer_init_texture f) is w)) = next_ref w"
proof (induction "is" arbitrary: w)
  case Nil
  show ?case by simp
next
  case (Cons i "is")
  obtain r1 w1 where s: "Framebuffer_init_texture f i w = (r1, w1)"
    by (cases "Framebuffer_init_texture f i w")
  have "next_ref (snd (Framebuffer_init_texture f i w)) = next_ref w"
    by (simp add: Framebuffer_init_texture_def createTexture_def Let_def split_def
          split: sum.splits)
  with s have n1: "next_ref w1 = next_ref w" by simp
  show ?case
  proof (cases r1)
    case (Throw e)
    with s n1 show ?thesis by simp
  next
    case (Return t)
    obtain r2 w2 where m: "map_effect (Framebuffer_init_texture f) is w1 = (r2, w2)"
      by (cases "map_effect (Framebuffer_init_texture f) is w1")
    from Cons.IH [of w1] m have "next_ref w2 = next_ref w1" by simp
    with s m n1 Return show ?thesis by (cases r2) simp_all
  qed
qed

lemma Framebuffer_init_next_ref:
  "next_ref (snd (Framebuffer_init f w)) = next_ref w"
proof -
  have d: "next_ref (Framebuffer_destroy f w) = next_ref w"
  proof -
    have "next_ref (fold (\<lambda>texture. on_gl (gl_deleteTexture texture)) ts w) = next_ref w" for ts
      by (induction ts arbitrary: w) simp_all
    then show ?thesis by (simp add: Framebuffer_destroy_def Let_def)
  qed
  show ?thesis
    unfolding Framebuffer_init_def Let_def split_def
    by (auto split: prod.splits outcome.splits sum.splits if_splits simp: d)
qed

lemma createFramebuffer_result:
  assumes "n \<le> 16"
  shows "\<exists>w'. createFramebuffer n sc uf w = (Return (next_ref w), w')
     \<and> framebuffers w' = (framebuffers w)
         (next_ref w :=
            \<lparr>fbo = Some (next_name (gl w)),
             textures = [Suc (next_name (gl w)) ..< Suc (next_name (gl w)) + n],
             width = scaled (canvas_width w) sc, height = scaled (canvas_height w) sc,
             numTextures = n, scale = sc, usesFloatingPointTextures = uf\<rparr>)
     \<and> next_name (gl w') = Suc (next_name (gl w)) + n
     \<and> next_ref w' = Suc (next_ref w)
     \<and> doublebuffers w' = doublebuffers w \<and> shaders w' = shaders w \<and> dev w' = dev w
     \<and> canvas_width w' = canvas_width w \<and> canvas_height w' = canvas_height w
     \<and> blitShader w' = blitShader w
     \<and> (\<forall>t. t < next_name (gl w) \<longrightarrow> texture_objects (gl w') t = texture_objects (gl w) t)"
proof -
  let ?f = "next_ref w"
  define w1 where "w1 = w\<lparr>next_ref := Suc ?f,
                framebuffers := (framebuffers w)
                  (?f := \<lparr>fbo = None, textures = [], width = Num 0, height = Num 0, numTextures = n,
                         scale = sc, usesFloatingPointTextures = uf\<rparr>)\<rparr>"
  have n1: "numTextures (framebuffers w1 ?f) \<le> 16" using assms by (simp add: w1_def)
  from Framebuffer_init_result [OF n1] obtain w' where
    r: "Framebuffer_init ?f w1 = (Return (), w')"
    and p: "fbo (framebuffers w' ?f) = Some (next_name (gl w1))"
      "width (framebuffers w' ?f) = scaled (canvas_width w1) (scale (framebuffers w1 ?f))"
      "height (framebuffers w' ?f) = scaled (canvas_height w1) (scale (framebuffers w1 ?f))"
      "numTextures (framebuffers w' ?f) = numTextures (framebuffers w1 ?f)"
      "scale (framebuffers w' ?f) = scale (framebuffers w1 ?f)"
      "usesFloatingPointTextures (framebuffers w' ?f) = usesFloatingPointTextures (framebuffers w1 ?f)"
      "textures (framebuffers w' ?f) =
          [Suc (next_name (gl w1)) ..< Suc (next_name (gl w1)) + numTextures (framebuffers w1 ?f)]"
      "next_name (gl w') = Suc (next_name (gl w1)) + numTextures (framebuffers w1 ?f)"
    and old: "\<forall>t. t < next_name (gl w1) \<longrightarrow>
          texture_objects (gl w') t =
            (if fbo (framebuffers w1 ?f) \<noteq> None \<and> t \<in> set (textures (framebuffers w1 ?f))
             then None else texture_objects (gl w1) t)"
    by blast
  note fr = Framebuffer_init_frame [OF r]
  have nr: "next_ref w' = Suc ?f"
    using Framebuffer_init_next_ref [of ?f w1] r by (simp add: w1_def)
  have c: "createFramebuffer n sc uf w = (Return ?f, w')"
    unfolding createFramebuffer_def Let_def w1_def [symmetric] r by simp
  have fbs: "framebuffers w' = (framebuffers w)
         (?f :=
            \<lparr>fbo = Some (next_name (gl w)),
             textures = [Suc (next_name (gl w)) ..< Suc (next_name (gl w)) + n],
             width = scaled (canvas_width w) sc, height = scaled (canvas_height w) sc,
             numTextures = n, scale = sc, usesFloatingPointTextures = uf\<rparr>)"
  proof (rule ext)
    fix f' show "framebuffers w' f' = ((framebuffers w)
         (?f :=
            \<lparr>fbo = Some (next_name (gl w)),
             textures = [Suc (next_name (gl w)) ..< Suc (next_name (gl w)) + n],
             width = scaled (canvas_width w) sc, height = scaled (canvas_height w) sc,
             numTextures = n, scale = sc, usesFloatingPointTextures = uf\<rparr>)) f'"
    proof (cases "f' = ?f")
      case True
      have "framebuffers w' ?f = \<lparr>fbo = Some (next_name (gl w)),
             textures = [Suc (next_name (gl w)) ..< Suc (next_name (gl w)) + n],
             width = scaled (canvas_width w) sc, height = scaled (canvas_height w) sc,
             numTextures = n, scale = sc, usesFloatingPointTextures = uf\<rparr>"
        by (rule framebuffer.equality) (simp_all add: p, simp_all add: w1_def)
      with True show ?thesis by simp
    next
      case False
      with fr show ?thesis by (simp add: w1_def)
    qed
  qed
  from c fbs p(8) nr fr old show ?thesis by (simp add: w1_def)
qed

lemma createDoublebuffer_result:
  "\<exists>w'. createDoublebuffer uf w = (Return (next_ref w), w')
     \<and> doublebuffers w' = (doublebuffers w)
         (next_ref w := \<lparr>seedBuffer = None,
                          buffers = (Suc (next_ref w), Suc (Suc (next_ref w))), count = 0\<rparr>)
     \<and> framebuffers w' = (framebuffers w)
         (Suc (next_ref w) :=
            \<lparr>fbo = Some (next_name (gl w)), textures = [Suc (next_name (gl w))],
             width = scaled (canvas_width w) (Num 1), height = scaled (canvas_height w) (Num 1),
             numTextures = 1, scale = Num 1, usesFloatingPointTextures = uf\<rparr>,
          Suc (Suc (next_ref w)) :=
            \<lparr>fbo = Some (Suc (Suc (next_name (gl w)))),
             textures = [Suc (Suc (Suc (next_name (gl w))))],
             width = scaled (canvas_width w) (Num 1), height = scaled (canvas_height w) (Num 1),
             numTextures = 1, scale = Num 1, usesFloatingPointTextures = uf\<rparr>)
     \<and> next_name (gl w') = next_name (gl w) + 4
     \<and> next_ref w' = next_ref w + 3
     \<and> shaders w' = shaders w \<and> dev w' = dev w
     \<and> canvas_width w' = canvas_width w \<and> canvas_height w' = canvas_height w
     \<and> blitShader w' = blitShader w"
proof -
  let ?d = "next_ref w"
  define w0 where "w0 = w\<lparr>next_ref := Suc ?d\<rparr>"
  have one: "(1::nat) \<le> 16" by simp
  from createFramebuffer_result [OF one, of "Num 1" uf w0] obtain w1 where
    c1: "createFramebuffer 1 (Num 1) uf w0 = (Return (Suc ?d), w1)"
    and f1: "framebuffers w1 = (framebuffers w)
         (Suc ?d :=
            \<lparr>fbo = Some (next_name (gl w)), textures = [Suc (next_name (gl w))],
             width = scaled (canvas_width w) (Num 1), height = scaled (canvas_height w) (Num 1),
             numTextures = 1, scale = Num 1, usesFloatingPointTextures = uf\<rparr>)"
    and n1: "next_name (gl w1) = Suc (Suc (next_name (gl w)))" "next_ref w1 = Suc (Suc ?d)"
    and r1: "doublebuffers w1 = doublebuffers w" "shaders w1 = shaders w" "dev w1 = dev w"
      "canvas_width w1 = canvas_width w" "canvas_height w1 = canvas_height w"
      "blitShader w1 = blitShader w"
    by (auto simp: w0_def)
  from createFramebuffer_result [OF one, of "Num 1" uf w1] obtain w2 where
    c2: "createFramebuffer 1 (Num 1) uf w1 = (Return (Suc (Suc ?d)), w2)"
    and f2: "framebuffers w2 = (framebuffers w1)
         (Suc (Suc ?d) :=
            \<lparr>fbo = Some (Suc (Suc (next_name (gl w)))),
             textures = [Suc (Suc (Suc (next_name (gl w))))],
             width = scaled (canvas_width w) (Num 1), height = scaled (canvas_height w) (Num 1),
             numTextures = 1, scale = Num 1, usesFloatingPointTextures = uf\<rparr>)"
    and n2: "next_name (gl w2) = Suc (Suc (Suc (Suc (next_name (gl w)))))"
      "next_ref w2 = Suc (Suc (Suc ?d))"
    and r2: "doublebuffers w2 = doublebuffers w" "shaders w2 = shaders w" "dev w2 = dev w"
      "canvas_width w2 = canvas_width w" "canvas_height w2 = canvas_height w"
      "blitShader w2 = blitShader w"
    by (auto simp: n1 r1)
  have "createDoublebuffer uf w = (Return ?d,
                w2\<lparr>doublebuffers := (doublebuffers w2)
                     (?d := \<lparr>seedBuffer = None, buffers = (Suc ?d, Suc (Suc ?d)), count = 0\<rparr>)\<rparr>)"
    unfolding createDoublebuffer_def Let_def w0_def [symmetric] c1 prod.case outcome.case c2
    by (rule refl)
  with f1 f2 n2 r2 show ?thesis by simp
qed

lemma scaled_ten [simp]: "scaled 10 (Num 1) = Num 10"
  using scaled_one [of 10] by simp

lemma framebuffer_world_facts:
  "framebuffers framebuffer_world 1 =
     \<lparr>fbo = Some 6, textures = [7], width = Num 10, height = Num 10, numTextures = 1,
      scale = Num 1,
      usesFloatingPointTextures = False\<rparr>"
  "next_name (gl framebuffer_world) = 8"
  "canvas_width framebuffer_world = 10" "canvas_height framebuffer_world = 10"
  "shaders framebuffer_world = shaders example_world"
  "doublebuffers framebuffer_world = (\<lambda>_. empty_doublebuffer)"
  "blitShader framebuffer_world = 0"
proof -
  have one: "(1::nat) \<le> 16" by simp
  from createFramebuffer_result [OF one, of "Num 1" False example_world] obtain w' where
    c: "createFramebuffer 1 (Num 1) False example_world = (Return (next_ref example_world), w')"
    and f: "framebuffers w' = (framebuffers example_world)
         (next_ref example_world :=
            \<lparr>fbo = Some (next_name (gl example_world)),
             textures = [Suc (next_name (gl example_world)) ..< Suc (next_name (gl example_world)) + 1],
             width = scaled (canvas_width example_world) (Num 1), height = scaled (canvas_height example_world) (Num 1),
             numTextures = 1, scale = Num 1, usesFloatingPointTextures = False\<rparr>)"
    and r: "next_name (gl w') = Suc (next_name (gl example_world)) + 1"
      "doublebuffers w' = doublebuffers example_world" "shaders w' = shaders example_world"
      "canvas_width w' = canvas_width example_world" "canvas_height w' = canvas_height example_world"
      "blitShader w' = blitShader example_world"
    by blast
  have w': "framebuffer_world = w'" unfolding framebuffer_world_def c snd_conv by (rule refl)
  have e: "next_ref example_world = 1" "next_name (gl example_world) = 6"
    "canvas_width example_world = 10" "canvas_height example_world = 10"
    "doublebuffers example_world = (\<lambda>_. empty_doublebuffer)" "blitShader example_world = 0"
    by (simp_all add: example_world_eq)
  show "framebuffers framebuffer_world 1 =
     \<lparr>fbo = Some 6, textures = [7], width = Num 10, height = Num 10, numTextures = 1,
      scale = Num 1,
      usesFloatingPointTextures = False\<rparr>"
    unfolding w' f e by simp
  show "next_name (gl framebuffer_world) = 8" unfolding w' r e by simp
  show "canvas_width framebuffer_world = 10" "canvas_height framebuffer_world = 10"
    "shaders framebuffer_world = shaders example_world"
    "doublebuffers framebuffer_world = (\<lambda>_. empty_doublebuffer)"
    "blitShader framebuffer_world = 0"
    unfolding w' r e by simp_all
qed


lemma doublebuffer_world_facts:
  "doublebuffers doublebuffer_world =
     (\<lambda>_. empty_doublebuffer)(1 := \<lparr>seedBuffer = None, buffers = (2, 3), count = 0\<rparr>)"
  "framebuffers doublebuffer_world 2 =
     \<lparr>fbo = Some 6, textures = [7], width = Num 10, height = Num 10, numTextures = 1,
      scale = Num 1,
      usesFloatingPointTextures = False\<rparr>"
  "framebuffers doublebuffer_world 3 =
     \<lparr>fbo = Some 8, textures = [9], width = Num 10, height = Num 10, numTextures = 1,
      scale = Num 1,
      usesFloatingPointTextures = False\<rparr>"
  "next_name (gl doublebuffer_world) = 10"
  "canvas_width doublebuffer_world = 10" "canvas_height doublebuffer_world = 10"
  "shaders doublebuffer_world = shaders example_world"
  "blitShader doublebuffer_world = 0"
proof -
  from createDoublebuffer_result [of False example_world] obtain w' where
    c: "createDoublebuffer False example_world = (Return (next_ref example_world), w')"
    and d: "doublebuffers w' = (doublebuffers example_world)
         (next_ref example_world := \<lparr>seedBuffer = None,
            buffers = (Suc (next_ref example_world), Suc (Suc (next_ref example_world))),
            count = 0\<rparr>)"
    and f: "framebuffers w' = (framebuffers example_world)
         (Suc (next_ref example_world) :=
            \<lparr>fbo = Some (next_name (gl example_world)),
             textures = [Suc (next_name (gl example_world))],
             width = scaled (canvas_width example_world) (Num 1),
             height = scaled (canvas_height example_world) (Num 1),
             numTextures = 1, scale = Num 1, usesFloatingPointTextures = False\<rparr>,
          Suc (Suc (next_ref example_world)) :=
            \<lparr>fbo = Some (Suc (Suc (next_name (gl example_world)))),
             textures = [Suc (Suc (Suc (next_name (gl example_world))))],
             width = scaled (canvas_width example_world) (Num 1),
             height = scaled (canvas_height example_world) (Num 1),
             numTextures = 1, scale = Num 1, usesFloatingPointTextures = False\<rparr>)"
    and r: "next_name (gl w') = next_name (gl example_world) + 4"
      "shaders w' = shaders example_world"
      "canvas_width w' = canvas_width example_world" "canvas_height w' = canvas_height example_world"
      "blitShader w' = blitShader example_world"
    by blast
  have w': "doublebuffer_world = w'" unfolding doublebuffer_world_def c snd_conv by (rule refl)
  have e: "next_ref example_world = 1" "next_name (gl example_world) = 6"
    "canvas_width example_world = 10" "canvas_height example_world = 10"
    "doublebuffers example_world = (\<lambda>_. empty_doublebuffer)" "blitShader example_world = 0"
    by (simp_all add: example_world_eq)
  show "doublebuffers doublebuffer_world =
     (\<lambda>_. empty_doublebuffer)(1 := \<lparr>seedBuffer = None, buffers = (2, 3), count = 0\<rparr>)"
    unfolding w' d e by (simp add: eval_nat_numeral)
  show "framebuffers doublebuffer_world 2 =
     \<lparr>fbo = Some 6, textures = [7], width = Num 10, height = Num 10, numTextures = 1,
      scale = Num 1,
      usesFloatingPointTextures = False\<rparr>"
    unfolding w' f e by (simp add: eval_nat_numeral)
  show "framebuffers doublebuffer_world 3 =
     \<lparr>fbo = Some 8, textures = [9], width = Num 10, height = Num 10, numTextures = 1,
      scale = Num 1,
      usesFloatingPointTextures = False\<rparr>"
    unfolding w' f e by (simp add: eval_nat_numeral)
  show "next_name (gl doublebuffer_world) = 10" unfolding w' r e by simp
  show "canvas_width doublebuffer_world = 10" "canvas_height doublebuffer_world = 10"
    "shaders doublebuffer_world = shaders example_world"
    "blitShader doublebuffer_world = 0"
    unfolding w' r e by simp_all
qed

subsection \<open>Binding a Framebuffer\<close>

lemmas framebuffer_world_simps = framebuffer_world_facts [unfolded One_nat_def]

lemma half_framebuffer_world_facts:
  "framebuffers half_framebuffer_world (Suc 0) =
     \<lparr>fbo = Some 6, textures = [7], width = Num 5, height = Num 5, numTextures = 1,
      scale = Num (1 / 2), usesFloatingPointTextures = False\<rparr>"
  "next_name (gl half_framebuffer_world) = 8"
  "canvas_width half_framebuffer_world = 10" "canvas_height half_framebuffer_world = 10"
proof -
  have one: "(1::nat) \<le> 16" by simp
  from createFramebuffer_result [OF one, of "Num (1 / 2)" False example_world] obtain w' where
    c: "createFramebuffer 1 (Num (1 / 2)) False example_world
          = (Return (next_ref example_world), w')"
    and f: "framebuffers w' = (framebuffers example_world)
         (next_ref example_world :=
            \<lparr>fbo = Some (next_name (gl example_world)),
             textures = [Suc (next_name (gl example_world)) ..< Suc (next_name (gl example_world)) + 1],
             width = scaled (canvas_width example_world) (Num (1 / 2)),
             height = scaled (canvas_height example_world) (Num (1 / 2)),
             numTextures = 1, scale = Num (1 / 2), usesFloatingPointTextures = False\<rparr>)"
    and r: "next_name (gl w') = Suc (next_name (gl example_world)) + 1"
      "canvas_width w' = canvas_width example_world" "canvas_height w' = canvas_height example_world"
    by blast
  have w': "half_framebuffer_world = w'" unfolding half_framebuffer_world_def c snd_conv by (rule refl)
  have e: "next_ref example_world = 1" "next_name (gl example_world) = 6"
    "canvas_width example_world = 10" "canvas_height example_world = 10"
    by (simp_all add: example_world_eq)
  have s: "scaled 10 (Num (1 / 2)) = Num 5"
    using scaled_exact [of 10 "1 / 2" 5 0] by simp
  show "framebuffers half_framebuffer_world (Suc 0) =
     \<lparr>fbo = Some 6, textures = [7], width = Num 5, height = Num 5, numTextures = 1,
      scale = Num (1 / 2), usesFloatingPointTextures = False\<rparr>"
    unfolding w' f e s by simp
  show "next_name (gl half_framebuffer_world) = 8" unfolding w' r e by simp
  show "canvas_width half_framebuffer_world = 10" "canvas_height half_framebuffer_world = 10"
    unfolding w' r e by simp_all
qed

lemma nan_framebuffer_world_facts:
  "framebuffers nan_framebuffer_world (Suc 0) =
     \<lparr>fbo = Some 6, textures = [7], width = NaN, height = NaN, numTextures = 1,
      scale = NaN, usesFloatingPointTextures = False\<rparr>"
  "next_name (gl nan_framebuffer_world) = 8"
  "canvas_width nan_framebuffer_world = 10" "canvas_height nan_framebuffer_world = 10"
proof -
  have one: "(1::nat) \<le> 16" by simp
  from createFramebuffer_result [OF one, of NaN False example_world] obtain w' where
    c: "createFramebuffer 1 NaN False example_world = (Return (next_ref example_world), w')"
    and f: "framebuffers w' = (framebuffers example_world)
         (next_ref example_world :=
            \<lparr>fbo = Some (next_name (gl example_world)),
             textures = [Suc (next_name (gl example_world)) ..< Suc (next_name (gl example_world)) + 1],
             width = scaled (canvas_width example_world) NaN,
             height = scaled (canvas_height example_world) NaN,
             numTextures = 1, scale = NaN, usesFloatingPointTextures = False\<rparr>)"
    and r: "next_name (gl w') = Suc (next_name (gl example_world)) + 1"
      "canvas_width w' = canvas_width example_world" "canvas_height w' = canvas_height example_world"
    by blast
  have w': "nan_framebuffer_world = w'" unfolding nan_framebuffer_world_def c snd_conv by (rule refl)
  have e: "next_ref example_world = 1" "next_name (gl example_world) = 6"
    "canvas_width example_world = 10" "canvas_height example_world = 10"
    by (simp_all add: example_world_eq)
  show "framebuffers nan_framebuffer_world (Suc 0) =
     \<lparr>fbo = Some 6, textures = [7], width = NaN, height = NaN, numTextures = 1,
      scale = NaN, usesFloatingPointTextures = False\<rparr>"
    unfolding w' f e by simp
  show "next_name (gl nan_framebuffer_world) = 8" unfolding w' r e by simp
  show "canvas_width nan_framebuffer_world = 10" "canvas_height nan_framebuffer_world = 10"
    unfolding w' r e by simp_all
qed

lemma Framebuffer_bind_same_size:
  assumes "\<not> js_strict_neq (width (framebuffers w f)) (scaled (canvas_width w) (scale (framebuffers w f)))"
      and "\<not> js_strict_neq (height (framebuffers w f)) (scaled (canvas_height w) (scale (framebuffers w f)))"
  shows "Framebuffer_bind f w = (Return (), on_gl (gl_bindFramebuffer (fbo (framebuffers w f))) w)"
    and "texture_objects (gl (snd (Framebuffer_bind f w))) = texture_objects (gl w)"
    and "framebuffers (snd (Framebuffer_bind f w)) = framebuffers w"
    and "Framebuffer_bind f (snd (Framebuffer_bind f w)) = (Return (), snd (Framebuffer_bind f w))"
proof -
  show b: "Framebuffer_bind f w = (Return (), on_gl (gl_bindFramebuffer (fbo (framebuffers w f))) w)"
    using assms by (simp add: Framebuffer_bind_def Let_def)
  show "texture_objects (gl (snd (Framebuffer_bind f w))) = texture_objects (gl w)"
    unfolding b by (simp add: gl_bindFramebuffer_def)
  show "framebuffers (snd (Framebuffer_bind f w)) = framebuffers w"
    unfolding b by simp
  show "Framebuffer_bind f (snd (Framebuffer_bind f w)) = (Return (), snd (Framebuffer_bind f w))"
    unfolding b using assms
    by (simp add: Framebuffer_bind_def Let_def gl_bindFramebuffer_def on_gl_def)
qed

lemma Framebuffer_bind_other_size:
  assumes "js_strict_neq (width (framebuffers w f)) (scaled (canvas_width w) (scale (framebuffers w f)))
         \<or> js_strict_neq (height (framebuffers w f)) (scaled (canvas_height w) (scale (framebuffers w f)))"
      and "numTextures (framebuffers w f) \<le> 16"
  shows "\<exists>w'. Framebuffer_bind f w = (Return (), w')
           \<and> width (framebuffers w' f) = scaled (canvas_width w) (scale (framebuffers w f))
           \<and> height (framebuffers w' f) = scaled (canvas_height w) (scale (framebuffers w f))
           \<and> scale (framebuffers w' f) = scale (framebuffers w f)
           \<and> canvas_width w' = canvas_width w \<and> canvas_height w' = canvas_height w
           \<and> length (textures (framebuffers w' f)) = numTextures (framebuffers w f)
           \<and> (\<forall>t\<in>set (textures (framebuffers w' f)).
                 next_name (gl w) < t
                 \<and> (\<exists>obj img. texture_objects (gl w') t = Some obj \<and> level0 obj = Some img
                       \<and> dimensions img
                           = Some (ToInt32 (scaled (canvas_width w) (scale (framebuffers w f))),
                                   ToInt32 (scaled (canvas_height w) (scale (framebuffers w f))))
                       \<and> content img = Cleared))
           \<and> (fbo (framebuffers w f) \<noteq> None \<longrightarrow>
                (\<forall>t\<in>set (textures (framebuffers w f)). t < next_name (gl w) \<longrightarrow>
                   texture_objects (gl w') t = None
                   \<and> t \<notin> set (textures (framebuffers w' f))))"
proof -
  let ?W = "scaled (canvas_width w) (scale (framebuffers w f))"
  let ?H = "scaled (canvas_height w) (scale (framebuffers w f))"
  from assms(1) have b: "Framebuffer_bind f w = Framebuffer_init f w"
    by (auto simp: Framebuffer_bind_def Let_def)
  from Framebuffer_init_result [OF assms(2)] obtain w' where
    r: "Framebuffer_init f w = (Return (), w')"
    and wh: "width (framebuffers w' f) = ?W" "height (framebuffers w' f) = ?H"
      "scale (framebuffers w' f) = scale (framebuffers w f)"
    and tx: "textures (framebuffers w' f) =
          [Suc (next_name (gl w)) ..< Suc (next_name (gl w)) + numTextures (framebuffers w f)]"
    and new: "\<forall>t\<in>set (textures (framebuffers w' f)).
          \<exists>obj img. texture_objects (gl w') t = Some obj \<and> level0 obj = Some img
             \<and> dimensions img = Some (ToInt32 ?W, ToInt32 ?H)
             \<and> content img = Cleared
             \<and> internalformat img =
                 (if usesFloatingPointTextures (framebuffers w f) \<and> floatingPointTexturesSupported w
                  then RGBA32F else RGBA)"
    and old: "\<forall>t. t < next_name (gl w) \<longrightarrow>
          texture_objects (gl w') t =
            (if fbo (framebuffers w f) \<noteq> None \<and> t \<in> set (textures (framebuffers w f))
             then None else texture_objects (gl w) t)"
    by blast
  note fr = Framebuffer_init_frame [OF r]
  have len: "length (textures (framebuffers w' f)) = numTextures (framebuffers w f)"
    unfolding tx by simp
  have fresh: "next_name (gl w) < t" if "t \<in> set (textures (framebuffers w' f))" for t
  proof -
    from that have "t \<in> set [Suc (next_name (gl w)) ..<
        Suc (next_name (gl w)) + numTextures (framebuffers w f)]"
      by (simp only: tx)
    then have "Suc (next_name (gl w)) \<le> t" by (simp only: set_upt atLeastLessThan_iff)
    then show ?thesis by simp
  qed
  have gone: "texture_objects (gl w') t = None \<and> t \<notin> set (textures (framebuffers w' f))"
    if "fbo (framebuffers w f) \<noteq> None" "t \<in> set (textures (framebuffers w f))"
      "t < next_name (gl w)" for t
    using that old fresh [of t] by auto
  show ?thesis
    using b r wh fr len new fresh gone by (intro exI [of _ w']) fastforce
qed

text \<open>
  Claim C6. For a Framebuffer with scale \<open>s\<close>, let \<open>W\<close> be \<^verbatim>\<open>Math.floor(canvas.width * s)\<close> and
  \<open>H\<close> be \<^verbatim>\<open>Math.floor(canvas.height * s)\<close>, computed as the source computes them, on
  JavaScript numbers: the product is rounded to the nearest double, and \<open>W\<close> or \<open>H\<close> may be
  an infinity or \<^verbatim>\<open>NaN\<close>.
  \<^item> When the recorded width and height are \<open>W\<close> and \<open>H\<close> and neither is \<^verbatim>\<open>NaN\<close>, \<open>bind\<close> only
    binds the existing framebuffer object: no texture object changes (identity and
    content), the Framebuffer keeps its textures, and a second \<open>bind\<close> changes nothing.
  \<^item> When the recorded width or height differs from \<open>W\<close> or \<open>H\<close>, or one of \<open>W\<close> and \<open>H\<close> is
    \<^verbatim>\<open>NaN\<close> (the comparison is \<^verbatim>\<open>!==\<close>, under which \<^verbatim>\<open>NaN\<close> differs from itself), and the
    Framebuffer has at most 16 textures, as every constructed one has, \<open>bind\<close> returns with
    the width and height recorded as \<open>W\<close> and \<open>H\<close> and with \<open>numTextures\<close> new textures, each
    freshly named and holding cleared storage of the size \<open>(W, H)\<close> as the device reads it;
    the old textures are deleted and are none of the new ones. A further \<open>bind\<close> at the
    same canvas size then only binds, provided neither \<open>W\<close> nor \<open>H\<close> is \<^verbatim>\<open>NaN\<close>.
  \<^item> For a finite scale \<open>s\<close> and a canvas size \<open>n\<close>: when the product \<open>n * s\<close> is itself a double,
    the size is \<open>floor (n * s)\<close>; in general it is the floor of a double \<open>x\<close> within the
    rounding error of \<open>n * s\<close>. When the scale is \<^verbatim>\<open>NaN\<close>, so are \<open>W\<close> and \<open>H\<close>. The device reads a
    size that is an integer from 0 to \<open>2^31 - 1\<close> as that integer.
\<close>

theorem Framebuffer_bind_lazy_resize:
  fixes w :: world and f :: ref
  defines "fb \<equiv> framebuffers w f"
  defines "W \<equiv> js_floor (js_mul (Num (real_of_int (canvas_width w))) (scale fb))"
      and "H \<equiv> js_floor (js_mul (Num (real_of_int (canvas_height w))) (scale fb))"
  shows "(width fb = W \<and> W \<noteq> NaN \<and> height fb = H \<and> H \<noteq> NaN \<longrightarrow>
            Framebuffer_bind f w = (Return (), on_gl (gl_bindFramebuffer (fbo fb)) w)
            \<and> texture_objects (gl (snd (Framebuffer_bind f w))) = texture_objects (gl w)
            \<and> framebuffers (snd (Framebuffer_bind f w)) = framebuffers w
            \<and> Framebuffer_bind f (snd (Framebuffer_bind f w))
                = (Return (), snd (Framebuffer_bind f w)))
       \<and> ((width fb \<noteq> W \<or> W = NaN \<or> height fb \<noteq> H \<or> H = NaN) \<and> numTextures fb \<le> 16 \<longrightarrow>
            (\<exists>w'. Framebuffer_bind f w = (Return (), w')
               \<and> width (framebuffers w' f) = W \<and> height (framebuffers w' f) = H
               \<and> length (textures (framebuffers w' f)) = numTextures fb
               \<and> (\<forall>t\<in>set (textures (framebuffers w' f)).
                     next_name (gl w) < t
                     \<and> (\<exists>obj img. texture_objects (gl w') t = Some obj \<and> level0 obj = Some img
                           \<and> dimensions img = Some (ToInt32 W, ToInt32 H)
                           \<and> content img = Cleared))
               \<and> (fbo fb \<noteq> None \<longrightarrow>
                    (\<forall>t\<in>set (textures fb). t < next_name (gl w) \<longrightarrow>
                       texture_objects (gl w') t = None
                       \<and> t \<notin> set (textures (framebuffers w' f))))
               \<and> (W \<noteq> NaN \<and> H \<noteq> NaN \<longrightarrow>
                    Framebuffer_bind f w'
                      = (Return (), on_gl (gl_bindFramebuffer (fbo (framebuffers w' f))) w'))))
       \<and> (\<forall>n s m e. real_of_int n * s = real_of_int m * 2 powi e
                    \<and> \<bar>m\<bar> < 2 ^ 53 \<and> - 1074 \<le> e \<and> e \<le> 971 \<longrightarrow>
            js_floor (js_mul (Num (real_of_int n)) (Num s))
              = Num (real_of_int \<lfloor>real_of_int n * s\<rfloor>))
       \<and> (\<forall>n s x. js_mul (Num (real_of_int n)) (Num s) = Num x \<longrightarrow>
            js_floor (js_mul (Num (real_of_int n)) (Num s)) = Num (real_of_int \<lfloor>x\<rfloor>)
            \<and> (\<bar>x - real_of_int n * s\<bar> \<le> \<bar>real_of_int n * s\<bar> / 2 ^ 53
               \<or> \<bar>x - real_of_int n * s\<bar> \<le> 2 powi (- 1075)))
       \<and> (scale fb = NaN \<longrightarrow> W = NaN \<and> H = NaN)
       \<and> (\<forall>n. 0 \<le> n \<and> n < 2 ^ 31 \<longrightarrow> ToInt32 (Num (real_of_int n)) = n)"
proof -
  have W: "W = scaled (canvas_width w) (scale (framebuffers w f))"
    and H: "H = scaled (canvas_height w) (scale (framebuffers w f))"
    by (simp_all add: W_def H_def fb_def scaled_def)
  have 1: "Framebuffer_bind f w = (Return (), on_gl (gl_bindFramebuffer (fbo fb)) w)
            \<and> texture_objects (gl (snd (Framebuffer_bind f w))) = texture_objects (gl w)
            \<and> framebuffers (snd (Framebuffer_bind f w)) = framebuffers w
            \<and> Framebuffer_bind f (snd (Framebuffer_bind f w))
                = (Return (), snd (Framebuffer_bind f w))"
    if "width fb = W \<and> W \<noteq> NaN \<and> height fb = H \<and> H \<noteq> NaN"
  proof -
    from that have a:
      "\<not> js_strict_neq (width (framebuffers w f)) (scaled (canvas_width w) (scale (framebuffers w f)))"
      "\<not> js_strict_neq (height (framebuffers w f)) (scaled (canvas_height w) (scale (framebuffers w f)))"
      by (simp_all add: js_strict_neq_def W H fb_def)
    from Framebuffer_bind_same_size [OF a] show ?thesis by (simp add: fb_def)
  qed
  have 2: "\<exists>w'. Framebuffer_bind f w = (Return (), w')
               \<and> width (framebuffers w' f) = W \<and> height (framebuffers w' f) = H
               \<and> length (textures (framebuffers w' f)) = numTextures fb
               \<and> (\<forall>t\<in>set (textures (framebuffers w' f)).
                     next_name (gl w) < t
                     \<and> (\<exists>obj img. texture_objects (gl w') t = Some obj \<and> level0 obj = Some img
                           \<and> dimensions img = Some (ToInt32 W, ToInt32 H)
                           \<and> content img = Cleared))
               \<and> (fbo fb \<noteq> None \<longrightarrow>
                    (\<forall>t\<in>set (textures fb). t < next_name (gl w) \<longrightarrow>
                       texture_objects (gl w') t = None
                       \<and> t \<notin> set (textures (framebuffers w' f))))
               \<and> (W \<noteq> NaN \<and> H \<noteq> NaN \<longrightarrow>
                    Framebuffer_bind f w'
                      = (Return (), on_gl (gl_bindFramebuffer (fbo (framebuffers w' f))) w'))"
    if "(width fb \<noteq> W \<or> W = NaN \<or> height fb \<noteq> H \<or> H = NaN) \<and> numTextures fb \<le> 16"
  proof -
    from that have a:
      "js_strict_neq (width (framebuffers w f)) (scaled (canvas_width w) (scale (framebuffers w f)))
       \<or> js_strict_neq (height (framebuffers w f)) (scaled (canvas_height w) (scale (framebuffers w f)))"
      and n: "numTextures (framebuffers w f) \<le> 16"
      by (auto simp: js_strict_neq_def W H fb_def)
    from Framebuffer_bind_other_size [OF a n] obtain w' where
      r: "Framebuffer_bind f w = (Return (), w')"
      and wh: "width (framebuffers w' f) = W" "height (framebuffers w' f) = H"
      and sc: "scale (framebuffers w' f) = scale (framebuffers w f)"
        "canvas_width w' = canvas_width w" "canvas_height w' = canvas_height w"
      and rest: "length (textures (framebuffers w' f)) = numTextures fb"
        "\<forall>t\<in>set (textures (framebuffers w' f)).
                     next_name (gl w) < t
                     \<and> (\<exists>obj img. texture_objects (gl w') t = Some obj \<and> level0 obj = Some img
                           \<and> dimensions img = Some (ToInt32 W, ToInt32 H)
                           \<and> content img = Cleared)"
        "fbo fb \<noteq> None \<longrightarrow>
                    (\<forall>t\<in>set (textures fb). t < next_name (gl w) \<longrightarrow>
                       texture_objects (gl w') t = None
                       \<and> t \<notin> set (textures (framebuffers w' f)))"
      unfolding W H fb_def by blast
    have again: "Framebuffer_bind f w'
        = (Return (), on_gl (gl_bindFramebuffer (fbo (framebuffers w' f))) w')"
      if "W \<noteq> NaN \<and> H \<noteq> NaN"
    proof -
      from that wh sc have
        "\<not> js_strict_neq (width (framebuffers w' f))
             (scaled (canvas_width w') (scale (framebuffers w' f)))"
        "\<not> js_strict_neq (height (framebuffers w' f))
             (scaled (canvas_height w') (scale (framebuffers w' f)))"
        by (simp_all add: js_strict_neq_def W H)
      from Framebuffer_bind_same_size(1) [OF this] show ?thesis .
    qed
    from r wh rest again show ?thesis by blast
  qed
  have 3: "js_floor (js_mul (Num (real_of_int n)) (Num s))
              = Num (real_of_int \<lfloor>real_of_int n * s\<rfloor>)"
    if "real_of_int n * s = real_of_int m * 2 powi e
        \<and> \<bar>m\<bar> < 2 ^ 53 \<and> - 1074 \<le> e \<and> e \<le> 971" for n s m e
    using scaled_exact [of n s m e] that by (simp add: scaled_def)
  have 4: "js_floor (js_mul (Num (real_of_int n)) (Num s)) = Num (real_of_int \<lfloor>x\<rfloor>)
            \<and> (\<bar>x - real_of_int n * s\<bar> \<le> \<bar>real_of_int n * s\<bar> / 2 ^ 53
               \<or> \<bar>x - real_of_int n * s\<bar> \<le> 2 powi (- 1075))"
    if "js_mul (Num (real_of_int n)) (Num s) = Num x" for n s x
  proof -
    from that have "to_double (real_of_int n * s) = Num x" by (simp add: js_mul_def)
    from to_double_error [OF this] that show ?thesis by (simp add: js_floor_def)
  qed
  have 5: "W = NaN \<and> H = NaN" if "scale fb = NaN"
    using that by (simp add: W_def H_def js_mul_def js_floor_def)
  have 6: "ToInt32 (Num (real_of_int n)) = n" if "0 \<le> n \<and> n < 2 ^ 31" for n
    using that by (intro ToInt32_of_int) auto
  from 1 2 3 4 5 6 show ?thesis by blast
qed

theorem Framebuffer_bind_lazy_resize_witness:
  "Framebuffer_bind 1 half_framebuffer_world
      = (Return (), on_gl (gl_bindFramebuffer (Some 6)) half_framebuffer_world)
   \<and> texture_objects (gl (snd (Framebuffer_bind 1 half_framebuffer_world)))
      = texture_objects (gl half_framebuffer_world)
   \<and> js_floor (js_mul (Num 7) (Num (1 / 2))) = Num 3
   \<and> js_floor (js_mul (Num 300) (Num one_third)) = Num 100
   \<and> \<lfloor>300 * one_third\<rfloor> = 99
   \<and> (\<exists>w'. Framebuffer_bind 1 (resize 7 7 half_framebuffer_world) = (Return (), w')
         \<and> width (framebuffers w' 1) = Num 3 \<and> height (framebuffers w' 1) = Num 3
         \<and> length (textures (framebuffers w' 1)) = 1
         \<and> (\<forall>t\<in>set (textures (framebuffers w' 1)).
               \<exists>obj img. texture_objects (gl w') t = Some obj \<and> level0 obj = Some img
                 \<and> dimensions img = Some (3, 3))
         \<and> texture_objects (gl w') 7 = None
         \<and> Framebuffer_bind 1 w'
             = (Return (), on_gl (gl_bindFramebuffer (fbo (framebuffers w' 1))) w'))"
proof -
  let ?w = half_framebuffer_world
  let ?r = "resize 7 7 half_framebuffer_world"
  note t = Framebuffer_bind_lazy_resize [of ?w 1]
  note tr = Framebuffer_bind_lazy_resize [of ?r 1]
  have rf: "framebuffers ?r = framebuffers ?w" "gl ?r = gl ?w"
    "canvas_width ?r = 7" "canvas_height ?r = 7"
    by (simp_all add: resize_def)
  have p7: "real_of_int 7 * (1 / 2) = real_of_int 7 * 2 powi (- 1)
      \<and> \<bar>7 :: int\<bar> < 2 ^ 53 \<and> (- 1074 :: int) \<le> - 1 \<and> (- 1 :: int) \<le> 971"
    by (simp add: power_int_minus)
  have p10: "real_of_int 10 * (1 / 2) = real_of_int 5 * 2 powi 0
      \<and> \<bar>5 :: int\<bar> < 2 ^ 53 \<and> (- 1074 :: int) \<le> 0 \<and> (0 :: int) \<le> 971"
    by simp
  from t [THEN conjunct2, THEN conjunct2, THEN conjunct1, rule_format, OF p7]
  have s7: "js_floor (js_mul (Num 7) (Num (1 / 2))) = Num 3" by simp
  from t [THEN conjunct2, THEN conjunct2, THEN conjunct1, rule_format, OF p10]
  have s10: "js_floor (js_mul (Num 10) (Num (1 / 2))) = Num 5" by simp
  from t [THEN conjunct2, THEN conjunct2, THEN conjunct2, THEN conjunct1, rule_format,
      of 300 one_third 100]
  have s300: "js_floor (js_mul (Num 300) (Num one_third)) = Num 100"
    by (simp add: scaled_one_third(1))
  have i3: "ToInt32 (Num 3) = 3"
    using t [THEN conjunct2, THEN conjunct2, THEN conjunct2, THEN conjunct2, THEN conjunct2,
        rule_format, of 3]
    by simp
  have h1: "width (framebuffers ?w 1)
          = js_floor (js_mul (Num (real_of_int (canvas_width ?w))) (scale (framebuffers ?w 1)))
      \<and> js_floor (js_mul (Num (real_of_int (canvas_width ?w))) (scale (framebuffers ?w 1))) \<noteq> NaN
      \<and> height (framebuffers ?w 1)
          = js_floor (js_mul (Num (real_of_int (canvas_height ?w))) (scale (framebuffers ?w 1)))
      \<and> js_floor (js_mul (Num (real_of_int (canvas_height ?w))) (scale (framebuffers ?w 1))) \<noteq> NaN"
    by (simp add: half_framebuffer_world_facts s10)
  from t [THEN conjunct1, rule_format, OF h1]
  have a: "Framebuffer_bind 1 ?w = (Return (), on_gl (gl_bindFramebuffer (Some 6)) ?w)
      \<and> texture_objects (gl (snd (Framebuffer_bind 1 ?w))) = texture_objects (gl ?w)"
    by (simp add: half_framebuffer_world_facts gl_bindFramebuffer_def)
  have h2: "(width (framebuffers ?r 1)
          \<noteq> js_floor (js_mul (Num (real_of_int (canvas_width ?r))) (scale (framebuffers ?r 1)))
      \<or> js_floor (js_mul (Num (real_of_int (canvas_width ?r))) (scale (framebuffers ?r 1))) = NaN
      \<or> height (framebuffers ?r 1)
          \<noteq> js_floor (js_mul (Num (real_of_int (canvas_height ?r))) (scale (framebuffers ?r 1)))
      \<or> js_floor (js_mul (Num (real_of_int (canvas_height ?r))) (scale (framebuffers ?r 1))) = NaN)
      \<and> numTextures (framebuffers ?r 1) \<le> 16"
    by (simp add: rf half_framebuffer_world_facts s7)
  from tr [THEN conjunct2, THEN conjunct1, rule_format, OF h2]
  have b: "\<exists>w'. Framebuffer_bind 1 ?r = (Return (), w')
         \<and> width (framebuffers w' 1) = Num 3 \<and> height (framebuffers w' 1) = Num 3
         \<and> length (textures (framebuffers w' 1)) = 1
         \<and> (\<forall>t\<in>set (textures (framebuffers w' 1)).
               \<exists>obj img. texture_objects (gl w') t = Some obj \<and> level0 obj = Some img
                 \<and> dimensions img = Some (3, 3))
         \<and> texture_objects (gl w') 7 = None
         \<and> Framebuffer_bind 1 w'
             = (Return (), on_gl (gl_bindFramebuffer (fbo (framebuffers w' 1))) w')"
    by (fastforce simp: rf half_framebuffer_world_facts s7 i3)
  from a s7 s300 scaled_one_third(3) b show ?thesis by blast
qed

text \<open>
  Claim C6 without the exception for \<^verbatim>\<open>NaN\<close> does not hold. With the scale \<^verbatim>\<open>NaN\<close> the
  recorded size is \<^verbatim>\<open>NaN\<close>, which \<^verbatim>\<open>!==\<close> tells apart from itself: every \<open>bind\<close> deletes the
  textures and makes new ones, although the canvas keeps its size. Here the Framebuffer is
  bound twice at the canvas size 10 by 10: texture 7 is replaced by texture 9, and that by
  texture 11.
\<close>

theorem Framebuffer_bind_NaN_scale_recreates:
  "canvas_width nan_framebuffer_world = 10 \<and> canvas_height nan_framebuffer_world = 10
   \<and> scale (framebuffers nan_framebuffer_world 1) = NaN
   \<and> width (framebuffers nan_framebuffer_world 1) = NaN
   \<and> textures (framebuffers nan_framebuffer_world 1) = [7]
   \<and> (\<exists>w'. Framebuffer_bind 1 nan_framebuffer_world = (Return (), w')
         \<and> canvas_width w' = 10 \<and> canvas_height w' = 10
         \<and> width (framebuffers w' 1) = NaN
         \<and> textures (framebuffers w' 1) = [9]
         \<and> texture_objects (gl w') 7 = None
         \<and> (\<exists>w''. Framebuffer_bind 1 w' = (Return (), w'')
               \<and> canvas_width w'' = 10 \<and> canvas_height w'' = 10
               \<and> textures (framebuffers w'' 1) = [11]
               \<and> texture_objects (gl w'') 9 = None))"
proof -
  let ?w = nan_framebuffer_world
  note f = nan_framebuffer_world_facts
  have n: "numTextures (framebuffers ?w (Suc 0)) \<le> 16" by (simp add: f)
  have b: "Framebuffer_bind (Suc 0) ?w = Framebuffer_init (Suc 0) ?w"
    by (simp add: Framebuffer_bind_def Let_def f js_strict_neq_def)
  from Framebuffer_init_result [OF n] obtain w' where
    r: "Framebuffer_init (Suc 0) ?w = (Return (), w')"
    and p: "fbo (framebuffers w' (Suc 0)) = Some 8"
      "width (framebuffers w' (Suc 0)) = NaN" "height (framebuffers w' (Suc 0)) = NaN"
      "numTextures (framebuffers w' (Suc 0)) = 1" "scale (framebuffers w' (Suc 0)) = NaN"
      "textures (framebuffers w' (Suc 0)) = [9]" "next_name (gl w') = 10"
    and old: "\<forall>t. t < next_name (gl ?w) \<longrightarrow>
          texture_objects (gl w') t =
            (if fbo (framebuffers ?w (Suc 0)) \<noteq> None \<and> t \<in> set (textures (framebuffers ?w (Suc 0)))
             then None else texture_objects (gl ?w) t)"
    by (auto simp: f eval_nat_numeral)
  note fr = Framebuffer_init_frame [OF r]
  have g7: "texture_objects (gl w') 7 = None" using old by (simp add: f)
  have n': "numTextures (framebuffers w' (Suc 0)) \<le> 16" by (simp add: p)
  have b': "Framebuffer_bind (Suc 0) w' = Framebuffer_init (Suc 0) w'"
    by (simp add: Framebuffer_bind_def Let_def p js_strict_neq_def)
  from Framebuffer_init_result [OF n'] obtain w'' where
    r': "Framebuffer_init (Suc 0) w' = (Return (), w'')"
    and p': "textures (framebuffers w'' (Suc 0)) = [11]"
    and old': "\<forall>t. t < next_name (gl w') \<longrightarrow>
          texture_objects (gl w'') t =
            (if fbo (framebuffers w' (Suc 0)) \<noteq> None \<and> t \<in> set (textures (framebuffers w' (Suc 0)))
             then None else texture_objects (gl w') t)"
    by (auto simp: p eval_nat_numeral)
  note fr' = Framebuffer_init_frame [OF r']
  have g9: "texture_objects (gl w'') 9 = None" using old' by (simp add: p)
  have "Framebuffer_bind 1 ?w = (Return (), w')
         \<and> canvas_width w' = 10 \<and> canvas_height w' = 10
         \<and> width (framebuffers w' 1) = NaN
         \<and> textures (framebuffers w' 1) = [9]
         \<and> texture_objects (gl w') 7 = None
         \<and> Framebuffer_bind 1 w' = (Return (), w'')
         \<and> canvas_width w'' = 10 \<and> canvas_height w'' = 10
         \<and> textures (framebuffers w'' 1) = [11]
         \<and> texture_objects (gl w'') 9 = None"
    using b r p g7 fr b' r' p' g9 fr' by (simp add: f)
  then have "\<exists>w'. Framebuffer_bind 1 ?w = (Return (), w')
         \<and> canvas_width w' = 10 \<and> canvas_height w' = 10
         \<and> width (framebuffers w' 1) = NaN
         \<and> textures (framebuffers w' 1) = [9]
         \<and> texture_objects (gl w') 7 = None
         \<and> (\<exists>w''. Framebuffer_bind 1 w' = (Return (), w'')
               \<and> canvas_width w'' = 10 \<and> canvas_height w'' = 10
               \<and> textures (framebuffers w'' 1) = [11]
               \<and> texture_objects (gl w'') 9 = None)"
    by blast
  then show ?thesis by (simp add: f)
qed

subsection \<open>The texture index of \<^verbatim>\<open>getTexture\<close>\<close>

lemmas doublebuffer_world_simps = doublebuffer_world_facts [unfolded One_nat_def]

lemma example_shader_counter:
  "textureCounter (shaders example_world 0) = 0"
  by (simp add: example_world_eq)

text \<open>
  Claim C10. \<open>getTexture f index\<close> does not compare \<open>index\<close> with the number of textures of
  the Framebuffer. For every index outside the texture array (negative, or at least its
  length), activating the returned source completes without an error whenever the
  shader's texture counter lies in 0..31: \<^verbatim>\<open>this.textures[index]\<close> is \<^verbatim>\<open>undefined\<close>, so the
  texture binding of the claimed unit is cleared, no texture object is touched, and the
  counter goes up by one. Only the counter is checked: outside 0..31 the activation throws
  ``Invalid texture index'', whatever the index.
\<close>

theorem getTexture_index_unchecked:
  assumes "index < 0 \<or> int (length (textures (framebuffers w f))) \<le> index"
  shows "activate (Suc n) (getTexture f index) loc s w =
          (if 0 \<le> getTextureCounter s w \<and> getTextureCounter s w \<le> 31
           then Some (Return (),
                  incTextureCounter s
                   (setActiveTextureParams None (usesFloatingPointTextures (framebuffers w f))
                     (on_gl (gl_bindTexture None)
                       (on_gl (gl_activeTexture (TEXTURE (nat (getTextureCounter s w))))
                         (on_gl (gl_uniform1i loc (getTextureCounter s w)) w)))))
           else Some (Throw (Error ''Invalid texture index''),
                  on_gl (gl_uniform1i loc (getTextureCounter s w)) w))
       \<and> (0 \<le> getTextureCounter s w \<and> getTextureCounter s w \<le> 31 \<longrightarrow>
            (\<exists>w'. activate (Suc n) (getTexture f index) loc s w = Some (Return (), w')
               \<and> bound_texture (gl w') = None
               \<and> texture_objects (gl w') = texture_objects (gl w)
               \<and> getTextureCounter s w' = getTextureCounter s w + 1))"
proof -
  from assms have u: "js_index (textures (framebuffers w f)) index = None"
    by (auto simp: js_index_def)
  have e: "activate (Suc n) (getTexture f index) loc s w =
          (if 0 \<le> getTextureCounter s w \<and> getTextureCounter s w \<le> 31
           then Some (Return (),
                  incTextureCounter s
                   (setActiveTextureParams None (usesFloatingPointTextures (framebuffers w f))
                     (on_gl (gl_bindTexture None)
                       (on_gl (gl_activeTexture (TEXTURE (nat (getTextureCounter s w))))
                         (on_gl (gl_uniform1i loc (getTextureCounter s w)) w)))))
           else Some (Throw (Error ''Invalid texture index''),
                  on_gl (gl_uniform1i loc (getTextureCounter s w)) w))"
    by (simp add: getTexture_def FramebufferTexture_activate_result u getTextureCounter_def)
  have b: "bound_texture (gl (incTextureCounter s
                   (setActiveTextureParams None uf
                     (on_gl (gl_bindTexture None) wx)))) = None" for uf wx
    by (simp add: incTextureCounter_def bound_texture_def gl_bindTexture_def)
  have t: "texture_objects (gl (incTextureCounter s
                   (setActiveTextureParams None uf
                     (on_gl (gl_bindTexture None)
                       (on_gl (gl_activeTexture un)
                         (on_gl (gl_uniform1i loc c) w)))))) = texture_objects (gl w)" for uf un c
    by (simp add: incTextureCounter_def setActiveTextureParams_gl gl_texParameteri_def
          update_bound_texture_def bound_texture_def gl_bindTexture_def gl_activeTexture_def
          gl_uniform1i_def gl_uniform_def split: option.splits prod.splits)
  have c: "getTextureCounter s (incTextureCounter s
                   (setActiveTextureParams None uf
                     (on_gl g1 (on_gl g2 (on_gl g3 w))))) = getTextureCounter s w + 1" for uf g1 g2 g3
    by (simp add: incTextureCounter_def getTextureCounter_def)
  from e b t c show ?thesis by simp
qed

theorem getTexture_index_unchecked_witness:
  "(1 < (0::int) \<or> int (length (textures (framebuffers framebuffer_world 1))) \<le> 1)
   \<and> 0 \<le> getTextureCounter 0 framebuffer_world \<and> getTextureCounter 0 framebuffer_world \<le> 31
   \<and> (\<exists>w'. activate 1 (getTexture 1 1) (Some 0) 0 framebuffer_world = Some (Return (), w')
         \<and> bound_texture (gl w') = None
         \<and> texture_objects (gl w') = texture_objects (gl framebuffer_world)
         \<and> getTextureCounter 0 w' = 1)"
proof -
  have h: "1 < (0::int) \<or> int (length (textures (framebuffers framebuffer_world 1))) \<le> 1"
    by (simp add: framebuffer_world_simps)
  have c: "getTextureCounter 0 framebuffer_world = 0"
    by (simp add: getTextureCounter_def framebuffer_world_simps example_shader_counter)
  from getTexture_index_unchecked [OF h, of 0 "Some 0" 0, THEN conjunct2] c
  have "\<exists>w'. activate 1 (getTexture 1 1) (Some 0) 0 framebuffer_world = Some (Return (), w')
         \<and> bound_texture (gl w') = None
         \<and> texture_objects (gl w') = texture_objects (gl framebuffer_world)
         \<and> getTextureCounter 0 w' = 1"
    by simp
  with h c show ?thesis by simp
qed

subsection \<open>Draw calls in the example worlds\<close>

lemma draw_begin_Out:
  "draw_begin s Out w =
     (Return (),
      on_gl (gl_viewport 0 0 (ToInt32 (Num (real_of_int (canvas_width w))))
               (ToInt32 (Num (real_of_int (canvas_height w)))))
        (on_gl (gl_bindFramebuffer None)
          (update_shader s (\<lambda>sh. sh\<lparr>textureCounter := 0\<rparr>)
            (on_gl (gl_useProgram (Some (program (shaders w s)))) w))))"
  by (simp add: draw_begin_def target_bind_def target_width_def target_height_def Let_def)

lemma draw_begin_Doublebuffer_sized:
  assumes "\<not> js_strict_neq (width (framebuffers w (getWriteBuffer (doublebuffers w d))))
             (scaled (canvas_width w) (scale (framebuffers w (getWriteBuffer (doublebuffers w d)))))"
      and "\<not> js_strict_neq (height (framebuffers w (getWriteBuffer (doublebuffers w d))))
             (scaled (canvas_height w) (scale (framebuffers w (getWriteBuffer (doublebuffers w d)))))"
  shows "\<exists>w0. draw_begin s (Doublebuffer_target d) w = (Return (), w0)
           \<and> framebuffers w0 = framebuffers w"
  using assms
  by (simp add: draw_begin_def target_bind_def Doublebuffer_bind_def Framebuffer_bind_def Let_def)

lemma draw_returns:
  assumes "draw_begin s target w = (Return (), w0)"
      and "activate_uniforms n s us w0 = Some (Return (), w2)"
  shows "draw n s target us w = Some (Return (), draw_end s target w2)"
  using assms by (simp add: draw_def)

lemma activate_uniforms_single:
  assumes "getUniformLocation s key w = (loc, w1)"
      and "activate n v loc s w1 = Some (Return (), w2)"
  shows "activate_uniforms n s [(key, v)] w = Some (Return (), w2)"
  using assms by simp

lemma seeds_wrapped_doublebuffer_world: "seeds_wrapped doublebuffer_world"
  by (simp add: seeds_wrapped_def doublebuffer_world_simps empty_doublebuffer_def)

lemma activate_counter_bound:
  "activate n v loc s w2 = Some (Return (), w3) \<Longrightarrow> image_like v \<Longrightarrow> seeds_wrapped w2 \<Longrightarrow>
        textureCounter (shaders w2 s) \<le> 31"
proof (induction n arbitrary: v w2 w3)
  case 0
  then show ?case by simp
next
  case (Suc m)
  show ?case
  proof (cases v)
    case (Framebuffer_source f)
    with Suc.prems have "activate m (FramebufferTexture f 0) loc s w2 = Some (Return (), w3)"
      by (simp add: getTexture_def)
    from Suc.IH [OF this _ Suc.prems(3)] show ?thesis by simp
  next
    case (FramebufferTexture f index)
    with Suc.prems have "FramebufferTexture_activate f index loc s w2 = (Return (), w3)"
      by simp
    from FramebufferTexture_activate_slot [OF this] show ?thesis by simp
  next
    case (Doublebuffer_source d)
    show ?thesis
    proof (cases "getReadBuffer (doublebuffers w2 d)")
      case (Inl e)
      with Suc.prems Doublebuffer_source show ?thesis by auto
    next
      case (Inr rb)
      with Suc.prems Doublebuffer_source
      have a: "activate m rb loc s w2 = Some (Return (), w3)" by simp
      from Suc.IH [OF a read_buffer_image_like [OF Inr Suc.prems(3)] Suc.prems(3)]
      show ?thesis .
    qed
  next
    case (U_sampler2D img params)
    define inner where "inner =
      (case img of
         TexImageSource i \<Rightarrow> Some (wrapTexImageSource_activate i loc s w2)
       | A_Framebuffer f \<Rightarrow> activate m (Framebuffer_source f) loc s w2
       | A_FramebufferTexture f index \<Rightarrow> activate m (FramebufferTexture f index) loc s w2
       | A_Doublebuffer d \<Rightarrow> activate m (Doublebuffer_source d) loc s w2)"
    from Suc.prems U_sampler2D obtain wi where i: "inner = Some (Return (), wi)"
      by (cases inner) (auto simp: inner_def split: outcome.splits)
    show ?thesis
    proof (cases img)
      case (TexImageSource im)
      with i have "wrapTexImageSource_activate im loc s w2 = (Return (), wi)"
        by (simp add: inner_def)
      from wrapTexImageSource_activate_slot [OF this] show ?thesis by simp
    next
      case (A_Framebuffer f)
      with i have "activate m (Framebuffer_source f) loc s w2 = Some (Return (), wi)"
        by (simp add: inner_def)
      from Suc.IH [OF this _ Suc.prems(3)] show ?thesis by simp
    next
      case (A_FramebufferTexture f index)
      with i have "activate m (FramebufferTexture f index) loc s w2 = Some (Return (), wi)"
        by (simp add: inner_def)
      from Suc.IH [OF this _ Suc.prems(3)] show ?thesis by simp
    next
      case (A_Doublebuffer d)
      with i have "activate m (Doublebuffer_source d) loc s w2 = Some (Return (), wi)"
        by (simp add: inner_def)
      from Suc.IH [OF this _ Suc.prems(3)] show ?thesis by simp
    qed
  qed (use Suc.prems in simp_all)
qed

lemma seeded_world_facts:
  "doublebuffers (seed 1 (TexImageSource 0) doublebuffer_world) 1
     = \<lparr>seedBuffer = Some (U_sampler2D (TexImageSource 0) No_params), buffers = (2, 3), count = 0\<rparr>"
  "doublebuffers (advance 1 (seed 1 (TexImageSource 0) doublebuffer_world)) 1
     = \<lparr>seedBuffer = Some (U_sampler2D (TexImageSource 0) No_params), buffers = (2, 3), count = 1\<rparr>"
  by (simp_all add: seed_def advance_def doublebuffer_world_simps)

subsection \<open>The two buffers of a Doublebuffer\<close>

lemma map_effect_init_texture_binding [simp]:
  "FRAMEBUFFER_BINDING (gl (snd (map_effect (Framebuffer_init_texture f) is w)))
     = FRAMEBUFFER_BINDING (gl w)"
proof (induction "is" arbitrary: w)
  case Nil
  show ?case by simp
next
  case (Cons i "is")
  obtain r1 w1 where s: "Framebuffer_init_texture f i w = (r1, w1)"
    by (cases "Framebuffer_init_texture f i w")
  have "FRAMEBUFFER_BINDING (gl (snd (Framebuffer_init_texture f i w))) = FRAMEBUFFER_BINDING (gl w)"
    by (simp add: Framebuffer_init_texture_def createTexture_def gl_createTexture_def
          gl_bindTexture_def gl_texImage2D_null_def update_bound_texture_def bound_texture_def
          gl_framebufferTexture2D_def update_bound_framebuffer_def Let_def split_def
          split: sum.splits option.splits)
  with s have n1: "FRAMEBUFFER_BINDING (gl w1) = FRAMEBUFFER_BINDING (gl w)" by simp
  show ?case
  proof (cases r1)
    case (Throw e)
    with s n1 show ?thesis by simp
  next
    case (Return t)
    obtain r2 w2 where m: "map_effect (Framebuffer_init_texture f) is w1 = (r2, w2)"
      by (cases "map_effect (Framebuffer_init_texture f) is w1")
    from Cons.IH [of w1] m have "FRAMEBUFFER_BINDING (gl w2) = FRAMEBUFFER_BINDING (gl w1)"
      by simp
    with s m n1 Return show ?thesis by (cases r2) simp_all
  qed
qed

lemma Framebuffer_init_binding:
  "FRAMEBUFFER_BINDING (gl (snd (Framebuffer_init f w)))
     = fbo (framebuffers (snd (Framebuffer_init f w)) f)"
  unfolding Framebuffer_init_def Let_def split_def
  by (auto split: prod.splits outcome.splits sum.splits if_splits option.splits
        simp: gl_bindFramebuffer_def gl_drawBuffers_def update_bound_framebuffer_def)

lemma Framebuffer_bind_binding:
  "FRAMEBUFFER_BINDING (gl (snd (Framebuffer_bind f w)))
     = fbo (framebuffers (snd (Framebuffer_bind f w)) f)"
  by (simp add: Framebuffer_bind_def Let_def Framebuffer_init_binding gl_bindFramebuffer_def)

lemma draw_begin_binds_write_buffer:
  "FRAMEBUFFER_BINDING (gl (snd (draw_begin s (Doublebuffer_target d) w)))
     = fbo (framebuffers (snd (draw_begin s (Doublebuffer_target d) w))
             (getWriteBuffer (doublebuffers w d)))"
proof -
  define w2 where "w2 = update_shader s (\<lambda>sh. sh\<lparr>textureCounter := 0\<rparr>)
      (on_gl (gl_useProgram (Some (program (shaders w s)))) w)"
  let ?wb = "getWriteBuffer (doublebuffers w d)"
  obtain r3 w3 where b: "Framebuffer_bind ?wb w2 = (r3, w3)" by (cases "Framebuffer_bind ?wb w2")
  from Framebuffer_bind_binding [of ?wb w2] b
  have k: "FRAMEBUFFER_BINDING (gl w3) = fbo (framebuffers w3 ?wb)" by simp
  have t: "target_bind (Doublebuffer_target d) w2 = (r3, w3)"
    using b by (simp add: target_bind_def Doublebuffer_bind_def w2_def)
  have "snd (draw_begin s (Doublebuffer_target d) w) = w3
      \<or> snd (draw_begin s (Doublebuffer_target d) w)
          = on_gl (gl_viewport 0 0 (ToInt32 (target_width (Doublebuffer_target d) w3))
                     (ToInt32 (target_height (Doublebuffer_target d) w3))) w3"
    unfolding draw_begin_def Let_def w2_def [symmetric] t by (cases r3) simp_all
  with k show ?thesis by (auto simp: gl_viewport_def)
qed

text \<open>
  Claim C1. For every Doublebuffer with generation counter \<open>g\<close>: the write buffer, which is
  what a draw call targeting the Doublebuffer binds (after \<open>draw_begin\<close> the bound GL
  framebuffer is the one of that Framebuffer), is \<open>buffers[(g+1) mod 2]\<close>. When \<open>g > 0\<close> the
  read buffer is texture 0 of \<open>buffers[g mod 2]\<close>, and this is what activating the
  Doublebuffer as a uniform source and flushing it use. When \<open>g = 0\<close> and a seed was set, the
  read buffer is the seed source. The two indices \<open>g mod 2\<close> and \<open>(g+1) mod 2\<close> always differ,
  so with two distinct Framebuffers the Framebuffer read is never the Framebuffer written.
\<close>

theorem doublebuffer_reads_and_writes:
  fixes w :: world and d :: ref
  defines "db \<equiv> doublebuffers w d"
  shows "getWriteBuffer db = buffer_at (buffers db) ((count db + 1) mod 2)
       \<and> target_bind (Doublebuffer_target d) w
           = Framebuffer_bind (buffer_at (buffers db) ((count db + 1) mod 2)) w
       \<and> FRAMEBUFFER_BINDING (gl (snd (draw_begin s (Doublebuffer_target d) w)))
           = fbo (framebuffers (snd (draw_begin s (Doublebuffer_target d) w))
                   (buffer_at (buffers db) ((count db + 1) mod 2)))
       \<and> (0 < count db \<longrightarrow>
             getReadBuffer db = Inr (getTexture (buffer_at (buffers db) (count db mod 2)) 0)
           \<and> activate (Suc (Suc n)) (Doublebuffer_source d) loc s w
               = Some (FramebufferTexture_activate (buffer_at (buffers db) (count db mod 2)) 0 loc s w)
           \<and> Doublebuffer_flush n d w
               = draw n (blitShader w) Out
                   [(''u_texture'', getTexture (buffer_at (buffers db) (count db mod 2)) 0)] w)
       \<and> (count db = 0 \<and> seedBuffer db = Some sd \<longrightarrow>
             getReadBuffer db = Inr sd
           \<and> activate (Suc n) (Doublebuffer_source d) loc s w = activate n sd loc s w
           \<and> Doublebuffer_flush n d w = draw n (blitShader w) Out [(''u_texture'', sd)] w)
       \<and> count db mod 2 \<noteq> (count db + 1) mod 2
       \<and> (fst (buffers db) \<noteq> snd (buffers db) \<longrightarrow>
             buffer_at (buffers db) (count db mod 2)
               \<noteq> buffer_at (buffers db) ((count db + 1) mod 2))"
proof -
  have 1: "getWriteBuffer db = buffer_at (buffers db) ((count db + 1) mod 2)"
    by (simp add: getWriteBuffer_def)
  have 2: "target_bind (Doublebuffer_target d) w
           = Framebuffer_bind (buffer_at (buffers db) ((count db + 1) mod 2)) w"
    by (simp add: target_bind_def Doublebuffer_bind_def getWriteBuffer_def db_def)
  have 3: "FRAMEBUFFER_BINDING (gl (snd (draw_begin s (Doublebuffer_target d) w)))
           = fbo (framebuffers (snd (draw_begin s (Doublebuffer_target d) w))
                   (buffer_at (buffers db) ((count db + 1) mod 2)))"
    using draw_begin_binds_write_buffer [of s d w] by (simp add: getWriteBuffer_def db_def)
  have 4: "getReadBuffer db = Inr (getTexture (buffer_at (buffers db) (count db mod 2)) 0)
           \<and> activate (Suc (Suc n)) (Doublebuffer_source d) loc s w
               = Some (FramebufferTexture_activate (buffer_at (buffers db) (count db mod 2)) 0 loc s w)
           \<and> Doublebuffer_flush n d w
               = draw n (blitShader w) Out
                   [(''u_texture'', getTexture (buffer_at (buffers db) (count db mod 2)) 0)] w"
    if "0 < count db"
    using that by (simp add: getReadBuffer_def Doublebuffer_flush_def getTexture_def db_def)
  have 5: "getReadBuffer db = Inr sd
           \<and> activate (Suc n) (Doublebuffer_source d) loc s w = activate n sd loc s w
           \<and> Doublebuffer_flush n d w = draw n (blitShader w) Out [(''u_texture'', sd)] w"
    if "count db = 0 \<and> seedBuffer db = Some sd"
    using that by (simp add: getReadBuffer_def Doublebuffer_flush_def db_def)
  have 6: "count db mod 2 \<noteq> (count db + 1) mod 2" by presburger
  have 7: "buffer_at (buffers db) (count db mod 2) \<noteq> buffer_at (buffers db) ((count db + 1) mod 2)"
    if "fst (buffers db) \<noteq> snd (buffers db)"
  proof (cases "count db mod 2 = 0")
    case True
    then have "(count db + 1) mod 2 = 1" by presburger
    with True that show ?thesis by (simp add: buffer_at_def)
  next
    case False
    then have "count db mod 2 = 1" "(count db + 1) mod 2 = 0" by presburger+
    with that show ?thesis by (simp add: buffer_at_def)
  qed
  from 1 2 3 4 5 6 7 show ?thesis by blast
qed

theorem doublebuffer_reads_and_writes_witness:
  "0 < count (doublebuffers (advance 1 (seed 1 (TexImageSource 0) doublebuffer_world)) 1)
   \<and> getReadBuffer (doublebuffers (advance 1 (seed 1 (TexImageSource 0) doublebuffer_world)) 1)
       = Inr (getTexture 3 0)
   \<and> getWriteBuffer (doublebuffers (advance 1 (seed 1 (TexImageSource 0) doublebuffer_world)) 1) = 2
   \<and> count (doublebuffers (seed 1 (TexImageSource 0) doublebuffer_world) 1) = 0
   \<and> seedBuffer (doublebuffers (seed 1 (TexImageSource 0) doublebuffer_world) 1)
       = Some (U_sampler2D (TexImageSource 0) No_params)
   \<and> getReadBuffer (doublebuffers (seed 1 (TexImageSource 0) doublebuffer_world) 1)
       = Inr (U_sampler2D (TexImageSource 0) No_params)
   \<and> getWriteBuffer (doublebuffers (seed 1 (TexImageSource 0) doublebuffer_world) 1) = 3"
proof -
  let ?w0 = "seed 1 (TexImageSource 0) doublebuffer_world"
  let ?w1 = "advance 1 ?w0"
  have h1: "0 < count (doublebuffers ?w1 1)" by (simp add: seeded_world_facts [unfolded One_nat_def])
  have h0: "count (doublebuffers ?w0 1) = 0
      \<and> seedBuffer (doublebuffers ?w0 1) = Some (U_sampler2D (TexImageSource 0) No_params)"
    by (simp add: seeded_world_facts [unfolded One_nat_def])
  note t1 = doublebuffer_reads_and_writes [of ?w1 1 0 0 None
      "U_sampler2D (TexImageSource 0) No_params"]
  note t0 = doublebuffer_reads_and_writes [of ?w0 1 0 0 None
      "U_sampler2D (TexImageSource 0) No_params"]
  from t1 h1 have a: "getReadBuffer (doublebuffers ?w1 1) = Inr (getTexture 3 0)
      \<and> getWriteBuffer (doublebuffers ?w1 1) = 2"
    by (simp add: seeded_world_facts [unfolded One_nat_def] buffer_at_def)
  from t0 h0 have b: "getReadBuffer (doublebuffers ?w0 1)
       = Inr (U_sampler2D (TexImageSource 0) No_params)
      \<and> getWriteBuffer (doublebuffers ?w0 1) = 3"
    by (simp add: seeded_world_facts [unfolded One_nat_def] buffer_at_def)
  from h1 h0 a b show ?thesis by blast
qed

subsection \<open>Reading a Doublebuffer that was never seeded\<close>

text \<open>
  Claim C3. Reading from a Doublebuffer fails exactly when its generation counter is 0 and
  no seed was set, and the error is then the one with the message of
  \<open>UnseededBufferReadError\<close>. With counter 0 and a seed, the read returns the seed source.
  An unseeded read through \<open>activate\<close> or through \<open>flush\<close> throws that error and leaves the
  whole state as it was, the Doublebuffer included; and a draw call that throws, for this or
  any other reason, leaves every Doublebuffer (counter, seed, buffers) unchanged.
\<close>

theorem unseeded_read_fails:
  fixes w :: world and d :: ref
  defines "db \<equiv> doublebuffers w d"
  shows "((getReadBuffer db = Inl UnseededBufferReadError) = (count db = 0 \<and> seedBuffer db = None))
       \<and> ((\<exists>e. getReadBuffer db = Inl e) = (count db = 0 \<and> seedBuffer db = None))
       \<and> (count db = 0 \<and> seedBuffer db = Some sd \<longrightarrow> getReadBuffer db = Inr sd)
       \<and> (count db = 0 \<and> seedBuffer db = None \<longrightarrow>
            Doublebuffer_activate (Suc n) d loc s w = Some (Throw UnseededBufferReadError, w)
            \<and> Doublebuffer_flush n d w = Some (Throw UnseededBufferReadError, w))
       \<and> (draw n s target us w = Some (Throw e, w') \<longrightarrow> doublebuffers w' = doublebuffers w)"
proof -
  have 1: "(getReadBuffer db = Inl UnseededBufferReadError) = (count db = 0 \<and> seedBuffer db = None)"
    by (auto simp: getReadBuffer_def UnseededBufferReadError_def split: option.splits)
  have 2: "(\<exists>e. getReadBuffer db = Inl e) = (count db = 0 \<and> seedBuffer db = None)"
    by (auto simp: getReadBuffer_def split: option.splits)
  have 3: "getReadBuffer db = Inr sd" if "count db = 0 \<and> seedBuffer db = Some sd"
    using that by (simp add: getReadBuffer_def)
  have 4: "Doublebuffer_activate (Suc n) d loc s w = Some (Throw UnseededBufferReadError, w)
            \<and> Doublebuffer_flush n d w = Some (Throw UnseededBufferReadError, w)"
    if "count db = 0 \<and> seedBuffer db = None"
  proof -
    from that 1 have "getReadBuffer (doublebuffers w d) = Inl UnseededBufferReadError"
      by (simp add: db_def)
    then show ?thesis by (simp add: Doublebuffer_activate_def Doublebuffer_flush_def)
  qed
  have 5: "doublebuffers w' = doublebuffers w" if "draw n s target us w = Some (Throw e, w')"
    using that by (rule draw_throw_doublebuffers)
  from 1 2 3 4 5 show ?thesis by blast
qed

theorem unseeded_read_fails_witness:
  "count (doublebuffers doublebuffer_world 1) = 0
   \<and> seedBuffer (doublebuffers doublebuffer_world 1) = None
   \<and> getReadBuffer (doublebuffers doublebuffer_world 1) = Inl UnseededBufferReadError
   \<and> Doublebuffer_activate 1 1 (Some 0) 0 doublebuffer_world
       = Some (Throw UnseededBufferReadError, doublebuffer_world)
   \<and> Doublebuffer_flush 0 1 doublebuffer_world
       = Some (Throw UnseededBufferReadError, doublebuffer_world)
   \<and> (\<exists>w'. draw 1 0 Out [(''u_texture'', Doublebuffer_source 1)] doublebuffer_world
              = Some (Throw UnseededBufferReadError, w')
          \<and> doublebuffers w' = doublebuffers doublebuffer_world)
   \<and> seedBuffer (doublebuffers (seed 1 (TexImageSource 0) doublebuffer_world) 1)
       = Some (U_sampler2D (TexImageSource 0) No_params)
   \<and> getReadBuffer (doublebuffers (seed 1 (TexImageSource 0) doublebuffer_world) 1)
       = Inr (U_sampler2D (TexImageSource 0) No_params)"
proof -
  let ?w = doublebuffer_world
  let ?sd = "U_sampler2D (TexImageSource 0) No_params"
  have h: "count (doublebuffers ?w 1) = 0 \<and> seedBuffer (doublebuffers ?w 1) = None"
    by (simp add: doublebuffer_world_simps)
  have h0: "count (doublebuffers (seed 1 (TexImageSource 0) ?w) 1) = 0
      \<and> seedBuffer (doublebuffers (seed 1 (TexImageSource 0) ?w) 1) = Some ?sd"
    by (simp add: seeded_world_facts [unfolded One_nat_def])
  obtain w0 where b: "draw_begin 0 Out ?w = (Return (), w0)" by (simp add: draw_begin_Out)
  obtain loc w1 where g: "getUniformLocation 0 ''u_texture'' w0 = (loc, w1)"
    by (cases "getUniformLocation 0 ''u_texture'' w0")
  have db: "doublebuffers w1 = doublebuffers ?w"
    using draw_begin_frame [OF b] getUniformLocation_frame [OF g] by simp
  note t1 = unseeded_read_fails [of w1 1 ?sd 0 loc 0]
  from t1 h db have a: "Doublebuffer_activate 1 1 loc 0 w1 = Some (Throw UnseededBufferReadError, w1)"
    by simp
  have d: "draw 1 0 Out [(''u_texture'', Doublebuffer_source 1)] ?w
      = Some (Throw UnseededBufferReadError, w1)"
    using b g a by (simp add: draw_def Doublebuffer_activate_def)
  note t = unseeded_read_fails [of ?w 1 ?sd 0 "Some 0" 0]
  note t2 = unseeded_read_fails [of ?w 1 ?sd 1 "Some 0" 0 Out
      "[(''u_texture'', Doublebuffer_source 1)]" UnseededBufferReadError w1]
  note t0 = unseeded_read_fails [of "seed 1 (TexImageSource 0) ?w" 1 ?sd]
  from t h have a: "getReadBuffer (doublebuffers ?w 1) = Inl UnseededBufferReadError
   \<and> Doublebuffer_activate 1 1 (Some 0) 0 ?w = Some (Throw UnseededBufferReadError, ?w)
   \<and> Doublebuffer_flush 0 1 ?w = Some (Throw UnseededBufferReadError, ?w)"
    by simp
  from t2 d have c: "doublebuffers w1 = doublebuffers ?w" by blast
  from t0 h0 have b: "getReadBuffer (doublebuffers (seed 1 (TexImageSource 0) ?w) 1) = Inr ?sd"
    by blast
  from h h0 a b c d show ?thesis by blast
qed

subsection \<open>Consecutive draws onto a Doublebuffer\<close>

text \<open>
  Claim C2. A sequence of draw calls onto one Doublebuffer, each of which returns, and with
  no other call in between, raises the generation counter by the number of calls: started
  at generation 0, the counter is \<open>n\<close> after \<open>n\<close> draws. Within one such draw the counter is
  untouched by \<open>draw_begin\<close> and by the activation of all the uniforms, which therefore see
  the generation the draw started with, and it is raised exactly once, by \<open>draw_end\<close>, after
  the loop over the uniforms. A draw that throws does not advance the counter.
\<close>

theorem draws_advance_counter:
  "(consecutive_draws n d calls w = Some (Return (), w') \<longrightarrow>
      count (doublebuffers w' d) = count (doublebuffers w d) + length calls
      \<and> (count (doublebuffers w d) = 0 \<longrightarrow> count (doublebuffers w' d) = length calls))
   \<and> (draw n s (Doublebuffer_target d) us w = Some (Return (), w1) \<longrightarrow>
        (\<exists>w0 w2. draw_begin s (Doublebuffer_target d) w = (Return (), w0)
           \<and> activate_uniforms n s us w0 = Some (Return (), w2)
           \<and> count (doublebuffers w0 d) = count (doublebuffers w d)
           \<and> count (doublebuffers w2 d) = count (doublebuffers w d)
           \<and> w1 = draw_end s (Doublebuffer_target d) w2
           \<and> count (doublebuffers w1 d) = count (doublebuffers w d) + 1))
   \<and> (draw n s (Doublebuffer_target d) us w = Some (Throw e, w1) \<longrightarrow>
        count (doublebuffers w1 d) = count (doublebuffers w d))"
proof (intro conjI impI)
  show seq: "count (doublebuffers w' d) = count (doublebuffers w d) + length calls"
    if "consecutive_draws n d calls w = Some (Return (), w')"
    using that
  proof (induction calls arbitrary: w)
    case Nil
    then show ?case by simp
  next
    case (Cons c calls)
    obtain s us where c: "c = (s, us)" by (cases c)
    from Cons.prems c obtain w1 where
      d1: "draw n s (Doublebuffer_target d) us w = Some (Return (), w1)"
      and rest: "consecutive_draws n d calls w1 = Some (Return (), w')"
      by (cases "draw n s (Doublebuffer_target d) us w") (auto split: outcome.splits)
    from draw_return_doublebuffers [OF d1] Cons.IH [OF rest] show ?case by simp
  qed
  show "count (doublebuffers w' d) = length calls"
    if "consecutive_draws n d calls w = Some (Return (), w')" "count (doublebuffers w d) = 0"
    using seq [OF that(1)] that(2) by simp
  show "\<exists>w0 w2. draw_begin s (Doublebuffer_target d) w = (Return (), w0)
           \<and> activate_uniforms n s us w0 = Some (Return (), w2)
           \<and> count (doublebuffers w0 d) = count (doublebuffers w d)
           \<and> count (doublebuffers w2 d) = count (doublebuffers w d)
           \<and> w1 = draw_end s (Doublebuffer_target d) w2
           \<and> count (doublebuffers w1 d) = count (doublebuffers w d) + 1"
    if "draw n s (Doublebuffer_target d) us w = Some (Return (), w1)"
    using that
  proof (cases rule: draw_cases)
    case (returns w0 w2)
    from draw_begin_frame [OF returns(1)] activate_uniforms_frame [OF returns(2)] returns
    show ?thesis by (simp add: draw_end_frame)
  qed simp_all
  show "count (doublebuffers w1 d) = count (doublebuffers w d)"
    if "draw n s (Doublebuffer_target d) us w = Some (Throw e, w1)"
    using draw_throw_doublebuffers [OF that] by simp
qed

theorem draws_advance_counter_witness:
  "count (doublebuffers doublebuffer_world 1) = 0
   \<and> (\<exists>w'. consecutive_draws (Suc (Suc 0)) 1
              [(0, []), (0, [(''u_texture'', Doublebuffer_source 1)])] doublebuffer_world
            = Some (Return (), w')
          \<and> count (doublebuffers w' 1) = 2)"
proof -
  let ?w = doublebuffer_world
  let ?n = "Suc (Suc 0)"
  let ?t = "Doublebuffer_target 1"
  have c0: "count (doublebuffers ?w 1) = 0" by (simp add: doublebuffer_world_simps)
  have wb0: "getWriteBuffer (doublebuffers ?w 1) = 3"
    by (simp add: getWriteBuffer_def buffer_at_def doublebuffer_world_simps)
  have s0: "\<not> js_strict_neq (width (framebuffers ?w (getWriteBuffer (doublebuffers ?w 1))))
             (scaled (canvas_width ?w) (scale (framebuffers ?w (getWriteBuffer (doublebuffers ?w 1)))))"
    "\<not> js_strict_neq (height (framebuffers ?w (getWriteBuffer (doublebuffers ?w 1))))
             (scaled (canvas_height ?w) (scale (framebuffers ?w (getWriteBuffer (doublebuffers ?w 1)))))"
    unfolding wb0 by (simp_all add: doublebuffer_world_simps js_strict_neq_def)
  from draw_begin_Doublebuffer_sized [OF s0, of 0] obtain w0 where
    b1: "draw_begin 0 ?t ?w = (Return (), w0)" and fb0: "framebuffers w0 = framebuffers ?w"
    by blast
  have d1: "draw ?n 0 ?t [] ?w = Some (Return (), draw_end 0 ?t w0)"
    using b1 by (simp add: draw_def)
  define w1 where "w1 = draw_end 0 ?t w0"
  note f0 = draw_begin_frame [OF b1]
  have db1: "doublebuffers w1 1 = \<lparr>seedBuffer = None, buffers = (2, 3), count = 1\<rparr>"
    using f0 by (simp add: w1_def draw_end_frame doublebuffer_world_simps)
  note db1 = db1 [unfolded One_nat_def]
  have fr1: "framebuffers w1 = framebuffers ?w" "canvas_width w1 = 10" "canvas_height w1 = 10"
    using f0 fb0 by (simp_all add: w1_def draw_end_frame doublebuffer_world_simps)
  have wb1: "getWriteBuffer (doublebuffers w1 1) = 2"
    by (simp add: getWriteBuffer_def buffer_at_def db1)
  have s1: "\<not> js_strict_neq (width (framebuffers w1 (getWriteBuffer (doublebuffers w1 1))))
             (scaled (canvas_width w1) (scale (framebuffers w1 (getWriteBuffer (doublebuffers w1 1)))))"
    "\<not> js_strict_neq (height (framebuffers w1 (getWriteBuffer (doublebuffers w1 1))))
             (scaled (canvas_height w1) (scale (framebuffers w1 (getWriteBuffer (doublebuffers w1 1)))))"
    unfolding wb1 fr1 by (simp_all add: doublebuffer_world_simps js_strict_neq_def)
  from draw_begin_Doublebuffer_sized [OF s1, of 0] obtain w2 where
    b2: "draw_begin 0 ?t w1 = (Return (), w2)"
    by blast
  note f2 = draw_begin_frame [OF b2]
  obtain loc w3 where g: "getUniformLocation 0 ''u_texture'' w2 = (loc, w3)"
    by (cases "getUniformLocation 0 ''u_texture'' w2")
  note f3 = getUniformLocation_frame [OF g]
  have rb: "getReadBuffer (doublebuffers w3 1) = Inr (FramebufferTexture 3 0)"
    using f3 f2 by (simp add: getReadBuffer_def buffer_at_def db1 getTexture_def)
  have c3: "textureCounter (shaders w3 0) = 0" using f3 f2 by simp
  obtain w4 where a: "FramebufferTexture_activate 3 0 loc 0 w3 = (Return (), w4)"
    by (simp add: FramebufferTexture_activate_result c3)
  have a2: "activate ?n (Doublebuffer_source 1) loc 0 w3 = Some (Return (), w4)"
    using rb a by simp
  have d2: "draw ?n 0 ?t [(''u_texture'', Doublebuffer_source 1)] w1
      = Some (Return (), draw_end 0 ?t w4)"
    by (rule draw_returns [OF b2 activate_uniforms_single [OF g a2]])
  have seq: "consecutive_draws ?n 1 [(0, []), (0, [(''u_texture'', Doublebuffer_source 1)])] ?w
      = Some (Return (), draw_end 0 ?t w4)"
    using d1 d2 by (simp add: w1_def)
  from draws_advance_counter [of ?n 1 "[(0, []), (0, [(''u_texture'', Doublebuffer_source 1)])]"
      ?w "draw_end 0 ?t w4"] seq c0
  have "count (doublebuffers (draw_end 0 ?t w4) 1) = 2" by simp
  with seq c0 show ?thesis by blast
qed

subsection \<open>The texture units of one draw\<close>

text \<open>
  Claim C5. A draw call sets the texture counter of its shader to 0 before the first
  uniform is activated, whatever the counter was. When the uniforms \<open>before\<close> have been
  activated, the counter is the number of image-like sources among them; an image-like
  source activated next claims that number as its texture unit (the active unit is
  \<open>TEXTURE k\<close> and the sampler uniform is set to \<open>k\<close>, for a source whose texture parameters
  are set by the library) and leaves the counter one higher. So the image-like sources of
  one draw get the units 0, 1, 2, ... in the order of activation, and at most 32 of them
  can be activated.
\<close>

theorem draw_texture_slots:
  assumes "seeds_wrapped w"
      and "draw_begin s target w = (Return (), w0)"
      and "activate_uniforms n s before w0 = Some (Return (), w1)"
      and "getUniformLocation s key w1 = (loc, w2)"
      and "image_like v"
      and "activate n v loc s w2 = Some (Return (), w3)"
  shows "getTextureCounter s w0 = 0
       \<and> getTextureCounter s w2 = int (length (filter image_like (map snd before)))
       \<and> getTextureCounter s w3 = getTextureCounter s w2 + 1
       \<and> length (filter image_like (map snd before)) \<le> 31
       \<and> (library_params v \<longrightarrow>
            ACTIVE_TEXTURE (gl w3) = TEXTURE (length (filter image_like (map snd before)))
            \<and> (\<forall>l p. loc = Some l \<longrightarrow> CURRENT_PROGRAM (gl w2) = Some p \<longrightarrow>
                  uniform_values (gl w3) p l
                    = Some (Uniform1i (int (length (filter image_like (map snd before)))))))
       \<and> draw n s target (before @ [(key, v)]) w = Some (Return (), draw_end s target w3)"
proof -
  let ?k = "length (filter image_like (map snd before))"
  note b = draw_begin_frame [OF assms(2)]
  from b assms(1) have s0: "seeds_wrapped w0" by (simp add: seeds_wrapped_def)
  from activate_uniforms_frame [OF assms(3)] s0 have s1: "seeds_wrapped w1"
    by (simp add: seeds_wrapped_def)
  note g = getUniformLocation_frame [OF assms(4)]
  from g s1 have s2: "seeds_wrapped w2" by (simp add: seeds_wrapped_def)
  have c0: "getTextureCounter s w0 = 0" using b by (simp add: getTextureCounter_def)
  have c2: "getTextureCounter s w2 = int ?k"
    using activate_uniforms_counter [OF s0 assms(3)] b g by (simp add: getTextureCounter_def)
  have c3: "getTextureCounter s w3 = getTextureCounter s w2 + 1"
    using activate_counter [OF s2 assms(6)] assms(5) by (simp add: getTextureCounter_def)
  have d: "draw n s target (before @ [(key, v)]) w = Some (Return (), draw_end s target w3)"
    using assms(2,3,4,6) by (simp add: draw_def activate_uniforms_append)
  have r: "?k \<le> 31"
    using activate_counter_bound [OF assms(6,5) s2] c2 by (simp add: getTextureCounter_def)
  have sl: "ACTIVE_TEXTURE (gl w3) = TEXTURE ?k
            \<and> (\<forall>l p. loc = Some l \<longrightarrow> CURRENT_PROGRAM (gl w2) = Some p \<longrightarrow>
                  uniform_values (gl w3) p l = Some (Uniform1i (int ?k)))"
    if "library_params v"
    using activate_slot [OF s2 assms(5) that assms(6)] c2 by (simp add: getTextureCounter_def)
  from c0 c2 c3 r sl d show ?thesis by blast
qed

theorem draw_texture_slots_witness:
  "seeds_wrapped (incTextureCounter 0 doublebuffer_world)
   \<and> getTextureCounter 0 (incTextureCounter 0 doublebuffer_world) = 1
   \<and> image_like (getTexture 3 0) \<and> library_params (getTexture 3 0)
   \<and> (\<exists>w3. draw (Suc 0) 0 Out [(''u_texture'', getTexture 2 0), (''u_other'', getTexture 3 0)]
              (incTextureCounter 0 doublebuffer_world)
            = Some (Return (), draw_end 0 Out w3)
          \<and> ACTIVE_TEXTURE (gl w3) = TEXTURE 1
          \<and> getTextureCounter 0 w3 = 2)"
proof -
  let ?w = "incTextureCounter 0 doublebuffer_world"
  let ?n = "Suc 0"
  have sw: "seeds_wrapped ?w"
    using seeds_wrapped_doublebuffer_world
    by (simp add: seeds_wrapped_def incTextureCounter_def)
  have c0: "getTextureCounter 0 ?w = 1"
    by (simp add: getTextureCounter_def incTextureCounter_def update_shader_def
          doublebuffer_world_simps example_shader_counter)
  obtain w0 where b: "draw_begin 0 Out ?w = (Return (), w0)" by (simp add: draw_begin_Out)
  note f0 = draw_begin_frame [OF b]
  obtain l1 wa where g1: "getUniformLocation 0 ''u_texture'' w0 = (l1, wa)"
    by (cases "getUniformLocation 0 ''u_texture'' w0")
  note fa = getUniformLocation_frame [OF g1]
  have ca: "textureCounter (shaders wa 0) = 0" using fa f0 by simp
  obtain w1 where a1: "FramebufferTexture_activate 2 0 l1 0 wa = (Return (), w1)"
    by (simp add: FramebufferTexture_activate_result ca)
  have u1: "activate_uniforms ?n 0 [(''u_texture'', getTexture 2 0)] w0 = Some (Return (), w1)"
    using g1 a1 by (simp add: getTexture_def)
  have c1: "textureCounter (shaders w1 0) = 1"
    using FramebufferTexture_activate_frame [OF a1] ca by simp
  obtain l2 w2 where g2: "getUniformLocation 0 ''u_other'' w1 = (l2, w2)"
    by (cases "getUniformLocation 0 ''u_other'' w1")
  note f2 = getUniformLocation_frame [OF g2]
  have c2: "textureCounter (shaders w2 0) = 1" using f2 c1 by simp
  obtain w3 where a3: "FramebufferTexture_activate 3 0 l2 0 w2 = (Return (), w3)"
    by (simp add: FramebufferTexture_activate_result c2)
  have a3': "activate ?n (getTexture 3 0) l2 0 w2 = Some (Return (), w3)"
    using a3 by (simp add: getTexture_def)
  have i: "image_like (getTexture 3 0)" "library_params (getTexture 3 0)"
    by (simp_all add: getTexture_def)
  note t = draw_texture_slots [OF sw b u1 g2 i(1) a3']
  from t i(2) have "draw ?n 0 Out ([(''u_texture'', getTexture 2 0)] @ [(''u_other'', getTexture 3 0)]) ?w
            = Some (Return (), draw_end 0 Out w3)
          \<and> ACTIVE_TEXTURE (gl w3) = TEXTURE 1
          \<and> getTextureCounter 0 w3 = 2"
    by (simp add: getTexture_def)
  then have "\<exists>w3. draw ?n 0 Out [(''u_texture'', getTexture 2 0), (''u_other'', getTexture 3 0)] ?w
            = Some (Return (), draw_end 0 Out w3)
          \<and> ACTIVE_TEXTURE (gl w3) = TEXTURE 1
          \<and> getTextureCounter 0 w3 = 2"
    by auto
  with sw c0 i show ?thesis by blast
qed

subsection \<open>Construction of a Shader\<close>

lemma Shader_createShader_result:
  "Shader_createShader type source w =
    (let w3 = w\<lparr>gl := (gl w)\<lparr>next_name := Suc (next_name (gl w)),
                 shader_objects := (shader_objects (gl w))
                   (next_name (gl w) \<mapsto>
                      \<lparr>shader_type = type, shader_source = source,
                       COMPILE_STATUS = compiles (dev w) type source\<rparr>)\<rparr>\<rparr>
     in if compiles (dev w) type source then (Return (next_name (gl w)), w3)
        else (Throw ShaderCompilationError,
              console_error (Error_compiling_shader (info_log (dev w) type source)) w3))"
  by (simp add: Shader_createShader_def gl_createShader_def gl_shaderSource_def on_gl_def
        gl_compileShader_def gl_getShaderParameter_COMPILE_STATUS_def gl_getShaderInfoLog_def
        ShaderCompilationError_def Let_def console_error_def)

lemma createQuad_frame:
  "program_objects (gl (createQuad a b w)) = program_objects (gl w)"
  "shader_objects (gl (createQuad a b w)) = shader_objects (gl w)"
  "dev (createQuad a b w) = dev w" "shaders (createQuad a b w) = shaders w"
  "next_ref (createQuad a b w) = next_ref w"
  by (simp_all add: createQuad_def gl_createBuffer_def gl_bindBuffer_def gl_bufferData_def
        gl_vertexAttribPointer_def Let_def split_def)

lemma Shader_createProgram_result:
  assumes "Shader_createProgram v f w = (prog, w')"
  shows "prog = next_name (gl w)
       \<and> program_objects (gl w') prog
           = Some \<lparr>attached_shaders = [v, f],
                   LINK_STATUS = links (dev w) (stage_texts (gl w) [v, f])\<rparr>
       \<and> dev w' = dev w \<and> shaders w' = shaders w \<and> next_ref w' = next_ref w"
  using assms
  by (auto simp: Shader_createProgram_def gl_createProgram_def gl_attachShader_def
        gl_linkProgram_def gl_useProgram_def gl_enableVertexAttribArray_def on_gl_def
        createQuad_frame stage_texts_def Let_def split_def)

text \<open>
  Claim C4. Construction of a Shader throws \<open>ShaderCompilationError\<close>, and enters no Shader
  into the store, when the vertex stage or the fragment stage does not compile. When both
  stages compile it returns a new Shader whatever the linker says: \<^verbatim>\<open>createProgram\<close> calls
  \<^verbatim>\<open>linkProgram\<close> and never asks for \<^verbatim>\<open>LINK_STATUS\<close>, so the program of the returned Shader
  has the link status the device gave it, which may be a failure.
\<close>

theorem createShader_link_status_unchecked:
  fixes src :: string and varyings :: "(string \<times> varying) list" and w :: world
  defines "vtx \<equiv> (if take 15 src = ''#version 300 es''
                    then vtxShaderSource3 (fst (resolve_varyings varyings)) (snd (resolve_varyings varyings))
                    else vtxShaderSource2 (fst (resolve_varyings varyings)) (snd (resolve_varyings varyings)))"
  shows "(\<not> compiles (dev w) VERTEX_SHADER vtx \<or> \<not> compiles (dev w) FRAGMENT_SHADER src \<longrightarrow>
           (\<exists>w'. createShader src varyings w = (Throw ShaderCompilationError, w')
                \<and> shaders w' = shaders w \<and> next_ref w' = next_ref w))
       \<and> (compiles (dev w) VERTEX_SHADER vtx \<and> compiles (dev w) FRAGMENT_SHADER src \<longrightarrow>
           (\<exists>w'. createShader src varyings w = (Return (next_ref w), w')
                \<and> gl_getProgramParameter_LINK_STATUS (gl w') (program (shaders w' (next_ref w)))
                    = links (dev w) [(VERTEX_SHADER, vtx), (FRAGMENT_SHADER, src)]))"
proof (intro conjI impI)
  let ?h = "next_name (gl w)"
  obtain uv xy where rv: "resolve_varyings varyings = (uv, xy)"
    by (cases "resolve_varyings varyings")
  have unf: "createShader src varyings w =
     (case Shader_createShader VERTEX_SHADER vtx w of
          (Throw e, w1) \<Rightarrow> (Throw e, w1)
        | (Return vtxShader, w1) \<Rightarrow>
           (case Shader_createShader FRAGMENT_SHADER src w1 of
              (Throw e, w2) \<Rightarrow> (Throw e, w2)
            | (Return fragShader, w2) \<Rightarrow>
               (let (prog, w3) = Shader_createProgram vtxShader fragShader w2;
                    flip = uniform_location (dev w3) prog ''u_fragfrog_flip'';
                    res = (if xy \<noteq> None \<and> xy \<noteq> Some []
                           then uniform_location (dev w3) prog ''u_fragfrog_res'' else None);
                    s = next_ref w3
                in (Return s,
                    w3\<lparr>next_ref := Suc s,
                       shaders := (shaders w3)
                         (s := \<lparr>program = prog, uniformLocations = (\<lambda>_. None),
                                shader_textures = Map.empty, u_flip = flip,
                                u_resParam = res, textureCounter = 0\<rparr>)\<rparr>))))"
    unfolding createShader_def rv vtx_def Let_def prod.case fst_conv snd_conv by (rule refl)
  define w1 where "w1 = w\<lparr>gl := (gl w)\<lparr>next_name := Suc ?h,
                 shader_objects := (shader_objects (gl w))
                   (?h \<mapsto> \<lparr>shader_type = VERTEX_SHADER, shader_source = vtx,
                            COMPILE_STATUS = compiles (dev w) VERTEX_SHADER vtx\<rparr>)\<rparr>\<rparr>"
  define w2 where "w2 = w1\<lparr>gl := (gl w1)\<lparr>next_name := Suc (Suc ?h),
                 shader_objects := (shader_objects (gl w1))
                   (Suc ?h \<mapsto> \<lparr>shader_type = FRAGMENT_SHADER, shader_source = src,
                            COMPILE_STATUS = compiles (dev w) FRAGMENT_SHADER src\<rparr>)\<rparr>\<rparr>"
  have v: "Shader_createShader VERTEX_SHADER vtx w =
      (if compiles (dev w) VERTEX_SHADER vtx then (Return ?h, w1)
       else (Throw ShaderCompilationError,
             console_error (Error_compiling_shader (info_log (dev w) VERTEX_SHADER vtx)) w1))"
    by (simp add: Shader_createShader_result w1_def Let_def)
  have f: "Shader_createShader FRAGMENT_SHADER src w1 =
      (if compiles (dev w) FRAGMENT_SHADER src then (Return (Suc ?h), w2)
       else (Throw ShaderCompilationError,
             console_error (Error_compiling_shader (info_log (dev w) FRAGMENT_SHADER src)) w2))"
    by (simp add: Shader_createShader_result w1_def w2_def Let_def)
  have fr: "shaders w1 = shaders w" "next_ref w1 = next_ref w" "shaders w2 = shaders w"
    "next_ref w2 = next_ref w" "dev w2 = dev w"
    by (simp_all add: w1_def w2_def)
  show "\<exists>w'. createShader src varyings w = (Throw ShaderCompilationError, w')
                \<and> shaders w' = shaders w \<and> next_ref w' = next_ref w"
    if "\<not> compiles (dev w) VERTEX_SHADER vtx \<or> \<not> compiles (dev w) FRAGMENT_SHADER src"
  proof (cases "compiles (dev w) VERTEX_SHADER vtx")
    case False
    then show ?thesis unfolding unf v by (simp add: fr)
  next
    case True
    with that have "\<not> compiles (dev w) FRAGMENT_SHADER src" by simp
    with True show ?thesis unfolding unf v by (simp add: f fr)
  qed
  show "\<exists>w'. createShader src varyings w = (Return (next_ref w), w')
                \<and> gl_getProgramParameter_LINK_STATUS (gl w') (program (shaders w' (next_ref w)))
                    = links (dev w) [(VERTEX_SHADER, vtx), (FRAGMENT_SHADER, src)]"
    if c: "compiles (dev w) VERTEX_SHADER vtx \<and> compiles (dev w) FRAGMENT_SHADER src"
  proof -
    obtain prog w3 where p: "Shader_createProgram ?h (Suc ?h) w2 = (prog, w3)"
      by (cases "Shader_createProgram ?h (Suc ?h) w2")
    note r = Shader_createProgram_result [OF p]
    have st: "stage_texts (gl w2) [?h, Suc ?h] = [(VERTEX_SHADER, vtx), (FRAGMENT_SHADER, src)]"
      by (simp add: stage_texts_def w2_def w1_def)
    from c have "createShader src varyings w =
        (Return (next_ref w3),
         w3\<lparr>next_ref := Suc (next_ref w3),
            shaders := (shaders w3)
              (next_ref w3 := \<lparr>program = prog, uniformLocations = (\<lambda>_. None),
                     shader_textures = Map.empty,
                     u_flip = uniform_location (dev w3) prog ''u_fragfrog_flip'',
                     u_resParam = (if xy \<noteq> None \<and> xy \<noteq> Some []
                           then uniform_location (dev w3) prog ''u_fragfrog_res'' else None),
                     textureCounter = 0\<rparr>)\<rparr>)"
      unfolding unf v by (simp add: f p Let_def)
    moreover from r have pe: "prog = next_name (gl w2)" by simp
    moreover from r st pe have "program_objects (gl w3) (next_name (gl w2))
        = Some \<lparr>attached_shaders = [?h, Suc ?h],
                LINK_STATUS = links (dev w) [(VERTEX_SHADER, vtx), (FRAGMENT_SHADER, src)]\<rparr>"
      by (simp add: fr)
    moreover from r have "next_ref w3 = next_ref w" by (simp add: fr)
    ultimately show ?thesis
      by (simp add: gl_getProgramParameter_LINK_STATUS_def)
  qed
qed

theorem createShader_link_status_unchecked_witness:
  "compiles unlinkable_device VERTEX_SHADER (vtxShaderSource2 ''v_tpos'' None)
   \<and> compiles unlinkable_device FRAGMENT_SHADER blitSrc
   \<and> \<not> links unlinkable_device
         [(VERTEX_SHADER, vtxShaderSource2 ''v_tpos'' None), (FRAGMENT_SHADER, blitSrc)]
   \<and> (\<exists>w'. createShader blitSrc [] (initial_world unlinkable_device 10 10 0) = (Return 0, w')
          \<and> \<not> gl_getProgramParameter_LINK_STATUS (gl w') (program (shaders w' 0)))"
proof -
  let ?w = "initial_world unlinkable_device 10 10 0"
  have d: "dev ?w = unlinkable_device" "next_ref ?w = 0" by (simp_all add: initial_world_def)
  have c: "compiles unlinkable_device VERTEX_SHADER (vtxShaderSource2 ''v_tpos'' None)"
    "compiles unlinkable_device FRAGMENT_SHADER blitSrc"
    "\<not> links unlinkable_device
         [(VERTEX_SHADER, vtxShaderSource2 ''v_tpos'' None), (FRAGMENT_SHADER, blitSrc)]"
    by (simp_all add: unlinkable_device_def example_device_def)
  have rv: "resolve_varyings [] = (''v_tpos'', None)" by (simp add: resolve_varyings_def)
  from createShader_link_status_unchecked [of ?w blitSrc "[]"] c
  have "\<exists>w'. createShader blitSrc [] ?w = (Return 0, w')
          \<and> \<not> gl_getProgramParameter_LINK_STATUS (gl w') (program (shaders w' 0))"
    by (simp add: d rv blitSrc_version)
  with c show ?thesis by blast
qed


end
